theory Spec2Isabelle
  imports Complex_Main
begin

section \<open>Thrown values\<close>

text \<open>
  Every \<^verbatim>\<open>throw\<close> of the TypeScript sources is a value of \<open>thrown\<close>: an
  \<^verbatim>\<open>Error\<close> instance carries its message and, when an HTTP client attached one, a
  numeric \<^verbatim>\<open>status\<close> property; anything else that can be thrown is \<open>Thrown\<close>.
  A function that may throw returns \<open>thrown + 'a\<close>.
\<close>

datatype thrown =
    Error (message: string) (status: "int option")
  | Thrown (status: "int option")

section \<open>The record store (database.ts)\<close>

text \<open>
  The columns of the two tables, as the \<^verbatim>\<open>CREATE TABLE\<close> statements of
  \<^verbatim>\<open>Database.init\<close> declare them. \<open>SummaryInput\<close> is the TypeScript type
  \<^verbatim>\<open>Omit<Summary, 'id' | 'created_at'>\<close>; \<open>Summary\<close> extends it by the two columns the
  store fills in.
\<close>

record Event =
  ev_id :: string
  ev_type :: string
  ev_repo :: string
  ev_actor :: string
  ev_created_at :: string
  ev_payload :: string
  ev_score :: "real option"
  ev_code_quality_score :: "real option"
  ev_category :: "string option"
  ev_repo_context :: "string option"
  ev_stored_at :: string

record SummaryInput =
  event_id :: string
  event_type :: string
  repo :: string
  actor :: string
  timestamp :: string
  root_cause :: string
  impact :: string
  next_steps :: string
  raw_summary :: string

record Summary = SummaryInput +
  summary_id :: int
  created_at :: string

text \<open>
  The contents of the SQLite file. \<open>events\<close> pairs each row with its rowid;
  \<open>summaries_seq\<close> is the \<^verbatim>\<open>sqlite_sequence\<close> entry of the \<^verbatim>\<open>AUTOINCREMENT\<close> key of
  \<^verbatim>\<open>summaries\<close> (the largest id ever handed out); \<open>counters\<close> is the table of that
  name; \<open>last_insert_rowid\<close> is the connection's value of the same name, which
  better-sqlite3 reports as \<^verbatim>\<open>lastInsertRowid\<close> of every \<^verbatim>\<open>run\<close>.
\<close>

record Tables =
  events :: "(int \<times> Event) list"
  summaries :: "Summary list"
  summaries_seq :: int
  counters :: "string \<rightharpoonup> int"
  last_insert_rowid :: int

text \<open>The field \<^verbatim>\<open>private db: BetterSqlite3.Database | null\<close> of class \<^verbatim>\<open>Database\<close>.\<close>

type_synonym Database = "Tables option"

definition empty_tables :: Tables where
  "empty_tables = \<lparr>events = [], summaries = [], summaries_seq = 0,
     counters = Map.empty, last_insert_rowid = 0\<rparr>"

definition not_initialized :: thrown where
  "not_initialized = Error ''Database not initialized'' None"

text \<open>
  \<^verbatim>\<open>init\<close> opens the file and runs the schema script: the tables are created when they
  are missing, and \<^verbatim>\<open>INSERT OR IGNORE INTO counters VALUES ('normal', 0)\<close> adds the
  counter row when there is none.
\<close>

definition init :: "Tables \<Rightarrow> Database" where
  "init file = Some (file\<lparr>counters :=
     (case counters file ''normal'' of
        None \<Rightarrow> (counters file)(''normal'' \<mapsto> 0)
      | Some _ \<Rightarrow> counters file)\<rparr>)"

text \<open>
  The event object the handlers and the poller pass around is typed \<^verbatim>\<open>any\<close>; the model
  keeps the fields the code reads: \<^verbatim>\<open>event.id\<close>, \<^verbatim>\<open>event.type\<close>,
  \<^verbatim>\<open>event.repo?.name\<close>, \<^verbatim>\<open>event.actor?.login\<close>, \<^verbatim>\<open>event.created_at\<close>, and the text that
  \<^verbatim>\<open>JSON.stringify(event)\<close> produces.
\<close>

record GitHubEvent =
  ge_id :: string
  ge_type :: string
  ge_repo_name :: "string option"
  ge_actor_login :: "string option"
  ge_created_at :: string
  ge_json :: string

definition next_rowid :: "(int \<times> Event) list \<Rightarrow> int" where
  "next_rowid rows = (if rows = [] then 1 else Max (set (map fst rows)) + 1)"

text \<open>\<^verbatim>\<open>x ?? 'unknown'\<close> on a possibly missing string.\<close>

definition nullish_or :: "string option \<Rightarrow> string \<Rightarrow> string" where
  "nullish_or x d = (case x of None \<Rightarrow> d | Some s \<Rightarrow> s)"

text \<open>\<^verbatim>\<open>score?.score || null\<close>: a missing score and the number 0 both store NULL.\<close>

definition score_or_null :: "real option \<Rightarrow> real option" where
  "score_or_null x = (case x of None \<Rightarrow> None | Some v \<Rightarrow> if v = 0 then None else Some v)"

text \<open>
  \<^verbatim>\<open>storeEvent\<close>: \<^verbatim>\<open>INSERT OR REPLACE\<close> on the primary key \<^verbatim>\<open>id\<close>. SQLite chooses the
  new rowid, one more than the largest in the table, before it resolves the conflict;
  then the row with the same id is deleted and the new one inserted. \<open>now\<close> is
  \<^verbatim>\<open>new Date().toISOString()\<close>; \<open>ctx\<close> is the stringified repository context.
\<close>

definition storeEvent ::
  "string \<Rightarrow> Database \<Rightarrow> GitHubEvent \<Rightarrow> real option \<Rightarrow> real option \<Rightarrow> string
     \<Rightarrow> string option \<Rightarrow> thrown + Database" where
  "storeEvent now db event score codeQualityScore category ctx =
     (case db of
        None \<Rightarrow> Inl not_initialized
      | Some t \<Rightarrow>
          let rid = next_rowid (events t);
              kept = filter (\<lambda>(_, r). ev_id r \<noteq> ge_id event) (events t);
              row = \<lparr>ev_id = ge_id event, ev_type = ge_type event,
                     ev_repo = nullish_or (ge_repo_name event) ''unknown'',
                     ev_actor = nullish_or (ge_actor_login event) ''unknown'',
                     ev_created_at = ge_created_at event, ev_payload = ge_json event,
                     ev_score = score_or_null score,
                     ev_code_quality_score = score_or_null codeQualityScore,
                     ev_category = Some category, ev_repo_context = ctx,
                     ev_stored_at = now\<rparr>
          in Inr (Some (t\<lparr>events := kept @ [(rid, row)], last_insert_rowid := rid\<rparr>)))"

text \<open>The value \<^verbatim>\<open>storeSummary\<close> resolves to.\<close>

record StoreResult =
  res_id :: int
  wasInserted :: bool

definition summary_row :: "int \<Rightarrow> string \<Rightarrow> SummaryInput \<Rightarrow> Summary" where
  "summary_row n now s = SummaryInput.extend s (Summary.fields n now)"

text \<open>
  \<^verbatim>\<open>storeSummary\<close>: \<^verbatim>\<open>INSERT OR IGNORE\<close> into a table whose \<^verbatim>\<open>event_id\<close> column is
  \<^verbatim>\<open>UNIQUE\<close>. When a row with the same \<^verbatim>\<open>event_id\<close> exists the statement changes
  nothing (\<^verbatim>\<open>changes = 0\<close>) and \<^verbatim>\<open>lastInsertRowid\<close> is the stale value of the
  connection; otherwise the row is appended under the next \<^verbatim>\<open>AUTOINCREMENT\<close> id.
\<close>

definition storeSummary ::
  "string \<Rightarrow> Database \<Rightarrow> SummaryInput \<Rightarrow> thrown + (StoreResult \<times> Database)" where
  "storeSummary now db summary =
     (case db of
        None \<Rightarrow> Inl not_initialized
      | Some t \<Rightarrow>
          if \<exists>r \<in> set (summaries t). event_id r = event_id summary
          then Inr (\<lparr>res_id = last_insert_rowid t, wasInserted = False\<rparr>, Some t)
          else
            let n = summaries_seq t + 1
            in Inr (\<lparr>res_id = n, wasInserted = True\<rparr>,
                    Some (t\<lparr>summaries := summaries t @ [summary_row n now summary],
                            summaries_seq := n, last_insert_rowid := n\<rparr>)))"

text \<open>\<^verbatim>\<open>getEvent\<close> and \<^verbatim>\<open>getSummaryByEventId\<close>: the first matching row, or null.\<close>

definition getEvent :: "Database \<Rightarrow> string \<Rightarrow> thrown + Event option" where
  "getEvent db eventId =
     (case db of
        None \<Rightarrow> Inl not_initialized
      | Some t \<Rightarrow> Inr (find (\<lambda>r. ev_id r = eventId) (map snd (events t))))"

definition getSummaryByEventId :: "Database \<Rightarrow> string \<Rightarrow> thrown + Summary option" where
  "getSummaryByEventId db eventId =
     (case db of
        None \<Rightarrow> Inl not_initialized
      | Some t \<Rightarrow> Inr (find (\<lambda>r. event_id r = eventId) (summaries t)))"

text \<open>\<^verbatim>\<open>incrementNormalCounter\<close>: an \<^verbatim>\<open>UPDATE\<close> of the row of category 'normal'.\<close>

definition incrementNormalCounter :: "Database \<Rightarrow> thrown + Database" where
  "incrementNormalCounter db =
     (case db of
        None \<Rightarrow> Inl not_initialized
      | Some t \<Rightarrow> Inr (Some (t\<lparr>counters :=
          (case counters t ''normal'' of
             None \<Rightarrow> counters t
           | Some c \<Rightarrow> (counters t)(''normal'' \<mapsto> c + 1))\<rparr>)))"

text \<open>
  \<^verbatim>\<open>clearAll\<close>: counts both tables, deletes every row of both and zeroes the 'normal'
  counter. \<^verbatim>\<open>DELETE\<close> leaves \<^verbatim>\<open>sqlite_sequence\<close> and the last insert rowid alone.
\<close>

record ClearResult =
  eventsCleared :: nat
  summariesCleared :: nat

definition clearAll :: "Database \<Rightarrow> thrown + (ClearResult \<times> Database)" where
  "clearAll db =
     (case db of
        None \<Rightarrow> Inl not_initialized
      | Some t \<Rightarrow>
          Inr (\<lparr>eventsCleared = length (events t), summariesCleared = length (summaries t)\<rparr>,
               Some (t\<lparr>events := [], summaries := [],
                       counters := (case counters t ''normal'' of
                                      None \<Rightarrow> counters t
                                    | Some _ \<Rightarrow> (counters t)(''normal'' \<mapsto> 0))\<rparr>)))"

text \<open>
  Calls of \<^verbatim>\<open>storeSummary\<close> one after another, each with its own clock reading. The
  body of \<^verbatim>\<open>storeSummary\<close> has no \<^verbatim>\<open>await\<close> and better-sqlite3 is synchronous, so
  calls made by concurrently running jobs execute in some such order.
\<close>

fun storeSummaries ::
  "Database \<Rightarrow> (string \<times> SummaryInput) list \<Rightarrow> thrown + (StoreResult list \<times> Database)" where
  "storeSummaries db [] = Inr ([], db)"
| "storeSummaries db ((now, s) # calls) =
     (case storeSummary now db s of
        Inl e \<Rightarrow> Inl e
      | Inr (r, db') \<Rightarrow>
          (case storeSummaries db' calls of
             Inl e \<Rightarrow> Inl e
           | Inr (rs, db'') \<Rightarrow> Inr (r # rs, db'')))"

text \<open>The \<^verbatim>\<open>UNIQUE\<close> constraint on \<^verbatim>\<open>summaries.event_id\<close>, as a predicate of the file.\<close>

definition unique_event_ids :: "Tables \<Rightarrow> bool" where
  "unique_event_ids t = distinct (map event_id (summaries t))"


section \<open>JavaScript values\<close>

text \<open>
  A parsed JSON document; an object is the list of its members, each key once.
  \<^verbatim>\<open>undefined\<close>, the result of reading a property that is not there, is \<open>None\<close> of
  \<open>json option\<close>.
\<close>

datatype json =
    JNull
  | JBool bool
  | JNumber real
  | JString string
  | JArray "json list"
  | JObject "(string \<times> json) list"

text \<open>JavaScript truthiness of a value (\<^verbatim>\<open>x || d\<close>, \<^verbatim>\<open>if (x)\<close>).\<close>

fun truthy :: "json \<Rightarrow> bool" where
  "truthy JNull = False"
| "truthy (JBool b) = b"
| "truthy (JNumber x) = (x \<noteq> 0)"
| "truthy (JString s) = (s \<noteq> [])"
| "truthy (JArray _) = True"
| "truthy (JObject _) = True"

text \<open>
  Reading the own property \<open>k\<close> of a parsed value. Only objects built by
  \<^verbatim>\<open>JSON.parse\<close> have own string-keyed properties the code asks for; reading from
  \<^verbatim>\<open>null\<close> throws and is handled where it can happen.
\<close>

fun get_property :: "json \<Rightarrow> string \<Rightarrow> json option" where
  "get_property (JObject ps) k = map_of ps k"
| "get_property _ k = None"

text \<open>The event object as the worker reads it: with its \<^verbatim>\<open>payload\<close> member.\<close>

record GitHubEventObj = GitHubEvent +
  ge_payload :: "json option"

text \<open>
  The members of a repository context that the prompt reads:
  \<^verbatim>\<open>metadata.stars\<close>, \<^verbatim>\<open>metadata.age_days\<close>, \<^verbatim>\<open>metadata.isArchived\<close>,
  \<^verbatim>\<open>security.hasBranchProtection\<close> and \<^verbatim>\<open>activity?.uniqueContributors\<close>; a number that
  is missing is \<open>None\<close>, a flag that is missing is \<open>False\<close>.
\<close>

record RepoContext =
  rc_stars :: "real option"
  rc_age_days :: "real option"
  rc_isArchived :: bool
  rc_hasBranchProtection :: bool
  rc_uniqueContributors :: "real option"

text \<open>
  The services of the JavaScript runtime and the process environment that the sources
  call and do not define. \<open>JSON_parse\<close> returns \<open>Inl\<close> of the rendering \<^verbatim>\<open>`${e}`\<close> of the
  \<^verbatim>\<open>SyntaxError\<close> when the text is not JSON. \<open>MAX_SUMMARIES_PER_CATEGORY\<close> is
  \<^verbatim>\<open>parseInt(process.env.MAX_SUMMARIES_PER_CATEGORY ?? '10', 10)\<close>, with \<open>None\<close> for \<^verbatim>\<open>NaN\<close>.
\<close>

record Env =
  MAX_SUMMARIES_PER_CATEGORY :: "int option"
  JSON_parse :: "string \<Rightarrow> string + json"
  JSON_stringify :: "json \<Rightarrow> string"
  JSON_stringify_indent2 :: "json \<Rightarrow> string"
  number_toString :: "real \<Rightarrow> string"
  toFixed3 :: "real \<Rightarrow> string"
  parse_event :: "string \<Rightarrow> string + GitHubEventObj"
  parse_repo_context :: "string \<Rightarrow> string + RepoContext"

text \<open>\<^verbatim>\<open>haystack.includes(needle)\<close> on strings.\<close>

fun starts_with :: "string \<Rightarrow> string \<Rightarrow> bool" where
  "starts_with s [] = True"
| "starts_with [] (c # cs) = False"
| "starts_with (x # xs) (c # cs) = (x = c \<and> starts_with xs cs)"

fun includes_str :: "string \<Rightarrow> string \<Rightarrow> bool" where
  "includes_str [] needle = (needle = [])"
| "includes_str (x # xs) needle = (starts_with (x # xs) needle \<or> includes_str xs needle)"

text \<open>Decimal rendering of a non-negative integer, as a template literal prints it.\<close>

function string_of_nat :: "nat \<Rightarrow> string" where
  "string_of_nat n =
     (if n < 10 then [char_of (48 + n)]
      else string_of_nat (n div 10) @ [char_of (48 + n mod 10)])"
  by pat_completeness auto
termination
  by (relation "measure id") auto

declare string_of_nat.simps [simp del]

section \<open>The work queue (queue.ts)\<close>

datatype category = security | code_quality

record JobScore =
  sc_score :: "real option"
  sc_is_anomalous :: bool
  sc_features :: "(string \<times> real) list option"

record QueueJob =
  job_eventId :: string
  job_event :: GitHubEventObj
  job_score :: "JobScore option"
  job_repoContext :: "RepoContext option"
  job_timestamp :: string
  job_category :: category

text \<open>
  The ioredis client as the queue sees it: whether commands can reach the server, and the
  list stored under \<^verbatim>\<open>conway:summarization_queue\<close>. Jobs travel through
  \<^verbatim>\<open>JSON.stringify\<close> and \<^verbatim>\<open>JSON.parse\<close>; the list holds them as jobs.
\<close>

record RedisClient =
  connected :: bool
  rlist :: "QueueJob list"

text \<open>
  The fields of class \<^verbatim>\<open>Queue\<close>. \<open>client_alive\<close> records that \<^verbatim>\<open>new IORedis\<close> has run
  and the client has not given up: an object that calls \<^verbatim>\<open>retryStrategy\<close> and the
  \<^verbatim>\<open>'connect'\<close> and \<^verbatim>\<open>'error'\<close> listeners exists and keeps reconnecting. It outlives the
  assignment \<^verbatim>\<open>this.redis = null\<close>, and it ends when \<^verbatim>\<open>retryStrategy\<close> returns null,
  after which ioredis makes no further attempt.
\<close>

record Queue =
  redis :: "RedisClient option"
  useInMemory :: bool
  inMemoryQueue :: "QueueJob list"
  client_alive :: bool

definition new_Queue :: Queue where
  "new_Queue = \<lparr>redis = None, useInMemory = False, inMemoryQueue = [], client_alive = False\<rparr>"

definition queue_not_initialized :: thrown where
  "queue_not_initialized = Error ''Queue not initialized'' None"

definition connection_closed :: thrown where
  "connection_closed = Error ''Connection is closed.'' None"

text \<open>
  \<^verbatim>\<open>Queue.init\<close> up to its \<^verbatim>\<open>await this.redis.connect()\<close>: without \<^verbatim>\<open>REDIS_URL\<close> (unset or
  empty) the queue falls back at once; otherwise the client is constructed with its
  callbacks and the connection attempt starts. \<open>server_list\<close> is the list the Redis
  server holds under the queue's key.
\<close>

definition init_queue :: "string option \<Rightarrow> QueueJob list \<Rightarrow> Queue \<Rightarrow> Queue" where
  "init_queue redisUrl server_list q =
     (case redisUrl of
        None \<Rightarrow> q\<lparr>useInMemory := True\<rparr>
      | Some url \<Rightarrow>
          if url = [] then q\<lparr>useInMemory := True\<rparr>
          else q\<lparr>redis := Some \<lparr>connected = False, rlist = server_list\<rparr>,
                 client_alive := True\<rparr>)"

text \<open>
  The two ways the awaited \<^verbatim>\<open>connect()\<close> ends: it resolves and \<^verbatim>\<open>init\<close> returns, or it
  rejects and the \<^verbatim>\<open>catch\<close> block falls back and drops the client.
\<close>

definition init_connect_resolved :: "Queue \<Rightarrow> Queue" where
  "init_connect_resolved q = q"

definition init_connect_rejected :: "Queue \<Rightarrow> Queue" where
  "init_connect_rejected q = q\<lparr>useInMemory := True, redis := None\<rparr>"

text \<open>
  The callbacks handed to ioredis. \<^verbatim>\<open>retryStrategy(times)\<close> returns the delay before the
  next reconnection attempt, or null (\<open>None\<close>) to stop retrying, which ends the client;
  the \<^verbatim>\<open>'connect'\<close> listener runs whenever a connection is established; the \<^verbatim>\<open>'error'\<close>
  listener only logs.
\<close>

definition retryStrategy :: "nat \<Rightarrow> Queue \<Rightarrow> nat option \<times> Queue" where
  "retryStrategy attempts q =
     (if attempts > 5 then (None, q\<lparr>useInMemory := True, client_alive := False\<rparr>)
      else (Some (min (attempts * 1000) 10000), q))"

definition on_connect :: "Queue \<Rightarrow> Queue" where
  "on_connect q =
     q\<lparr>useInMemory := False,
       redis := map_option (\<lambda>c. c\<lparr>connected := True\<rparr>) (redis q)\<rparr>"

definition on_error :: "Queue \<Rightarrow> Queue" where
  "on_error q = q"

text \<open>The connection drops: a fact of the network, seen by the client object.\<close>

definition connection_lost :: "Queue \<Rightarrow> Queue" where
  "connection_lost q = q\<lparr>redis := map_option (\<lambda>c. c\<lparr>connected := False\<rparr>) (redis q)\<rparr>"

text \<open>
  \<^verbatim>\<open>push\<close>, \<^verbatim>\<open>length\<close> and \<^verbatim>\<open>clear\<close>. On the Redis path a command issued while the
  connection is down is rejected by the client.
\<close>

definition push :: "QueueJob \<Rightarrow> Queue \<Rightarrow> thrown + Queue" where
  "push job q =
     (if useInMemory q then Inr (q\<lparr>inMemoryQueue := inMemoryQueue q @ [job]\<rparr>)
      else case redis q of
        None \<Rightarrow> Inl queue_not_initialized
      | Some c \<Rightarrow>
          if connected c then Inr (q\<lparr>redis := Some (c\<lparr>rlist := rlist c @ [job]\<rparr>)\<rparr>)
          else Inl connection_closed)"

definition queue_length :: "Queue \<Rightarrow> thrown + nat" where
  "queue_length q =
     (if useInMemory q then Inr (length (inMemoryQueue q))
      else case redis q of
        None \<Rightarrow> Inl queue_not_initialized
      | Some c \<Rightarrow> if connected c then Inr (length (rlist c)) else Inl connection_closed)"

definition clear :: "Queue \<Rightarrow> thrown + (nat \<times> Queue)" where
  "clear q =
     (if useInMemory q then Inr (length (inMemoryQueue q), q\<lparr>inMemoryQueue := []\<rparr>)
      else case redis q of
        None \<Rightarrow> Inl queue_not_initialized
      | Some c \<Rightarrow>
          if connected c then Inr (length (rlist c), q\<lparr>redis := Some (c\<lparr>rlist := []\<rparr>)\<rparr>)
          else Inl connection_closed)"

text \<open>
  \<^verbatim>\<open>pop\<close> has two parts. When the in-process list is empty it first sleeps 5000 ms
  (\<open>pop_wait\<close>); then, on the queue as it is at that moment, it takes the head
  (\<^verbatim>\<open>this.inMemoryQueue.shift() || null\<close>). On the Redis path \<^verbatim>\<open>blpop\<close> with a timeout of
  5 seconds does the same on the server's list.
\<close>

definition pop_wait :: "Queue \<Rightarrow> nat option" where
  "pop_wait q = (if useInMemory q \<and> inMemoryQueue q = [] then Some 5000 else None)"

definition pop :: "Queue \<Rightarrow> thrown + (QueueJob option \<times> Queue)" where
  "pop q =
     (if useInMemory q then
        (case inMemoryQueue q of
           [] \<Rightarrow> Inr (None, q)
         | job # rest \<Rightarrow> Inr (Some job, q\<lparr>inMemoryQueue := rest\<rparr>))
      else case redis q of
        None \<Rightarrow> Inl queue_not_initialized
      | Some c \<Rightarrow>
          if connected c then
            (case rlist c of
               [] \<Rightarrow> Inr (None, q)
             | job # rest \<Rightarrow> Inr (Some job, q\<lparr>redis := Some (c\<lparr>rlist := rest\<rparr>)\<rparr>))
          else Inl connection_closed)"


section \<open>Fan-out to live subscribers (server.ts)\<close>

record EventNotice =
  en_event_id :: string
  en_event_type :: string
  en_repo :: string
  en_actor :: string
  en_timestamp :: string
  en_score :: real
  en_code_quality_score :: real
  en_category :: string
  en_raw_payload :: "string option"

text \<open>
  The object the worker hands to its error callback. Its \<^verbatim>\<open>details\<close> member, the
  redacted error, is left out: nothing reads it on the server side.
\<close>

record WorkerError =
  we_event_id :: string
  we_error :: string
  we_repo :: string
  we_timestamp :: string

datatype sse_payload =
    Connected
  | EventPayload EventNotice
  | SummaryPayload Summary
  | ErrorPayload WorkerError
  | ResetPayload string

text \<open>
  One member of \<^verbatim>\<open>sseClients\<close>: a response stream, whether \<^verbatim>\<open>client.write\<close> throws
  on it now, and the messages written to it so far. A message
  \<^verbatim>\<open>data: {"type": ..., ...payload}\<close> is kept as its type and payload.
\<close>

record SseClient =
  client_id :: nat
  write_throws :: bool
  written :: "(string \<times> sse_payload) list"

text \<open>
  \<^verbatim>\<open>broadcast\<close>: every client is written to; a client whose write throws is deleted from
  the set, and delivery goes on with the rest.
\<close>

definition broadcast :: "string \<Rightarrow> sse_payload \<Rightarrow> SseClient list \<Rightarrow> SseClient list" where
  "broadcast ty payload clients =
     map (\<lambda>c. c\<lparr>written := written c @ [(ty, payload)]\<rparr>)
       (filter (\<lambda>c. \<not> write_throws c) clients)"

section \<open>The summarization worker's state and the server's globals\<close>

text \<open>
  The fields of \<^verbatim>\<open>SummarizationWorker\<close>. \<open>onError_set\<close> says that \<^verbatim>\<open>start\<close> has stored an
  error callback; the only call of \<^verbatim>\<open>start\<close> passes \<^verbatim>\<open>broadcastSummary\<close> and
  \<^verbatim>\<open>broadcastError\<close>, so these are the callbacks the model calls.
\<close>

record SummarizationWorker =
  apiKey :: string
  running :: bool
  processingEvents :: "string set"
  onError_set :: bool

text \<open>
  The module-level state of server.ts: the database, the queue, the worker, the set of
  live subscribers, \<^verbatim>\<open>API_BUDGET\<close> and \<^verbatim>\<open>pendingEvents\<close>.
\<close>

record Server =
  db :: Database
  queue :: Queue
  worker :: SummarizationWorker
  sseClients :: "SseClient list"
  API_BUDGET :: "category \<Rightarrow> nat"
  pendingEvents :: "string set"

definition canGenerateSummary :: "Env \<Rightarrow> Server \<Rightarrow> category \<Rightarrow> bool" where
  "canGenerateSummary env s c =
     (case MAX_SUMMARIES_PER_CATEGORY env of
        None \<Rightarrow> False
      | Some m \<Rightarrow> int (API_BUDGET s c) < m)"

definition incrementSummaryCount :: "category \<Rightarrow> Server \<Rightarrow> Server" where
  "incrementSummaryCount c s = s\<lparr>API_BUDGET := (API_BUDGET s)(c := API_BUDGET s c + 1)\<rparr>"

definition broadcastEvent :: "EventNotice \<Rightarrow> Server \<Rightarrow> Server" where
  "broadcastEvent ev s = s\<lparr>sseClients := broadcast ''event'' (EventPayload ev) (sseClients s)\<rparr>"

text \<open>
  \<^verbatim>\<open>broadcastSummary\<close> first removes the event from \<^verbatim>\<open>pendingEvents\<close> (when
  \<^verbatim>\<open>summary.event_id\<close> is a non-empty string), then broadcasts.
\<close>

definition broadcastSummary :: "Summary \<Rightarrow> Server \<Rightarrow> Server" where
  "broadcastSummary summary s =
     (let s1 = (if event_id summary \<noteq> []
                then s\<lparr>pendingEvents := pendingEvents s - {event_id summary}\<rparr> else s)
      in s1\<lparr>sseClients := broadcast ''summary'' (SummaryPayload summary) (sseClients s1)\<rparr>)"

definition broadcastError :: "WorkerError \<Rightarrow> Server \<Rightarrow> Server" where
  "broadcastError err s = s\<lparr>sseClients := broadcast ''error'' (ErrorPayload err) (sseClients s)\<rparr>"

definition broadcastReset :: "string \<Rightarrow> Server \<Rightarrow> Server" where
  "broadcastReset now s = s\<lparr>sseClients := broadcast ''reset'' (ResetPayload now) (sseClients s)\<rparr>"

section \<open>The request handlers (server.ts)\<close>

datatype response =
    SummaryJson Summary
  | Generating string
  | NotFound
  | BudgetExhausted category nat "int option"
  | ServerError string
  | ResetDone nat nat nat
  | BadRequest
  | Counted string
  | Stored string

text \<open>
  \<^verbatim>\<open>const category = event.category === 'code_quality' ? 'code_quality' : 'security'\<close>
\<close>

definition request_category :: "Event \<Rightarrow> category" where
  "request_category ev =
     (if ev_category ev = Some ''code_quality'' then code_quality else security)"

text \<open>
  \<^verbatim>\<open>event.repo_context ? JSON.parse(event.repo_context) : null\<close> and
  \<^verbatim>\<open>event.score ? { score: event.score } : null\<close>.
\<close>

definition request_repo_context :: "Env \<Rightarrow> Event \<Rightarrow> string + RepoContext option" where
  "request_repo_context env ev =
     (case ev_repo_context ev of
        None \<Rightarrow> Inr None
      | Some c \<Rightarrow>
          if c = [] then Inr None
          else (case parse_repo_context env c of Inl e \<Rightarrow> Inl e | Inr rc \<Rightarrow> Inr (Some rc)))"

definition request_score :: "Event \<Rightarrow> JobScore option" where
  "request_score ev =
     (case ev_score ev of
        None \<Rightarrow> None
      | Some v \<Rightarrow>
          if v = 0 then None
          else Some \<lparr>sc_score = Some v, sc_is_anomalous = False, sc_features = None\<rparr>)"

text \<open>
  \<^verbatim>\<open>app.get('/event/:eventId/summary')\<close>. Every throw inside the handler lands in its
  \<^verbatim>\<open>catch\<close>, which answers 500; what was assigned before the throw stays assigned.
\<close>

definition get_event_summary :: "Env \<Rightarrow> Server \<Rightarrow> string \<Rightarrow> response \<times> Server" where
  "get_event_summary env s eventId =
     (case getSummaryByEventId (db s) eventId of
        Inl _ \<Rightarrow> (ServerError ''Failed to generate summary'', s)
      | Inr (Some existingSummary) \<Rightarrow>
          (SummaryJson existingSummary, s\<lparr>pendingEvents := pendingEvents s - {eventId}\<rparr>)
      | Inr None \<Rightarrow>
          if eventId \<in> pendingEvents s then (Generating eventId, s)
          else
            (case getEvent (db s) eventId of
               Inl _ \<Rightarrow> (ServerError ''Failed to generate summary'', s)
             | Inr None \<Rightarrow> (NotFound, s)
             | Inr (Some ev) \<Rightarrow>
                 let category = request_category ev in
                 if \<not> canGenerateSummary env s category
                 then (BudgetExhausted category (API_BUDGET s category)
                         (MAX_SUMMARIES_PER_CATEGORY env), s)
                 else
                   (case parse_event env (ev_payload ev) of
                      Inl _ \<Rightarrow> (ServerError ''Failed to generate summary'', s)
                    | Inr eventData \<Rightarrow>
                        (case request_repo_context env ev of
                           Inl _ \<Rightarrow> (ServerError ''Failed to generate summary'', s)
                         | Inr repoCtx \<Rightarrow>
                             let s1 = s\<lparr>pendingEvents := insert eventId (pendingEvents s)\<rparr>;
                                 s2 = incrementSummaryCount category s1;
                                 job = \<lparr>job_eventId = eventId, job_event = eventData,
                                        job_score = request_score ev,
                                        job_repoContext = repoCtx,
                                        job_timestamp = ev_created_at ev,
                                        job_category = category\<rparr>
                             in (case push job (queue s2) of
                                   Inl _ \<Rightarrow> (ServerError ''Failed to generate summary'', s2)
                                 | Inr q' \<Rightarrow> (Generating eventId, s2\<lparr>queue := q'\<rparr>))))))"

text \<open>\<^verbatim>\<open>app.post('/reset')\<close>; \<open>now\<close> is the timestamp of the reset notification.\<close>

definition post_reset :: "string \<Rightarrow> Server \<Rightarrow> response \<times> Server" where
  "post_reset now s =
     (case clearAll (db s) of
        Inl _ \<Rightarrow> (ServerError ''Failed to reset data'', s)
      | Inr (dbResult, db') \<Rightarrow>
          let s1 = s\<lparr>db := db'\<rparr> in
          (case clear (queue s1) of
             Inl _ \<Rightarrow> (ServerError ''Failed to reset data'', s1)
           | Inr (queueCleared, q') \<Rightarrow>
               let s2 = s1\<lparr>queue := q', API_BUDGET := (\<lambda>_. 0), pendingEvents := {}\<rparr>;
                   s3 = broadcastReset now s2
               in (ResetDone (eventsCleared dbResult) (summariesCleared dbResult) queueCleared,
                   s3)))"

text \<open>
  \<^verbatim>\<open>app.post('/internal/event')\<close>. The body carries the event (absent, or without an
  \<^verbatim>\<open>id\<close>, it is refused), the two scores, the category and the stringified repository
  context.
\<close>

record InternalEventBody =
  body_event :: "GitHubEvent option"
  body_score :: "real option"
  body_codeQualityScore :: "real option"
  body_category :: "string option"
  body_repoContext :: "string option"

definition post_internal_event :: "string \<Rightarrow> Server \<Rightarrow> InternalEventBody \<Rightarrow> response \<times> Server" where
  "post_internal_event now s body =
     (case body_event body of
        None \<Rightarrow> (BadRequest, s)
      | Some ev \<Rightarrow>
          if ge_id ev = [] then (BadRequest, s)
          else if body_category body = Some ''normal'' then
            (case incrementNormalCounter (db s) of
               Inl _ \<Rightarrow> (ServerError ''Failed to process event'', s)
             | Inr db1 \<Rightarrow>
                 (case storeEvent now db1 ev (body_score body) (body_codeQualityScore body)
                         ''normal'' None of
                    Inl _ \<Rightarrow> (ServerError ''Failed to process event'', s\<lparr>db := db1\<rparr>)
                  | Inr db2 \<Rightarrow>
                      (Counted (ge_id ev),
                       broadcastEvent
                         \<lparr>en_event_id = ge_id ev, en_event_type = ge_type ev,
                          en_repo = (case ge_repo_name ev of None \<Rightarrow> ''unknown''
                                     | Some n \<Rightarrow> if n = [] then ''unknown'' else n),
                          en_actor = (case ge_actor_login ev of None \<Rightarrow> ''unknown''
                                      | Some n \<Rightarrow> if n = [] then ''unknown'' else n),
                          en_timestamp = ge_created_at ev, en_score = 0,
                          en_code_quality_score = 0, en_category = ''normal'',
                          en_raw_payload = None\<rparr>
                         (s\<lparr>db := db2\<rparr>))))
          else
            (case storeEvent now (db s) ev (body_score body) (body_codeQualityScore body)
                    (case body_category body of None \<Rightarrow> ''normal''
                     | Some c \<Rightarrow> if c = [] then ''normal'' else c)
                    (body_repoContext body) of
               Inl _ \<Rightarrow> (ServerError ''Failed to process event'', s)
             | Inr db1 \<Rightarrow>
                 (Stored (ge_id ev),
                  broadcastEvent
                    \<lparr>en_event_id = ge_id ev, en_event_type = ge_type ev,
                     en_repo = (case ge_repo_name ev of None \<Rightarrow> ''unknown''
                                | Some n \<Rightarrow> if n = [] then ''unknown'' else n),
                     en_actor = (case ge_actor_login ev of None \<Rightarrow> ''unknown''
                                 | Some n \<Rightarrow> if n = [] then ''unknown'' else n),
                     en_timestamp = ge_created_at ev,
                     en_score = (case body_score body of None \<Rightarrow> 0 | Some v \<Rightarrow> v),
                     en_code_quality_score =
                       (case body_codeQualityScore body of None \<Rightarrow> 0 | Some v \<Rightarrow> v),
                     en_category = (case body_category body of None \<Rightarrow> ''normal'' | Some c \<Rightarrow> c),
                     en_raw_payload = Some (ge_json ev)\<rparr>
                    (s\<lparr>db := db1\<rparr>))))"

text \<open>
  \<^verbatim>\<open>app.get('/stream')\<close> writes the greeting \<^verbatim>\<open>{"type":"connected"}\<close> and adds the
  subscriber; the request's close event removes it.
\<close>

definition stream_open :: "nat \<Rightarrow> Server \<Rightarrow> Server" where
  "stream_open cid s =
     s\<lparr>sseClients := sseClients s @
          [\<lparr>client_id = cid, write_throws = False, written = [(''connected'', Connected)]\<rparr>]\<rparr>"

definition stream_close :: "nat \<Rightarrow> Server \<Rightarrow> Server" where
  "stream_close cid s = s\<lparr>sseClients := filter (\<lambda>c. client_id c \<noteq> cid) (sseClients s)\<rparr>"


section \<open>The summarization worker (summarization-worker.ts)\<close>

subsection \<open>Prompt rendering\<close>

definition security_role :: "string" where
  "security_role =
     ''You are a Senior Security Analyst at GitHub. You are analyzing a potential security incident detected by an ML model.\<newline>'' @
     ''\<newline>'' @
     ''YOUR GOAL:\<newline>'' @
     ''1. Analyze the raw event and the ML signals.\<newline>'' @
     ''2. Determine if this is a real malicious attack, a bad practice (policy violation), or just noise.\<newline>'' @
     ''3. Provide a structured summary for the security dashboard.''"

definition code_quality_role :: "string" where
  "code_quality_role =
     ''You are a Senior Code Quality Engineer at GitHub. You are reviewing code quality issues detected by an ML model.\<newline>'' @
     ''\<newline>'' @
     ''YOUR GOAL:\<newline>'' @
     ''1. Analyze the code changes, commit patterns, and development practices.\<newline>'' @
     ''2. Identify code quality issues, technical debt, or poor development practices.\<newline>'' @
     ''3. Provide actionable feedback for the development team.''"

definition security_format :: "string \<Rightarrow> string" where
  "security_format scoreText =
     ''\<newline>'' @
     ''\<newline>'' @
     ''RESPONSE FORMAT:\<newline>'' @
     ''Provide your analysis in this exact JSON format:\<newline>'' @
     ''{\<newline>'' @
     ''  \"classification\": \"ACTIVE_ATTACK\" | \"POLICY_VIOLATION\" | \"BENIGN_ANOMALY\",\<newline>'' @
     ''  \"confidence\": \"HIGH\" | \"MEDIUM\" | \"LOW\",\<newline>'' @
     ''  \"one_line_summary\": \"A concise 10-15 word description of what happened\",\<newline>'' @
     ''  \"root_cause\": [\"bullet 1\", \"bullet 2\", \"bullet 3\"],\<newline>'' @
     ''  \"impact\": [\"bullet 1\", \"bullet 2\", \"bullet 3\"],\<newline>'' @
     ''  \"next_steps\": [\"bullet 1\", \"bullet 2\", \"bullet 3\"]\<newline>'' @
     ''}\<newline>'' @
     ''\<newline>'' @
     ''CLASSIFICATION GUIDELINES:\<newline>'' @
     ''1. ACTIVE_ATTACK (Red):\<newline>'' @
     ''   - Intentional malice. Exfiltration of secrets, installing backdoors, nuking history, or mass destruction.\<newline>'' @
     ''   - Example: Modifying .github/workflows to curl env vars to an external IP.\<newline>'' @
     ''\<newline>'' @
     ''2. POLICY_VIOLATION (Amber):\<newline>'' @
     ''   - Dangerous behavior but likely not malicious intent.\<newline>'' @
     ''   - Examples: 'AutoGreen' vanity bots, developers force-pushing to their own PRs, commiting directly to main because protection is disabled, student projects with sloppy git hygiene.\<newline>'' @
     ''   - NOTE: If the repo is 'AutoGreen' or has 0 stars/1 contributor, it is likely a Policy Violation, not an Advanced Persistent Threat.\<newline>'' @
     ''\<newline>'' @
     ''3. BENIGN_ANOMALY (Blue):\<newline>'' @
     ''   - Weird timing or volume, but harmless content.\<newline>'' @
     ''   - Example: A legitimate bot closing 50 stale issues at once.\<newline>'' @
     ''\<newline>'' @
     ''IMPORTANT: The ML model scored this as '' @
     scoreText @
     ''. Use the Repository Context to contextualize this score. High score on a 0-star repo is usually a Policy Violation. High score on a 10k-star repo is a Critical Incident.''"

definition code_quality_format :: "string \<Rightarrow> string" where
  "code_quality_format scoreText =
     ''\<newline>'' @
     ''\<newline>'' @
     ''RESPONSE FORMAT:\<newline>'' @
     ''Provide your analysis in this exact JSON format:\<newline>'' @
     ''{\<newline>'' @
     ''  \"classification\": \"CRITICAL_ISSUE\" | \"POOR_PRACTICE\" | \"MINOR_CONCERN\",\<newline>'' @
     ''  \"confidence\": \"HIGH\" | \"MEDIUM\" | \"LOW\",\<newline>'' @
     ''  \"one_line_summary\": \"A concise 10-15 word description of the code quality issue\",\<newline>'' @
     ''  \"root_cause\": [\"bullet 1\", \"bullet 2\", \"bullet 3\"],\<newline>'' @
     ''  \"impact\": [\"bullet 1\", \"bullet 2\", \"bullet 3\"],\<newline>'' @
     ''  \"next_steps\": [\"bullet 1\", \"bullet 2\", \"bullet 3\"]\<newline>'' @
     ''}\<newline>'' @
     ''\<newline>'' @
     ''CLASSIFICATION GUIDELINES:\<newline>'' @
     ''1. CRITICAL_ISSUE (Red):\<newline>'' @
     ''   - Severe code quality problems that could lead to bugs, security vulnerabilities, or maintenance nightmares.\<newline>'' @
     ''   - Examples: Committing secrets, no tests, breaking changes without documentation, massive code duplication.\<newline>'' @
     ''\<newline>'' @
     ''2. POOR_PRACTICE (Amber):\<newline>'' @
     ''   - Suboptimal development practices that should be improved.\<newline>'' @
     ''   - Examples: Inconsistent formatting, missing error handling, poor commit messages, direct commits to main, skipping code review.\<newline>'' @
     ''\<newline>'' @
     ''3. MINOR_CONCERN (Blue):\<newline>'' @
     ''   - Small issues or style inconsistencies that don't significantly impact quality.\<newline>'' @
     ''   - Example: Minor formatting issues, missing comments on simple code.\<newline>'' @
     ''\<newline>'' @
     ''IMPORTANT: The ML model scored this as '' @
     scoreText @
     '' (lower = worse quality). Use the Repository Context to contextualize this score.''"

text \<open>\<^verbatim>\<open>x || d\<close> on a string that may be missing, and on a number that may be missing.\<close>

definition or_string :: "string option \<Rightarrow> string \<Rightarrow> string" where
  "or_string x d = (case x of None \<Rightarrow> d | Some s \<Rightarrow> if s = [] then d else s)"

definition or_zero :: "real option \<Rightarrow> real" where
  "or_zero x = (case x of None \<Rightarrow> 0 | Some v \<Rightarrow> v)"

fun join_with :: "string \<Rightarrow> string list \<Rightarrow> string" where
  "join_with sep [] = []"
| "join_with sep [x] = x"
| "join_with sep (x # y # ys) = x @ sep @ join_with sep (y # ys)"

text \<open>\<^verbatim>\<open>score?.score?.toFixed(3)\<close> inside a template literal.\<close>

definition score_text :: "Env \<Rightarrow> JobScore option \<Rightarrow> string" where
  "score_text env sc =
     (case sc of
        None \<Rightarrow> ''undefined''
      | Some x \<Rightarrow> (case sc_score x of None \<Rightarrow> ''undefined'' | Some v \<Rightarrow> toFixed3 env v))"

definition risk_signals :: "Env \<Rightarrow> (string \<times> real) list \<Rightarrow> string list" where
  "risk_signals env features =
     (if map_of features ''is_workflow_file_change'' = Some 1
      then [''- Critical: Modification to CI/CD workflow file (Supply Chain Risk)''] else []) @
     (if map_of features ''force_push_to_main'' = Some 1
      then [''- High: Force push to main/master branch''] else []) @
     (if map_of features ''is_branch_deletion'' = Some 1
      then [''- High: Deletion of a branch (potential sabotage)''] else []) @
     (if map_of features ''is_new_account'' = Some 1
      then [''- Medium: Action performed by a new GitHub account''] else []) @
     (case map_of features ''workflow_failure_streak'' of
        None \<Rightarrow> []
      | Some v \<Rightarrow>
          if v > 0
          then [''- Low: '' @ number_toString env v @ '' consecutive workflow failures'']
          else [])"

definition event_details :: "GitHubEventObj \<Rightarrow> string" where
  "event_details ev =
     ''\<newline>\<newline>EVENT DETAILS:\<newline>- Type: '' @ ge_type ev @
     ''\<newline>- Repository: '' @ or_string (ge_repo_name ev) ''N/A'' @
     ''\<newline>- Actor: '' @ or_string (ge_actor_login ev) ''N/A'' @
     ''\<newline>- Timestamp: '' @ ge_created_at ev @ ''\<newline>''"

definition payload_section :: "Env \<Rightarrow> GitHubEventObj \<Rightarrow> string" where
  "payload_section env ev =
     (case ge_payload ev of
        None \<Rightarrow> []
      | Some pl \<Rightarrow>
          if truthy pl then
            ''\<newline>EVENT PAYLOAD:\<newline>'' @
            (let payloadStr = JSON_stringify_indent2 env pl
             in if length payloadStr > 2000 then take 2000 payloadStr @ ''... (truncated)''
                else payloadStr)
          else [])"

definition score_section :: "Env \<Rightarrow> JobScore option \<Rightarrow> string" where
  "score_section env sc =
     (case sc of
        None \<Rightarrow> []
      | Some x \<Rightarrow>
          ''\<newline>\<newline>BEHAVIORAL ANALYSIS (ML MODEL):\<newline>- Anomaly Score: '' @
          score_text env sc @ '' / 1.000\<newline>- Verdict: '' @
          (if sc_is_anomalous x then ''ANOMALOUS'' else ''Normal'') @ ''\<newline>'' @
          (case sc_features x of
             None \<Rightarrow> []
           | Some features \<Rightarrow>
               ''Key Risk Signals Detected:\<newline>'' @
               (let signals = risk_signals env features
                in if length signals > 0 then join_with ''\<newline>'' signals
                   else ''- No specific risk patterns identified.'')))"

definition context_section :: "Env \<Rightarrow> RepoContext option \<Rightarrow> string" where
  "context_section env ctx =
     (case ctx of
        None \<Rightarrow> []
      | Some rc \<Rightarrow>
          ''\<newline>\<newline>REPOSITORY CONTEXT:'' @
          ''\<newline>- Stars: '' @ number_toString env (or_zero (rc_stars rc)) @
          ''\<newline>- Age: '' @ number_toString env (or_zero (rc_age_days rc)) @ '' days'' @
          ''\<newline>- Branch Protection: '' @
             (if rc_hasBranchProtection rc then ''Enabled'' else ''DISABLED'') @
          ''\<newline>- Contributors: '' @ number_toString env (or_zero (rc_uniqueContributors rc)) @
          (if rc_isArchived rc then ''\<newline>- Status: ARCHIVED'' else []))"

text \<open>
  \<^verbatim>\<open>buildPrompt\<close>: \<^verbatim>\<open>isSecurity = category === 'security'\<close> chooses the opening role
  text and the closing response format; the sections between them do not look at the
  category.
\<close>

definition buildPrompt :: "Env \<Rightarrow> QueueJob \<Rightarrow> string" where
  "buildPrompt env job =
     (let isSecurity = (job_category job = security)
      in (if isSecurity then security_role else code_quality_role) @
         event_details (job_event job) @
         payload_section env (job_event job) @
         score_section env (job_score job) @
         context_section env (job_repoContext job) @
         (if isSecurity then security_format (score_text env (job_score job))
          else code_quality_format (score_text env (job_score job))))"

subsection \<open>The completion call\<close>

text \<open>
  What \<^verbatim>\<open>fetch\<close> and the reading of the body can end in: a rejection (network error,
  abort after 30 s, unreadable body), or a response with its \<^verbatim>\<open>ok\<close> flag, status,
  status text and, when \<^verbatim>\<open>data.choices?.[0]?.message?.content\<close> is a string, that string.
\<close>

datatype fetch_outcome =
    FetchFailed thrown
  | HttpResponse bool nat string "string option"

definition generateSummary :: "fetch_outcome \<Rightarrow> thrown + string" where
  "generateSummary outcome =
     (case outcome of
        FetchFailed e \<Rightarrow> Inl e
      | HttpResponse ok st statusText content \<Rightarrow>
          if \<not> ok
          then Inl (Error (''OpenAI API error: '' @ string_of_nat st @ '' '' @ statusText) None)
          else (case content of
                  None \<Rightarrow> Inl (Error ''Empty response from OpenAI'' None)
                | Some c \<Rightarrow>
                    if c = [] then Inl (Error ''Empty response from OpenAI'' None)
                    else Inr c))"

subsection \<open>Parsing the response\<close>

text \<open>
  A text is the list of its code units, and a \<open>char\<close> is a code unit below 256; texts
  with other code units are not represented. \<^verbatim>\<open>\s\<close> of a regular expression matches
  white space and line terminators; below 256 these are tab, line feed, vertical tab,
  form feed, carriage return, space and the no-break space U+00A0.
\<close>

definition is_space :: "char \<Rightarrow> bool" where
  "is_space c =
     (c \<in> {CHR 0x09, CHR 0x0A, CHR 0x0B, CHR 0x0C, CHR 0x0D, CHR 0x20, CHR 0xA0})"

text \<open>The text before and the text after the first occurrence of \<open>needle\<close>.\<close>

fun split_first :: "string \<Rightarrow> string \<Rightarrow> (string \<times> string) option" where
  "split_first needle [] = (if needle = [] then Some ([], []) else None)"
| "split_first needle (x # xs) =
     (if starts_with (x # xs) needle then Some ([], drop (length needle) (x # xs))
      else map_option (\<lambda>(before, after). (x # before, after)) (split_first needle xs))"

text \<open>
  \<^verbatim>\<open>text.match(/```json\s*([\s\S]*?)\s*```/)\<close>: the match starts at the first
  \<^verbatim>\<open>```json\<close> that is followed somewhere by \<^verbatim>\<open>```\<close>; the group is the text between
  them without the white space at its two ends. The result is the pair of the whole
  match and the group.
\<close>

definition fence_match :: "string \<Rightarrow> (string \<times> string) option" where
  "fence_match text =
     (case split_first ''```json'' text of
        None \<Rightarrow> None
      | Some (_, rest) \<Rightarrow>
          (case split_first ''```'' (dropWhile is_space rest) of
             None \<Rightarrow> None
           | Some (inner, _) \<Rightarrow>
               Some (''```json'' @ takeWhile is_space rest @ inner @ ''```'',
                     rev (dropWhile is_space (rev inner)))))"

text \<open>
  \<^verbatim>\<open>text.match(/\{[\s\S]*\}/)\<close>: from the first opening brace to the last closing
  brace after it.
\<close>

definition brace_match :: "string \<Rightarrow> string option" where
  "brace_match text =
     (let from_brace = dropWhile (\<lambda>c. c \<noteq> CHR ''{'') text;
          m = rev (dropWhile (\<lambda>c. c \<noteq> CHR ''}'') (rev from_brace))
      in if m = [] then None else Some m)"

text \<open>
  \<^verbatim>\<open>jsonMatch[1] || jsonMatch[0]\<close> of the first of the two matches that succeeds; \<open>None\<close>
  when neither does.
\<close>

definition json_match :: "string \<Rightarrow> string option" where
  "json_match text =
     (case fence_match text of
        Some (whole, grp) \<Rightarrow> Some (if grp \<noteq> [] then grp else whole)
      | None \<Rightarrow> brace_match text)"

text \<open>
  JavaScript's conversion of a value to a string, which property access
  \<^verbatim>\<open>classificationMap[classification]\<close> and \<^verbatim>\<open>Array.prototype.join\<close> apply. An array
  joins its elements with commas, \<^verbatim>\<open>null\<close> elements giving the empty string. An object
  gives \<^verbatim>\<open>[object Object]\<close> through the inherited \<^verbatim>\<open>toString\<close>; an object parsed from
  JSON that has an own member \<^verbatim>\<open>toString\<close> shadows that method with something that
  cannot be called, and the conversion throws a \<^verbatim>\<open>TypeError\<close> (\<open>None\<close>).
\<close>

fun all_some :: "'a option list \<Rightarrow> 'a list option" where
  "all_some [] = Some []"
| "all_some (None # xs) = None"
| "all_some (Some x # xs) = map_option ((#) x) (all_some xs)"

fun js_toString :: "Env \<Rightarrow> json \<Rightarrow> string option" where
  "js_toString env JNull = Some ''null''"
| "js_toString env (JBool b) = Some (if b then ''true'' else ''false'')"
| "js_toString env (JNumber x) = Some (number_toString env x)"
| "js_toString env (JString s) = Some s"
| "js_toString env (JArray xs) =
     map_option (join_with '','')
       (all_some (map (\<lambda>x. if x = JNull then Some [] else js_toString env x) xs))"
| "js_toString env (JObject ps) =
     (if ''toString'' \<in> fst ` set ps then None else Some ''[object Object]'')"

text \<open>
  The message of that \<^verbatim>\<open>TypeError\<close>, and its rendering \<^verbatim>\<open>`${e}`\<close> in a template
  literal.
\<close>

definition cannot_convert_message :: string where
  "cannot_convert_message = ''Cannot convert object to primitive value''"

definition cannot_convert :: string where
  "cannot_convert = ''TypeError: '' @ cannot_convert_message"

text \<open>\<^verbatim>\<open>array.join(sep)\<close> on an array of parsed values.\<close>

definition js_join :: "Env \<Rightarrow> string \<Rightarrow> json list \<Rightarrow> string option" where
  "js_join env sep xs =
     map_option (join_with sep)
       (all_some (map (\<lambda>x. if x = JNull then Some [] else js_toString env x) xs))"

text \<open>
  The table \<^verbatim>\<open>classificationMap\<close>, the names every object literal inherits from
  \<^verbatim>\<open>Object.prototype\<close>, and \<^verbatim>\<open>validClasses\<close>.
\<close>

definition classificationMap :: "(string \<times> string) list" where
  "classificationMap =
     [(''CRITICAL_ISSUE'', ''ACTIVE_ATTACK''),
      (''POOR_PRACTICE'', ''POLICY_VIOLATION''),
      (''MINOR_CONCERN'', ''BENIGN_ANOMALY'')]"

definition object_prototype_names :: "string list" where
  "object_prototype_names =
     [''constructor'', ''hasOwnProperty'', ''isPrototypeOf'', ''propertyIsEnumerable'',
      ''toLocaleString'', ''toString'', ''valueOf'', ''__proto__'',
      ''__defineGetter__'', ''__defineSetter__'', ''__lookupGetter__'', ''__lookupSetter__'']"

definition validClasses :: "string list" where
  "validClasses = [''ACTIVE_ATTACK'', ''POLICY_VIOLATION'', ''BENIGN_ANOMALY'']"

text \<open>
  A value the variable \<^verbatim>\<open>classification\<close> can hold: a parsed value, or a member
  inherited from \<^verbatim>\<open>Object.prototype\<close> (a function or the prototype object, truthy and
  equal to no string).
\<close>

datatype js_value = Parsed json | Inherited string

text \<open>\<^verbatim>\<open>classificationMap[key]\<close>; \<open>None\<close> is \<^verbatim>\<open>undefined\<close>.\<close>

definition classificationMap_get :: "string \<Rightarrow> js_value option" where
  "classificationMap_get key =
     (case map_of classificationMap key of
        Some v \<Rightarrow> Some (Parsed (JString v))
      | None \<Rightarrow> if key \<in> set object_prototype_names then Some (Inherited key) else None)"

text \<open>\<^verbatim>\<open>parsed.member || fallback\<close>.\<close>

definition member_or :: "json \<Rightarrow> string \<Rightarrow> json \<Rightarrow> json" where
  "member_or parsed k fallback =
     (case get_property parsed k of
        None \<Rightarrow> fallback
      | Some v \<Rightarrow> if truthy v then v else fallback)"

text \<open>\<^verbatim>\<open>Array.isArray(parsed.member) ? parsed.member : []\<close>.\<close>

definition member_array :: "json \<Rightarrow> string \<Rightarrow> json list" where
  "member_array parsed k =
     (case get_property parsed k of Some (JArray xs) \<Rightarrow> xs | _ \<Rightarrow> [])"

record ParsedSummary =
  ps_classification :: string
  ps_confidence :: json
  ps_one_line_summary :: json
  ps_root_cause :: "json list"
  ps_impact :: "json list"
  ps_next_steps :: "json list"

text \<open>
  The steps of \<^verbatim>\<open>parseSummaryResponse\<close> after \<^verbatim>\<open>JSON.parse\<close>, inside its \<^verbatim>\<open>try\<close>; \<open>Inl\<close>
  carries the rendering of what was thrown there. Reading a member of \<^verbatim>\<open>null\<close>
  throws.
\<close>

definition normalize_parsed :: "Env \<Rightarrow> json \<Rightarrow> string + ParsedSummary" where
  "normalize_parsed env parsed =
     (if parsed = JNull
      then Inl ''TypeError: Cannot read properties of null (reading 'classification')''
      else
        let classification0 = member_or parsed ''classification'' (JString ''POLICY_VIOLATION'')
        in (case js_toString env classification0 of
              None \<Rightarrow> Inl cannot_convert
            | Some key \<Rightarrow>
                let classification =
                      (case classificationMap_get key of
                         Some mapped \<Rightarrow> mapped
                       | None \<Rightarrow> Parsed classification0);
                    checked =
                      (case classification of
                         Parsed (JString c) \<Rightarrow>
                           if c \<in> set validClasses then c else ''POLICY_VIOLATION''
                       | _ \<Rightarrow> ''POLICY_VIOLATION'')
                in Inr \<lparr>ps_classification = checked,
                        ps_confidence = member_or parsed ''confidence'' (JString ''MEDIUM''),
                        ps_one_line_summary =
                          member_or parsed ''one_line_summary'' (JString ''Analysis not available''),
                        ps_root_cause = member_array parsed ''root_cause'',
                        ps_impact = member_array parsed ''impact'',
                        ps_next_steps = member_array parsed ''next_steps''\<rparr>))"

definition parseSummaryResponse :: "Env \<Rightarrow> string \<Rightarrow> thrown + ParsedSummary" where
  "parseSummaryResponse env text =
     (case json_match text of
        None \<Rightarrow> Inl (Error ''Could not find JSON in AI response'' None)
      | Some jsonStr \<Rightarrow>
          (case JSON_parse env jsonStr of
             Inl e \<Rightarrow> Inl (Error (''Failed to parse AI JSON: '' @ e) None)
           | Inr parsed \<Rightarrow>
               (case normalize_parsed env parsed of
                  Inl e \<Rightarrow> Inl (Error (''Failed to parse AI JSON: '' @ e) None)
                | Inr result \<Rightarrow> Inr result)))"


subsection \<open>Processing one job\<close>

text \<open>The worker's pauses, in milliseconds, in the order they happen.\<close>

datatype effect = Sleep nat

text \<open>
  \<^verbatim>\<open>error instanceof Error ? error.message : 'Unknown error'\<close>, and the test of the
  \<^verbatim>\<open>catch\<close> branch for a rate-limit indication.
\<close>

definition errorMessage :: "thrown \<Rightarrow> string" where
  "errorMessage e = (case e of Error m _ \<Rightarrow> m | Thrown _ \<Rightarrow> ''Unknown error'')"

definition is429 :: "thrown \<Rightarrow> bool" where
  "is429 e =
     (includes_str (errorMessage e) ''429''
      \<or> includes_str (errorMessage e) ''Too Many Requests''
      \<or> status e = Some 429)"

text \<open>
  \<^verbatim>\<open>summaryRecord\<close>. \<^verbatim>\<open>parsed.root_cause.join('\n')\<close> and its two siblings convert
  every element to a string, which can throw.
\<close>

definition summaryRecord :: "Env \<Rightarrow> QueueJob \<Rightarrow> ParsedSummary \<Rightarrow> thrown + SummaryInput" where
  "summaryRecord env job parsed =
     (case (js_join env ''\<newline>'' (ps_root_cause parsed),
            js_join env ''\<newline>'' (ps_impact parsed),
            js_join env ''\<newline>'' (ps_next_steps parsed)) of
        (Some rc, Some im, Some ns) \<Rightarrow>
          Inr \<lparr>event_id = job_eventId job,
               event_type = ge_type (job_event job),
               repo = or_string (ge_repo_name (job_event job)) ''unknown'',
               actor = or_string (ge_actor_login (job_event job)) ''unknown'',
               timestamp = ge_created_at (job_event job),
               root_cause = rc, impact = im, next_steps = ns,
               raw_summary = JSON_stringify env
                 (JObject [(''classification'', JString (ps_classification parsed)),
                           (''confidence'', ps_confidence parsed),
                           (''one_line_summary'', ps_one_line_summary parsed),
                           (''root_cause'', JArray (ps_root_cause parsed)),
                           (''impact'', JArray (ps_impact parsed)),
                           (''next_steps'', JArray (ps_next_steps parsed))])\<rparr>
      | _ \<Rightarrow> Inl (Error cannot_convert_message None))"

text \<open>
  \<^verbatim>\<open>processJob\<close> before the completion call: the two skips, then the mark in
  \<^verbatim>\<open>processingEvents\<close> and the prompt. \<open>None\<close> means the job was skipped. The lookup
  of an existing summary stands before the \<^verbatim>\<open>try\<close>, so its throw leaves
  \<^verbatim>\<open>processJob\<close>.
\<close>

definition processJob_start :: "Env \<Rightarrow> Server \<Rightarrow> QueueJob \<Rightarrow> thrown + (string option \<times> Server)" where
  "processJob_start env s job =
     (if job_eventId job \<in> processingEvents (worker s) then Inr (None, s)
      else
        (case getSummaryByEventId (db s) (job_eventId job) of
           Inl e \<Rightarrow> Inl e
         | Inr (Some existing) \<Rightarrow> Inr (None, s)
         | Inr None \<Rightarrow>
             Inr (Some (buildPrompt env job),
                  s\<lparr>worker := (worker s)\<lparr>processingEvents :=
                       insert (job_eventId job) (processingEvents (worker s))\<rparr>\<rparr>)))"

text \<open>
  The rest of the \<^verbatim>\<open>try\<close> block, from the answer of the completion call on: parse,
  build the record, store it, call \<^verbatim>\<open>onSummaryCreated\<close>. \<open>now_db\<close> and \<open>now\<close> are the two
  clock readings (the row's \<^verbatim>\<open>created_at\<close> and that of the broadcast summary). Nothing
  is assigned before the last step that can throw, so a throw leaves the state as it was.
\<close>

definition processJob_try ::
  "Env \<Rightarrow> string \<Rightarrow> string \<Rightarrow> Server \<Rightarrow> QueueJob \<Rightarrow> thrown + string \<Rightarrow> thrown + Server" where
  "processJob_try env now_db now s job completion =
     (case completion of
        Inl e \<Rightarrow> Inl e
      | Inr answer \<Rightarrow>
          (case parseSummaryResponse env answer of
             Inl e \<Rightarrow> Inl e
           | Inr parsed \<Rightarrow>
               (case summaryRecord env job parsed of
                  Inl e \<Rightarrow> Inl e
                | Inr record_in \<Rightarrow>
                    (case storeSummary now_db (db s) record_in of
                       Inl e \<Rightarrow> Inl e
                     | Inr (result, db') \<Rightarrow>
                         Inr (broadcastSummary (summary_row (res_id result) now record_in)
                                (s\<lparr>db := db'\<rparr>))))))"

text \<open>
  The \<^verbatim>\<open>catch\<close> branch: a rate-limited job is pushed back and the worker sleeps 60
  seconds; any other error goes to the error callback. A throw of \<^verbatim>\<open>queue.push\<close>
  leaves \<^verbatim>\<open>processJob\<close> (first component).
\<close>

definition processJob_catch ::
  "string \<Rightarrow> Server \<Rightarrow> QueueJob \<Rightarrow> thrown \<Rightarrow> thrown option \<times> effect list \<times> Server" where
  "processJob_catch now s job e =
     (if is429 e then
        (case push job (queue s) of
           Inl e' \<Rightarrow> (Some e', [], s)
         | Inr q' \<Rightarrow> (None, [Sleep 60000], s\<lparr>queue := q'\<rparr>))
      else
        (None, [],
         if onError_set (worker s)
         then broadcastError
                \<lparr>we_event_id = job_eventId job, we_error = errorMessage e,
                 we_repo = nullish_or (ge_repo_name (job_event job)) ''unknown'',
                 we_timestamp = now\<rparr> s
         else s))"

text \<open>The \<^verbatim>\<open>finally\<close> block.\<close>

definition processJob_finally :: "QueueJob \<Rightarrow> Server \<Rightarrow> Server" where
  "processJob_finally job s =
     s\<lparr>worker := (worker s)\<lparr>processingEvents :=
          processingEvents (worker s) - {job_eventId job}\<rparr>\<rparr>"

text \<open>\<^verbatim>\<open>processJob\<close> from the moment the completion call has answered or failed.\<close>

definition processJob_complete ::
  "Env \<Rightarrow> string \<Rightarrow> string \<Rightarrow> Server \<Rightarrow> QueueJob \<Rightarrow> thrown + string
     \<Rightarrow> thrown option \<times> effect list \<times> Server" where
  "processJob_complete env now_db now s job completion =
     (case processJob_try env now_db now s job completion of
        Inr s' \<Rightarrow> (None, [], processJob_finally job s')
      | Inl e \<Rightarrow>
          (case processJob_catch now s job e of
             (escaped, effects, s') \<Rightarrow> (escaped, effects, processJob_finally job s')))"

text \<open>
  \<^verbatim>\<open>processJob\<close> run without interruption; \<open>api\<close> is the completion service, from the
  prompt to what the call ends in.
\<close>

definition processJob ::
  "Env \<Rightarrow> string \<Rightarrow> string \<Rightarrow> (string \<Rightarrow> fetch_outcome) \<Rightarrow> Server \<Rightarrow> QueueJob
     \<Rightarrow> thrown option \<times> effect list \<times> Server" where
  "processJob env now_db now api s job =
     (case processJob_start env s job of
        Inl e \<Rightarrow> (Some e, [], s)
      | Inr (None, s') \<Rightarrow> (None, [], s')
      | Inr (Some prompt, s') \<Rightarrow>
          processJob_complete env now_db now s' job (generateSummary (api prompt)))"

text \<open>
  One turn of \<^verbatim>\<open>processLoop\<close> (for a worker that is running): pop, process, sleep 2
  seconds; a throw inside the turn is logged and followed by a sleep of 1 second.
\<close>

definition processLoop_turn ::
  "Env \<Rightarrow> string \<Rightarrow> string \<Rightarrow> (string \<Rightarrow> fetch_outcome) \<Rightarrow> Server \<Rightarrow> effect list \<times> Server" where
  "processLoop_turn env now_db now api s =
     (case pop (queue s) of
        Inl e \<Rightarrow> ([Sleep 1000], s)
      | Inr (None, q') \<Rightarrow> ([], s\<lparr>queue := q'\<rparr>)
      | Inr (Some job, q') \<Rightarrow>
          (case processJob env now_db now api (s\<lparr>queue := q'\<rparr>) job of
             (None, effects, s') \<Rightarrow> (effects @ [Sleep 2000], s')
           | (Some e, effects, s') \<Rightarrow> (effects @ [Sleep 1000], s')))"

text \<open>\<^verbatim>\<open>worker.start(broadcastSummary, broadcastError)\<close>.\<close>

definition start_worker :: "SummarizationWorker \<Rightarrow> SummarizationWorker" where
  "start_worker w = (if apiKey w = [] then w else w\<lparr>running := True, onError_set := True\<rparr>)"

definition new_SummarizationWorker :: "string option \<Rightarrow> SummarizationWorker" where
  "new_SummarizationWorker key =
     \<lparr>apiKey = (case key of None \<Rightarrow> [] | Some k \<Rightarrow> k), running = False,
      processingEvents = {}, onError_set = False\<rparr>"


section \<open>The server as a transition system\<close>

text \<open>
  The server together with the job the worker's loop holds while it awaits the completion
  call (the local variable \<^verbatim>\<open>job\<close> of \<^verbatim>\<open>processLoop\<close>).
\<close>

record System =
  srv :: Server
  in_flight :: "QueueJob option"

text \<open>
  What can happen to a running server: the three routes that change state, subscribers
  coming, going and breaking, the callbacks of the Redis client, and the worker taking a
  job and later finishing it. Each handler runs to its end between two awaits of real
  input or output, so the steps interleave and do not overlap.
\<close>

datatype action =
    GetEventSummary string
  | PostReset string
  | PostInternalEvent string InternalEventBody
  | StreamOpen nat
  | StreamClose nat
  | WriteBreaks nat
  | RedisConnect
  | RedisRetry nat
  | RedisError
  | RedisConnectionLost
  | WorkerTake
  | WorkerComplete string string "thrown + string"

definition with_srv :: "System \<Rightarrow> Server \<Rightarrow> System" where
  "with_srv y s = y\<lparr>srv := s\<rparr>"

text \<open>
  The worker takes a job when its loop is running and idle; a job that is not skipped
  stays in flight until the completion call ends.
\<close>

definition worker_take :: "Env \<Rightarrow> System \<Rightarrow> System" where
  "worker_take env y =
     (if \<not> running (worker (srv y)) \<or> in_flight y \<noteq> None then y
      else
        (case pop (queue (srv y)) of
           Inl e \<Rightarrow> y
         | Inr (None, q') \<Rightarrow> with_srv y ((srv y)\<lparr>queue := q'\<rparr>)
         | Inr (Some job, q') \<Rightarrow>
             (case processJob_start env ((srv y)\<lparr>queue := q'\<rparr>) job of
                Inl e \<Rightarrow> with_srv y ((srv y)\<lparr>queue := q'\<rparr>)
              | Inr (None, s') \<Rightarrow> with_srv y s'
              | Inr (Some prompt, s') \<Rightarrow> (with_srv y s')\<lparr>in_flight := Some job\<rparr>)))"

definition worker_complete :: "Env \<Rightarrow> string \<Rightarrow> string \<Rightarrow> thrown + string \<Rightarrow> System \<Rightarrow> System" where
  "worker_complete env now_db now completion y =
     (case in_flight y of
        None \<Rightarrow> y
      | Some job \<Rightarrow>
          (case processJob_complete env now_db now (srv y) job completion of
             (escaped, effects, s') \<Rightarrow> (with_srv y s')\<lparr>in_flight := None\<rparr>))"

text \<open>
  One step. The route \<^verbatim>\<open>/event/:eventId/summary\<close> matches no request whose
  \<^verbatim>\<open>eventId\<close> segment is empty. The callbacks of the Redis client can run only when a
  client has been constructed.
\<close>

definition step :: "Env \<Rightarrow> action \<Rightarrow> System \<Rightarrow> System" where
  "step env a y =
     (case a of
        GetEventSummary e \<Rightarrow>
          if e = [] then y else with_srv y (snd (get_event_summary env (srv y) e))
      | PostReset now \<Rightarrow> with_srv y (snd (post_reset now (srv y)))
      | PostInternalEvent now body \<Rightarrow> with_srv y (snd (post_internal_event now (srv y) body))
      | StreamOpen cid \<Rightarrow> with_srv y (stream_open cid (srv y))
      | StreamClose cid \<Rightarrow> with_srv y (stream_close cid (srv y))
      | WriteBreaks cid \<Rightarrow>
          with_srv y ((srv y)\<lparr>sseClients :=
            map (\<lambda>c. if client_id c = cid then c\<lparr>write_throws := True\<rparr> else c)
              (sseClients (srv y))\<rparr>)
      | RedisConnect \<Rightarrow>
          if client_alive (queue (srv y))
          then with_srv y ((srv y)\<lparr>queue := on_connect (queue (srv y))\<rparr>) else y
      | RedisRetry n \<Rightarrow>
          if client_alive (queue (srv y))
          then with_srv y ((srv y)\<lparr>queue := snd (retryStrategy n (queue (srv y)))\<rparr>) else y
      | RedisError \<Rightarrow>
          if client_alive (queue (srv y))
          then with_srv y ((srv y)\<lparr>queue := on_error (queue (srv y))\<rparr>) else y
      | RedisConnectionLost \<Rightarrow>
          with_srv y ((srv y)\<lparr>queue := connection_lost (queue (srv y))\<rparr>)
      | WorkerTake \<Rightarrow> worker_take env y
      | WorkerComplete now_db now completion \<Rightarrow> worker_complete env now_db now completion y)"

text \<open>
  The server when \<^verbatim>\<open>start\<close> has run: the database is open (on whatever file), the
  queue and the worker are in whatever state their initialisation left them, there is no
  subscriber, no budget is used and nothing is pending.
\<close>

definition started :: "Server \<Rightarrow> bool" where
  "started s =
     (db s \<noteq> None
      \<and> sseClients s = []
      \<and> API_BUDGET s = (\<lambda>_. 0)
      \<and> pendingEvents s = {})"

inductive reachable :: "Env \<Rightarrow> System \<Rightarrow> bool" for env :: Env where
  reachable_start: "started (srv y) \<Longrightarrow> in_flight y = None \<Longrightarrow> reachable env y"
| reachable_step: "reachable env y \<Longrightarrow> reachable env (step env a y)"

fun run :: "Env \<Rightarrow> action list \<Rightarrow> System \<Rightarrow> System" where
  "run env [] y = y"
| "run env (a # as) y = run env as (step env a y)"

section \<open>The poller's backoff (poller.ts)\<close>

text \<open>
  \<^verbatim>\<open>PollerConfig\<close>, and \<^verbatim>\<open>Partial<PollerConfig>\<close> as the constructor takes it. Times are in
  milliseconds; JavaScript's numbers are taken as real numbers.
\<close>

record PollerConfig =
  githubToken :: "string option"
  pollInterval :: real
  initialBackoff :: real
  maxBackoff :: real
  backoffMultiplier :: real
  mlServiceUrl :: "string option"
  backendApiUrl :: "string option"

record PartialPollerConfig =
  p_githubToken :: "string option option"
  p_pollInterval :: "real option"
  p_initialBackoff :: "real option"
  p_maxBackoff :: "real option"
  p_backoffMultiplier :: "real option"
  p_mlServiceUrl :: "string option option"
  p_backendApiUrl :: "string option option"

definition no_overrides :: PartialPollerConfig where
  "no_overrides = \<lparr>p_githubToken = None, p_pollInterval = None, p_initialBackoff = None,
     p_maxBackoff = None, p_backoffMultiplier = None, p_mlServiceUrl = None,
     p_backendApiUrl = None\<rparr>"

text \<open>
  The fields of \<^verbatim>\<open>GitHubEventsPoller\<close>; \<open>seenEventIds\<close> is the set in its insertion
  order.
\<close>

record GitHubEventsPoller =
  config :: PollerConfig
  currentBackoff :: real
  lastEtag :: "string option"
  seenEventIds :: "string list"
  pollCount :: nat

text \<open>
  The constructor: the defaults, overridden by what the caller gives. \<open>token\<close>, \<open>ml\<close> and
  \<open>backend\<close> are the values the environment variables give.
\<close>

definition override :: "'a option \<Rightarrow> 'a \<Rightarrow> 'a" where
  "override given dflt = (case given of None \<Rightarrow> dflt | Some v \<Rightarrow> v)"

definition new_GitHubEventsPoller ::
  "string option \<Rightarrow> string \<Rightarrow> string \<Rightarrow> PartialPollerConfig \<Rightarrow> GitHubEventsPoller" where
  "new_GitHubEventsPoller token ml backend given =
     (let cfg = \<lparr>githubToken = override (p_githubToken given) token,
                 pollInterval = override (p_pollInterval given) 60000,
                 initialBackoff = override (p_initialBackoff given) 5000,
                 maxBackoff = override (p_maxBackoff given) 300000,
                 backoffMultiplier = override (p_backoffMultiplier given) 2,
                 mlServiceUrl = override (p_mlServiceUrl given) (Some ml),
                 backendApiUrl = override (p_backendApiUrl given) (Some backend)\<rparr>
      in \<lparr>config = cfg, currentBackoff = initialBackoff cfg, lastEtag = None,
          seenEventIds = [], pollCount = 0\<rparr>)"

text \<open>
  The one poller the program constructs:
  \<^verbatim>\<open>new GitHubEventsPoller({ pollInterval: 10000 })\<close>.
\<close>

definition poller :: "string option \<Rightarrow> string \<Rightarrow> string \<Rightarrow> GitHubEventsPoller" where
  "poller token ml backend =
     new_GitHubEventsPoller token ml backend (no_overrides\<lparr>p_pollInterval := Some 10000\<rparr>)"

text \<open>
  \<^verbatim>\<open>increaseBackoff\<close> and \<^verbatim>\<open>resetBackoff\<close>; \<open>rnd\<close> is the value of \<^verbatim>\<open>Math.random()\<close>, a
  number from 0 (included) to 1 (excluded).
\<close>

definition increaseBackoff :: "real \<Rightarrow> GitHubEventsPoller \<Rightarrow> GitHubEventsPoller" where
  "increaseBackoff rnd p =
     (let nextBackoff = currentBackoff p * backoffMultiplier (config p);
          jitter = 0.8 + rnd * 0.4
      in p\<lparr>currentBackoff := min (nextBackoff * jitter) (maxBackoff (config p))\<rparr>)"

definition resetBackoff :: "GitHubEventsPoller \<Rightarrow> GitHubEventsPoller" where
  "resetBackoff p = p\<lparr>currentBackoff := initialBackoff (config p)\<rparr>"

text \<open>
  What one turn of the loop of \<^verbatim>\<open>poll\<close> meets: a throw anywhere inside the \<^verbatim>\<open>try\<close>
  before the status is looked at; status 304; status 200 with the \<^verbatim>\<open>etag\<close> header, the
  ids of the events received and whether handling them threw (a rejected context
  fetch, which happens after the new ids are recorded); status 403 or 429 with
  the number \<^verbatim>\<open>parseInt\<close> reads from a non-empty \<^verbatim>\<open>retry-after\<close> header (\<open>Some None\<close> when
  it reads \<^verbatim>\<open>NaN\<close>); any other status.
\<close>

datatype cycle =
    Threw
  | NotModified
  | Ok200 "string option" "string list" bool
  | RateLimited "real option option"
  | Unexpected nat

definition add_seen :: "string \<Rightarrow> string list \<Rightarrow> string list" where
  "add_seen x seen = (if x \<in> set seen then seen else seen @ [x])"

definition trim_seen :: "string list \<Rightarrow> string list" where
  "trim_seen seen = (if length seen > 1000 then drop (length seen - 1000) seen else seen)"

text \<open>
  One turn of the loop: the new state and the time slept at its end (\<open>None\<close> when the
  computed time is \<^verbatim>\<open>NaN\<close>).
\<close>

definition poll_cycle :: "cycle \<Rightarrow> real \<Rightarrow> GitHubEventsPoller \<Rightarrow> real option \<times> GitHubEventsPoller" where
  "poll_cycle c rnd p0 =
     (let p = p0\<lparr>pollCount := pollCount p0 + 1\<rparr> in
      case c of
        Threw \<Rightarrow>
          (let p' = increaseBackoff rnd p in (Some (currentBackoff p'), p'))
      | NotModified \<Rightarrow>
          (Some (pollInterval (config p)), resetBackoff p)
      | Ok200 etag ids threw \<Rightarrow>
          (let p1 = (case etag of None \<Rightarrow> p
                     | Some t \<Rightarrow> if t = [] then p else p\<lparr>lastEtag := Some t\<rparr>);
               newEvents = filter (\<lambda>i. i \<notin> set (seenEventIds p1)) ids;
               p2 = p1\<lparr>seenEventIds := foldl (\<lambda>seen i. add_seen i seen) (seenEventIds p1) newEvents\<rparr>
           in if threw
              then (let p' = increaseBackoff rnd p2 in (Some (currentBackoff p'), p'))
              else (Some (pollInterval (config p)),
                    resetBackoff (p2\<lparr>seenEventIds := trim_seen (seenEventIds p2)\<rparr>)))
      | RateLimited retryAfter \<Rightarrow>
          (case retryAfter of
             Some secs \<Rightarrow> (map_option (\<lambda>n. n * 1000 * (0.9 + rnd * 0.2)) secs, p)
           | None \<Rightarrow> (let p' = increaseBackoff rnd p in (Some (currentBackoff p'), p')))
      | Unexpected st \<Rightarrow>
          (Some (pollInterval (config p)), increaseBackoff rnd p))"

text \<open>A turn is a success when it ends in \<^verbatim>\<open>resetBackoff\<close>.\<close>

definition succeeded :: "cycle \<Rightarrow> bool" where
  "succeeded c =
     (case c of
        NotModified \<Rightarrow> True
      | Ok200 etag ids threw \<Rightarrow> \<not> threw
      | _ \<Rightarrow> False)"

fun poll_run :: "(cycle \<times> real) list \<Rightarrow> GitHubEventsPoller \<Rightarrow> GitHubEventsPoller" where
  "poll_run [] p = p"
| "poll_run ((c, rnd) # rest) p = poll_run rest (snd (poll_cycle c rnd p))"


section \<open>Notions used in the statements\<close>

text \<open>
  The jobs waiting in the queue, whichever backend holds them, and whether the backend
  in use can take a command.
\<close>

definition queue_contents :: "Queue \<Rightarrow> QueueJob list" where
  "queue_contents q =
     (if useInMemory q then inMemoryQueue q
      else case redis q of None \<Rightarrow> [] | Some c \<Rightarrow> rlist c)"

definition queue_ready :: "Queue \<Rightarrow> bool" where
  "queue_ready q =
     (useInMemory q \<or> (case redis q of None \<Rightarrow> False | Some c \<Rightarrow> connected c))"

text \<open>
  The queue \<open>q'\<close> still runs on the in-process backend, with the client and the list on
  the Redis server as they were in \<open>q\<close>.
\<close>

definition in_process_kept :: "Queue \<Rightarrow> Queue \<Rightarrow> bool" where
  "in_process_kept q q' =
     (useInMemory q'
      \<and> (client_alive q' \<longrightarrow> client_alive q)
      \<and> map_option rlist (redis q') = map_option rlist (redis q))"

text \<open>
  No event is pending while a summary of it is stored, and the empty string is never
  pending: the property of the server's state that the handlers and the worker keep.
\<close>

definition pending_ok :: "Server \<Rightarrow> bool" where
  "pending_ok s =
     (db s \<noteq> None \<and> [] \<notin> pendingEvents s
      \<and> (\<forall>e \<in> pendingEvents s. getSummaryByEventId (db s) e = Inr None))"

text \<open>The backoff lies between the configured floor and ceiling.\<close>

definition backoff_in_bounds :: "GitHubEventsPoller \<Rightarrow> bool" where
  "backoff_in_bounds p =
     (initialBackoff (config p) \<le> currentBackoff p
      \<and> currentBackoff p \<le> maxBackoff (config p))"

section \<open>Concrete inputs\<close>

text \<open>
  One stored event of category 'both', an environment whose JSON parser knows the texts
  used below and answers every other text as Node 20 answers \<^verbatim>\<open>{not json}\<close>, and a server
  that has just started with the in-process queue.
\<close>

definition example_event :: GitHubEventObj where
  "example_event = \<lparr>ge_id = ''E1'', ge_type = ''PushEvent'', ge_repo_name = Some ''octo/repo'',
     ge_actor_login = Some ''octocat'', ge_created_at = ''2025-01-01T00:00:00Z'',
     ge_json = ''{\"id\":\"E1\"}'', ge_payload = None\<rparr>"

definition example_row :: Event where
  "example_row = \<lparr>ev_id = ''E1'', ev_type = ''PushEvent'', ev_repo = ''octo/repo'',
     ev_actor = ''octocat'', ev_created_at = ''2025-01-01T00:00:00Z'',
     ev_payload = ''{\"id\":\"E1\"}'', ev_score = Some 0.9, ev_code_quality_score = None,
     ev_category = Some ''both'', ev_repo_context = None,
     ev_stored_at = ''2025-01-01T00:00:01Z''\<rparr>"

definition critical_issue_text :: string where
  "critical_issue_text = ''{\"classification\": \"CRITICAL_ISSUE\"}''"

definition shadowed_toString_text :: string where
  "shadowed_toString_text = ''{\"classification\": {\"toString\": 1}}''"

definition plain_object_text :: string where
  "plain_object_text = ''{\"classification\": {\"a\": 1}}''"

definition not_json_error :: string where
  "not_json_error = ''SyntaxError: Expected property name or '}' in JSON at position 1''"

definition example_env :: "int \<Rightarrow> Env" where
  "example_env limit = \<lparr>MAX_SUMMARIES_PER_CATEGORY = Some limit,
     JSON_parse = (\<lambda>s.
       if s = critical_issue_text
       then Inr (JObject [(''classification'', JString ''CRITICAL_ISSUE'')])
       else if s = shadowed_toString_text
       then Inr (JObject [(''classification'', JObject [(''toString'', JNumber 1)])])
       else if s = plain_object_text
       then Inr (JObject [(''classification'', JObject [(''a'', JNumber 1)])])
       else Inl not_json_error),
     JSON_stringify = (\<lambda>j. ''{}''),
     JSON_stringify_indent2 = (\<lambda>j. ''{}''),
     number_toString = (\<lambda>x. ''0''),
     toFixed3 = (\<lambda>x. ''0.900''),
     parse_event = (\<lambda>s. if s = ''{\"id\":\"E1\"}'' then Inr example_event
                         else Inl not_json_error),
     parse_repo_context = (\<lambda>s. Inl not_json_error)\<rparr>"

definition example_server :: Server where
  "example_server = \<lparr>db = Some (empty_tables\<lparr>events := [(1, example_row)]\<rparr>),
     queue = new_Queue\<lparr>useInMemory := True\<rparr>,
     worker = start_worker (new_SummarizationWorker (Some ''sk-test'')),
     sseClients = [], API_BUDGET = (\<lambda>_. 0), pendingEvents = {}\<rparr>"

definition example_system :: System where
  "example_system = \<lparr>srv = example_server, in_flight = None\<rparr>"

definition example_job :: QueueJob where
  "example_job = \<lparr>job_eventId = ''E1'', job_event = example_event,
     job_score = Some \<lparr>sc_score = Some 0.9, sc_is_anomalous = False, sc_features = None\<rparr>,
     job_repoContext = None, job_timestamp = ''2025-01-01T00:00:00Z'',
     job_category = security\<rparr>"

definition example_summary :: SummaryInput where
  "example_summary = \<lparr>event_id = ''test-event-789'', event_type = ''PushEvent'',
     repo = ''test/repo'', actor = ''testuser'', timestamp = ''2025-01-01T00:00:00.000Z'',
     root_cause = ''First summary'', impact = ''Test impact'',
     next_steps = ''Test next steps'', raw_summary = ''{}''\<rparr>"

text \<open>
  The same server when the one summary a ceiling of 1 allows has been used, and when,
  besides, a summary of \<^verbatim>\<open>E1\<close> is stored while \<^verbatim>\<open>E1\<close> is still marked pending.
\<close>

definition spent_server :: Server where
  "spent_server = example_server\<lparr>API_BUDGET := (\<lambda>_. 1)\<rparr>"

definition stored_summary :: Summary where
  "stored_summary = summary_row 1 ''2025-01-01T00:00:02Z'' (example_summary\<lparr>event_id := ''E1''\<rparr>)"

definition summarized_server :: Server where
  "summarized_server = spent_server\<lparr>
     db := Some (empty_tables\<lparr>events := [(1, example_row)], summaries := [stored_summary],
                  summaries_seq := 1, last_insert_rowid := 1\<rparr>),
     pendingEvents := {''E1''}\<rparr>"

text \<open>
  The queue of a process whose \<^verbatim>\<open>REDIS_URL\<close> is set and whose first connection attempt
  was refused: \<^verbatim>\<open>init\<close> has fallen back in its \<^verbatim>\<open>catch\<close> block. The server that has
  just started with this queue, and the error the completion call throws on an HTTP 429.
\<close>

definition refused_queue :: Queue where
  "refused_queue = init_connect_rejected (init_queue (Some ''redis://cache:6379'') [] new_Queue)"

definition refused_system :: System where
  "refused_system = \<lparr>srv = example_server\<lparr>queue := refused_queue\<rparr>, in_flight = None\<rparr>"

definition too_many_requests :: thrown where
  "too_many_requests = Error ''OpenAI API error: 429 Too Many Requests'' None"


section \<open>The record store keeps at most one summary per event\<close>

lemma event_id_summary_row [simp]: "event_id (summary_row n now s) = event_id s"
  by (simp add: summary_row_def SummaryInput.defs Summary.defs)

lemma truncate_summary_row [simp]: "SummaryInput.truncate (summary_row n now s) = s"
  by (simp add: summary_row_def SummaryInput.defs Summary.defs)

lemma created_at_summary_row [simp]: "created_at (summary_row n now s) = now"
  by (simp add: summary_row_def SummaryInput.defs Summary.defs)

lemma getSummaryByEventId_Some [simp]:
  "getSummaryByEventId (Some t) e = Inr (find (\<lambda>r. event_id r = e) (summaries t))"
  by (simp add: getSummaryByEventId_def)

lemma find_event_None:
  "(find (\<lambda>r. event_id r = e) rows = None) = (\<forall>r \<in> set rows. event_id r \<noteq> e)"
  by (auto simp: find_None_iff)

lemma find_append_first:
  "find P (xs @ ys) = (case find P xs of Some x \<Rightarrow> Some x | None \<Rightarrow> find P ys)"
  by (induction xs) auto

lemma storeSummary_present:
  "find (\<lambda>r. event_id r = event_id s) (summaries t) = Some r \<Longrightarrow>
   storeSummary now (Some t) s = Inr (\<lparr>res_id = last_insert_rowid t, wasInserted = False\<rparr>, Some t)"
  by (auto simp: storeSummary_def find_Some_iff)

lemma storeSummary_absent:
  "find (\<lambda>r. event_id r = event_id s) (summaries t) = None \<Longrightarrow>
   storeSummary now (Some t) s =
     Inr (\<lparr>res_id = summaries_seq t + 1, wasInserted = True\<rparr>,
          Some (t\<lparr>summaries := summaries t @ [summary_row (summaries_seq t + 1) now s],
                  summaries_seq := summaries_seq t + 1,
                  last_insert_rowid := summaries_seq t + 1\<rparr>))"
  by (simp add: storeSummary_def Let_def find_event_None)

lemma unique_append:
  "unique_event_ids t \<Longrightarrow> find (\<lambda>r. event_id r = event_id s) (summaries t) = None \<Longrightarrow>
   unique_event_ids (t\<lparr>summaries := summaries t @ [summary_row n now s],
                  summaries_seq := a, last_insert_rowid := b\<rparr>)"
  by (auto simp: unique_event_ids_def find_event_None)

lemma distinct_filter_le1:
  "distinct (map f xs) \<Longrightarrow> length (filter (\<lambda>r. f r = e) xs) \<le> 1"
proof (induction xs)
  case Nil
  then show ?case by simp
next
  case (Cons x xs)
  show ?case
  proof (cases "f x = e")
    case True
    have "f x \<notin> f ` set xs" using Cons.prems by simp
    then have "\<forall>r \<in> set xs. f r \<noteq> e" using True by (metis imageI)
    then have "filter (\<lambda>r. f r = e) xs = []" by (simp add: filter_empty_conv)
    then show ?thesis using True by simp
  next
    case False
    then show ?thesis using Cons by simp
  qed
qed

lemma unique_at_most_one:
  "unique_event_ids t \<Longrightarrow> length (filter (\<lambda>r. event_id r = e) (summaries t)) \<le> 1"
  unfolding unique_event_ids_def by (rule distinct_filter_le1)

lemma clearAll_summaries:
  "clearAll d = Inr (r, d') \<Longrightarrow> \<exists>t'. d' = Some t' \<and> events t' = [] \<and> summaries t' = []"
  by (auto simp: clearAll_def split: option.splits)

lemma storeEvent_summaries:
  "storeEvent now (Some t) ev a b c x = Inr d' \<Longrightarrow> \<exists>t'. d' = Some t' \<and> summaries t' = summaries t"
  by (auto simp: storeEvent_def Let_def)

lemma incrementNormalCounter_summaries:
  "incrementNormalCounter (Some t) = Inr d' \<Longrightarrow> \<exists>t'. d' = Some t' \<and> summaries t' = summaries t"
  by (auto simp: incrementNormalCounter_def)

lemma storeSummaries_spec:
  "unique_event_ids t \<Longrightarrow>
   \<exists>rs t'. storeSummaries (Some t) calls = Inr (rs, Some t')
     \<and> length rs = length calls
     \<and> unique_event_ids t'
     \<and> (\<forall>e. case find (\<lambda>r. event_id r = e) (summaries t) of
              Some r \<Rightarrow> find (\<lambda>r. event_id r = e) (summaries t') = Some r
            | None \<Rightarrow>
                map_option (\<lambda>r. (created_at r, SummaryInput.truncate r))
                    (find (\<lambda>r. event_id r = e) (summaries t'))
                  = find (\<lambda>(now, s). event_id s = e) calls)"
proof (induction calls arbitrary: t)
  case Nil
  then show ?case by (auto split: option.splits)
next
  case (Cons c calls)
  obtain now s where c: "c = (now, s)" by (cases c)
  show ?case
  proof (cases "find (\<lambda>r. event_id r = event_id s) (summaries t)")
    case (Some r0)
    from Cons.IH[OF Cons.prems] obtain rs t' where
      *: "storeSummaries (Some t) calls = Inr (rs, Some t')" "length rs = length calls"
         "unique_event_ids t'"
         "\<And>e. case find (\<lambda>r. event_id r = e) (summaries t) of
              Some r \<Rightarrow> find (\<lambda>r. event_id r = e) (summaries t') = Some r
            | None \<Rightarrow>
                map_option (\<lambda>r. (created_at r, SummaryInput.truncate r))
                    (find (\<lambda>r. event_id r = e) (summaries t'))
                  = find (\<lambda>(now, s). event_id s = e) calls"
      by blast
    have "\<And>e. case find (\<lambda>r. event_id r = e) (summaries t) of
              Some r \<Rightarrow> find (\<lambda>r. event_id r = e) (summaries t') = Some r
            | None \<Rightarrow>
                map_option (\<lambda>r. (created_at r, SummaryInput.truncate r))
                    (find (\<lambda>r. event_id r = e) (summaries t'))
                  = find (\<lambda>(now, s). event_id s = e) (c # calls)"
      subgoal for e
        using *(4)[of e] Some by (cases "event_id s = e") (auto simp: c split: option.splits)
      done
    then show ?thesis
      using *(1,2,3) by (simp add: c storeSummary_present[OF Some])
  next
    case None
    let ?t1 = "t\<lparr>summaries := summaries t @ [summary_row (summaries_seq t + 1) now s],
                  summaries_seq := summaries_seq t + 1,
                  last_insert_rowid := summaries_seq t + 1\<rparr>"
    have u1: "unique_event_ids ?t1"
      using Cons.prems None by (rule unique_append)
    from Cons.IH[OF u1] obtain rs t' where
      *: "storeSummaries (Some ?t1) calls = Inr (rs, Some t')" "length rs = length calls"
         "unique_event_ids t'"
         "\<And>e. case find (\<lambda>r. event_id r = e) (summaries ?t1) of
              Some r \<Rightarrow> find (\<lambda>r. event_id r = e) (summaries t') = Some r
            | None \<Rightarrow>
                map_option (\<lambda>r. (created_at r, SummaryInput.truncate r))
                    (find (\<lambda>r. event_id r = e) (summaries t'))
                  = find (\<lambda>(now, s). event_id s = e) calls"
      by blast
    have "\<And>e. case find (\<lambda>r. event_id r = e) (summaries t) of
              Some r \<Rightarrow> find (\<lambda>r. event_id r = e) (summaries t') = Some r
            | None \<Rightarrow>
                map_option (\<lambda>r. (created_at r, SummaryInput.truncate r))
                    (find (\<lambda>r. event_id r = e) (summaries t'))
                  = find (\<lambda>(now, s). event_id s = e) (c # calls)"
      subgoal for e
        using *(4)[of e] None
        by (cases "event_id s = e") (auto simp: c find_append_first split: option.splits)
      done
    then show ?thesis
      using *(1,2,3) by (simp add: c storeSummary_absent[OF None])
  qed
qed

text \<open>
  C1. Take a database file that respects the \<^verbatim>\<open>UNIQUE\<close> constraint on
  \<^verbatim>\<open>summaries.event_id\<close> and any sequence of \<^verbatim>\<open>storeSummary\<close> calls, in whatever order
  concurrent jobs issue them. No call throws; afterwards every event identifier has at
  most one row; a row that existed before is still the stored one; for an identifier that
  had no row, the stored row carries the fields and the clock reading of the first call
  made for it; and from then on every further call for a stored identifier reports
  \<^verbatim>\<open>wasInserted = false\<close> and leaves the database exactly as it was. The other
  operations of the store do not add rows: \<^verbatim>\<open>storeEvent\<close> and
  \<^verbatim>\<open>incrementNormalCounter\<close> leave the table of summaries alone and \<^verbatim>\<open>clearAll\<close>
  empties it.
\<close>

theorem storeSummary_first_write_wins:
  assumes "unique_event_ids t"
  shows "\<exists>rs t'. storeSummaries (Some t) calls = Inr (rs, Some t')
     \<and> length rs = length calls
     \<and> unique_event_ids t'
     \<and> (\<forall>e. length (filter (\<lambda>r. event_id r = e) (summaries t')) \<le> 1)
     \<and> (\<forall>e. case getSummaryByEventId (Some t) e of
              Inr (Some r) \<Rightarrow> getSummaryByEventId (Some t') e = Inr (Some r)
            | _ \<Rightarrow>
                map_sum id (map_option (\<lambda>r. (created_at r, SummaryInput.truncate r)))
                    (getSummaryByEventId (Some t') e)
                  = Inr (find (\<lambda>(now, s). event_id s = e) calls))
     \<and> (\<forall>now s r. getSummaryByEventId (Some t') (event_id s) = Inr (Some r) \<longrightarrow>
            storeSummary now (Some t') s
              = Inr (\<lparr>res_id = last_insert_rowid t', wasInserted = False\<rparr>, Some t'))
     \<and> (\<forall>now ev a b c x d'. storeEvent now (Some t') ev a b c x = Inr d' \<longrightarrow>
            (\<exists>t''. d' = Some t'' \<and> summaries t'' = summaries t'))
     \<and> (\<forall>d'. incrementNormalCounter (Some t') = Inr d' \<longrightarrow>
            (\<exists>t''. d' = Some t'' \<and> summaries t'' = summaries t'))
     \<and> (\<forall>r d'. clearAll (Some t') = Inr (r, d') \<longrightarrow>
            (\<exists>t''. d' = Some t'' \<and> summaries t'' = []))"
proof -
  from storeSummaries_spec[OF assms, of calls] obtain rs t' where
    *: "storeSummaries (Some t) calls = Inr (rs, Some t')" "length rs = length calls"
       "unique_event_ids t'"
       "\<And>e. case find (\<lambda>r. event_id r = e) (summaries t) of
              Some r \<Rightarrow> find (\<lambda>r. event_id r = e) (summaries t') = Some r
            | None \<Rightarrow>
                map_option (\<lambda>r. (created_at r, SummaryInput.truncate r))
                    (find (\<lambda>r. event_id r = e) (summaries t'))
                  = find (\<lambda>(now, s). event_id s = e) calls"
    by blast
  have one: "\<And>e. length (filter (\<lambda>r. event_id r = e) (summaries t')) \<le> 1"
    using *(3) unique_at_most_one by blast
  have wins: "\<And>e. case getSummaryByEventId (Some t) e of
              Inr (Some r) \<Rightarrow> getSummaryByEventId (Some t') e = Inr (Some r)
            | _ \<Rightarrow>
                map_sum id (map_option (\<lambda>r. (created_at r, SummaryInput.truncate r)))
                    (getSummaryByEventId (Some t') e)
                  = Inr (find (\<lambda>(now, s). event_id s = e) calls)"
    subgoal for e using *(4)[of e] by (simp split: option.splits)
    done
  have noop: "\<And>now s r. getSummaryByEventId (Some t') (event_id s) = Inr (Some r) \<Longrightarrow>
            storeSummary now (Some t') s
              = Inr (\<lparr>res_id = last_insert_rowid t', wasInserted = False\<rparr>, Some t')"
    by (simp add: storeSummary_present)
  have others:
    "(\<forall>now ev a b c x d'. storeEvent now (Some t') ev a b c x = Inr d' \<longrightarrow>
            (\<exists>t''. d' = Some t'' \<and> summaries t'' = summaries t'))
     \<and> (\<forall>d'. incrementNormalCounter (Some t') = Inr d' \<longrightarrow>
            (\<exists>t''. d' = Some t'' \<and> summaries t'' = summaries t'))
     \<and> (\<forall>r d'. clearAll (Some t') = Inr (r, d') \<longrightarrow>
            (\<exists>t''. d' = Some t'' \<and> summaries t'' = []))"
    using storeEvent_summaries incrementNormalCounter_summaries clearAll_summaries by blast
  show ?thesis
    using *(1,2,3) one wins noop others by blast
qed

text \<open>
  The duplicate submission of the repository's own test, on a fresh database: two calls
  for \<^verbatim>\<open>test-event-789\<close>, the second with another root cause.
\<close>

theorem storeSummary_first_write_wins_witness:
  "unique_event_ids empty_tables
   \<and> (\<exists>rs t'. storeSummaries (Some empty_tables)
          [(''t1'', example_summary), (''t2'', example_summary\<lparr>root_cause := ''Second summary''\<rparr>)]
          = Inr (rs, Some t')
        \<and> map wasInserted rs = [True, False]
        \<and> unique_event_ids t'
        \<and> map root_cause (summaries t') = [''First summary''])"
proof -
  let ?calls = "[(''t1'', example_summary),
                 (''t2'', example_summary\<lparr>root_cause := ''Second summary''\<rparr>)]"
  have u: "unique_event_ids empty_tables"
    by (simp add: unique_event_ids_def empty_tables_def)
  from storeSummary_first_write_wins[OF u, of ?calls] obtain rs t' where
    run: "storeSummaries (Some empty_tables) ?calls = Inr (rs, Some t')"
    and uniq: "unique_event_ids t'"
    by blast
  have eval: "storeSummaries (Some empty_tables) ?calls =
      Inr ([\<lparr>res_id = 1, wasInserted = True\<rparr>, \<lparr>res_id = 1, wasInserted = False\<rparr>],
           Some (empty_tables\<lparr>summaries := [summary_row 1 ''t1'' example_summary],
                   summaries_seq := 1, last_insert_rowid := 1\<rparr>))"
    by (simp add: storeSummary_def empty_tables_def example_summary_def)
  from run eval have
    rs: "rs = [\<lparr>res_id = 1, wasInserted = True\<rparr>, \<lparr>res_id = 1, wasInserted = False\<rparr>]"
    and t': "t' = empty_tables\<lparr>summaries := [summary_row 1 ''t1'' example_summary],
                   summaries_seq := 1, last_insert_rowid := 1\<rparr>"
    by simp_all
  have rc: "map root_cause (summaries t') = [''First summary'']"
    by (simp add: t' summary_row_def SummaryInput.defs Summary.defs example_summary_def)
  show ?thesis
    using u run uniq rs rc by simp
qed


section \<open>Pending events have no stored summary\<close>

lemma pending_ok_started: "started s \<Longrightarrow> pending_ok s"
  by (simp add: started_def pending_ok_def)

lemma broadcast_keeps [simp]:
  "db (broadcastEvent ev s) = db s" "pendingEvents (broadcastEvent ev s) = pendingEvents s"
  "db (broadcastError er s) = db s" "pendingEvents (broadcastError er s) = pendingEvents s"
  "db (broadcastReset now s) = db s" "pendingEvents (broadcastReset now s) = pendingEvents s"
  by (simp_all add: broadcastEvent_def broadcastError_def broadcastReset_def)

lemma pending_ok_get:
  assumes "pending_ok s" "e \<noteq> []"
  shows "pending_ok (snd (get_event_summary env s e))"
proof -
  from assms obtain t where t: "db s = Some t" by (auto simp: pending_ok_def)
  show ?thesis
    using assms t
    by (auto simp: get_event_summary_def pending_ok_def Let_def incrementSummaryCount_def
             split: option.splits sum.splits if_splits)
qed

lemma pending_ok_reset:
  assumes "pending_ok s"
  shows "pending_ok (snd (post_reset now s))"
proof (cases "clearAll (db s)")
  case (Inl e)
  then show ?thesis using assms by (simp add: post_reset_def)
next
  case (Inr p)
  obtain r d' where p: "p = (r, d')" by (cases p)
  from clearAll_summaries[OF Inr[unfolded p]] obtain t' where
    t': "d' = Some t'" "summaries t' = []" by blast
  show ?thesis
    using assms Inr p t'
    by (auto simp: post_reset_def pending_ok_def Let_def split: sum.splits)
qed

lemma pending_ok_db_change:
  "pending_ok s \<Longrightarrow> db s = Some t \<Longrightarrow> summaries t' = summaries t \<Longrightarrow>
   pending_ok (s\<lparr>db := Some t'\<rparr>)"
  by (simp add: pending_ok_def)

lemma pending_ok_broadcastEvent [simp]: "pending_ok (broadcastEvent ev s) = pending_ok s"
  by (simp add: pending_ok_def)

lemma pending_ok_broadcastError [simp]: "pending_ok (broadcastError ev s) = pending_ok s"
  by (simp add: pending_ok_def)

lemma pending_ok_internal:
  assumes "pending_ok s"
  shows "pending_ok (snd (post_internal_event now s body))"
proof -
  from assms obtain t where t: "db s = Some t" by (auto simp: pending_ok_def)
  show ?thesis
    using assms t
    apply (simp add: post_internal_event_def split: option.splits sum.splits)
    apply (auto dest!: storeEvent_summaries incrementNormalCounter_summaries
                intro: pending_ok_db_change)
    done
qed

lemma pending_ok_queue [simp]: "pending_ok (s\<lparr>queue := q\<rparr>) = pending_ok s"
  by (simp add: pending_ok_def)

lemma pending_ok_worker [simp]: "pending_ok (s\<lparr>worker := w\<rparr>) = pending_ok s"
  by (simp add: pending_ok_def)

lemma pending_ok_clients [simp]: "pending_ok (s\<lparr>sseClients := c\<rparr>) = pending_ok s"
  by (simp add: pending_ok_def)

lemma pending_ok_start:
  "processJob_start env s job = Inr (r, s') \<Longrightarrow> pending_ok s \<Longrightarrow> pending_ok s'"
  by (auto simp: processJob_start_def split: if_splits sum.splits option.splits)

lemma pending_ok_finally [simp]: "pending_ok (processJob_finally job s) = pending_ok s"
  by (simp add: processJob_finally_def)

lemma pending_ok_catch:
  "pending_ok s \<Longrightarrow> processJob_catch now s job e = (x, fx, s') \<Longrightarrow> pending_ok s'"
  by (auto simp: processJob_catch_def split: if_splits sum.splits)

lemma storeSummary_effect:
  "storeSummary now (Some t) r = Inr (res, d') \<Longrightarrow>
   \<exists>t'. d' = Some t' \<and>
     (\<forall>e. e \<noteq> event_id r \<longrightarrow>
        find (\<lambda>x. event_id x = e) (summaries t') = find (\<lambda>x. event_id x = e) (summaries t))"
  by (auto simp: storeSummary_def Let_def find_append_first split: if_splits option.splits)

lemma summaryRecord_event_id:
  "summaryRecord env job parsed = Inr r \<Longrightarrow> event_id r = job_eventId job"
  by (auto simp: summaryRecord_def split: option.splits prod.splits)

lemma pending_ok_try:
  assumes "pending_ok s" "processJob_try env now_db now s job completion = Inr s'"
  shows "pending_ok s'"
proof -
  from assms(1) obtain t where t: "db s = Some t" by (auto simp: pending_ok_def)
  from assms(2) obtain parsed r res d' where
    r: "summaryRecord env job parsed = Inr r"
    and st: "storeSummary now_db (db s) r = Inr (res, d')"
    and s': "s' = broadcastSummary (summary_row (res_id res) now r) (s\<lparr>db := d'\<rparr>)"
    by (auto simp: processJob_try_def split: sum.splits)
  from storeSummary_effect[OF st[unfolded t]] obtain t' where
    t': "d' = Some t'"
    "\<And>e. e \<noteq> event_id r \<Longrightarrow>
        find (\<lambda>x. event_id x = e) (summaries t') = find (\<lambda>x. event_id x = e) (summaries t)"
    by blast
  have keep: "find (\<lambda>x. event_id x = e) (summaries t') = None"
    if "e \<in> pendingEvents s" "e \<noteq> event_id r" for e
    using that assms(1) t t'(2)[of e] by (simp add: pending_ok_def)
  have nonempty: "e \<noteq> []" if "e \<in> pendingEvents s" for e
    using that assms(1) by (auto simp: pending_ok_def)
  show ?thesis
  proof (cases "event_id r = []")
    case True
    then show ?thesis
      using assms(1) t t'(1) keep nonempty
      by (auto simp: s' pending_ok_def broadcastSummary_def Let_def)
  next
    case False
    then show ?thesis
      using assms(1) t t'(1) keep
      by (auto simp: s' pending_ok_def broadcastSummary_def Let_def)
  qed
qed

lemma pending_ok_complete:
  assumes "pending_ok s" "processJob_complete env now_db now s job completion = (x, fx, s')"
  shows "pending_ok s'"
  using assms
  by (auto simp: processJob_complete_def split: sum.splits prod.splits
           dest: pending_ok_try pending_ok_catch)

lemma pending_ok_step:
  assumes "pending_ok (srv y)"
  shows "pending_ok (srv (step env a y))"
proof (cases a)
  case (GetEventSummary e)
  then show ?thesis using assms by (simp add: step_def with_srv_def pending_ok_get)
next
  case (PostReset now)
  then show ?thesis using assms by (simp add: step_def with_srv_def pending_ok_reset)
next
  case (PostInternalEvent now body)
  then show ?thesis using assms by (simp add: step_def with_srv_def pending_ok_internal)
next
  case WorkerTake
  then show ?thesis using assms
    by (auto simp: step_def with_srv_def worker_take_def
             split: sum.splits option.splits prod.splits dest: pending_ok_start)
next
  case (WorkerComplete now_db now completion)
  then show ?thesis using assms
    by (auto simp: step_def with_srv_def worker_complete_def
             split: option.splits prod.splits dest: pending_ok_complete)
qed (use assms in \<open>simp_all add: step_def with_srv_def stream_open_def stream_close_def\<close>)

lemma reachable_pending_ok: "reachable env y \<Longrightarrow> pending_ok (srv y)"
  by (induction rule: reachable.induct) (simp_all add: pending_ok_started pending_ok_step)

text \<open>
  C2. In every state the running server can reach, a summary request for an event that
  is in \<^verbatim>\<open>pendingEvents\<close> answers "generating" and changes nothing at all: no job is
  enqueued and the length of the queue is what it was.
\<close>

theorem pending_request_returns_generating:
  assumes "reachable env y" and "e \<in> pendingEvents (srv y)"
  shows "get_event_summary env (srv y) e = (Generating e, srv y)
         \<and> queue_contents (queue (snd (get_event_summary env (srv y) e)))
             = queue_contents (queue (srv y))
         \<and> queue_length (queue (snd (get_event_summary env (srv y) e)))
             = queue_length (queue (srv y))"
proof -
  from reachable_pending_ok[OF assms(1)] have ok: "pending_ok (srv y)" .
  then have "getSummaryByEventId (db (srv y)) e = Inr None"
    using assms(2) by (simp add: pending_ok_def)
  then have "get_event_summary env (srv y) e = (Generating e, srv y)"
    using assms(2) by (simp add: get_event_summary_def)
  then show ?thesis by simp
qed

lemmas example_defs = example_event_def example_row_def example_env_def example_server_def
  example_system_def example_job_def empty_tables_def new_Queue_def start_worker_def
  new_SummarizationWorker_def

lemmas handler_defs = get_event_summary_def getEvent_def canGenerateSummary_def
  request_category_def request_repo_context_def request_score_def incrementSummaryCount_def
  push_def Let_def

lemma example_first_request:
  "get_event_summary (example_env 10) example_server ''E1'' =
     (Generating ''E1'',
      example_server\<lparr>pendingEvents := {''E1''},
         API_BUDGET := (\<lambda>_. 0)(security := 1),
         queue := (queue example_server)\<lparr>inMemoryQueue := [example_job]\<rparr>\<rparr>)"
  by (simp add: example_defs handler_defs)

text \<open>The second request for \<^verbatim>\<open>E1\<close>, made while the first one's job waits in the queue.\<close>

theorem pending_request_returns_generating_witness:
  "reachable (example_env 10) (step (example_env 10) (GetEventSummary ''E1'') example_system)
   \<and> ''E1'' \<in> pendingEvents (srv (step (example_env 10) (GetEventSummary ''E1'') example_system))
   \<and> fst (get_event_summary (example_env 10)
        (srv (step (example_env 10) (GetEventSummary ''E1'') example_system)) ''E1'')
       = Generating ''E1''
   \<and> queue_length (queue (snd (get_event_summary (example_env 10)
        (srv (step (example_env 10) (GetEventSummary ''E1'') example_system)) ''E1'')))
       = Inr 1"
proof -
  let ?y = "step (example_env 10) (GetEventSummary ''E1'') example_system"
  have "started (srv example_system)"
    by (simp add: started_def example_system_def example_server_def)
  then have r0: "reachable (example_env 10) example_system"
    by (rule reachable_start) (simp add: example_system_def)
  then have r: "reachable (example_env 10) ?y" by (rule reachable_step)
  have srv: "srv ?y = example_server\<lparr>pendingEvents := {''E1''},
         API_BUDGET := (\<lambda>_. 0)(security := 1),
         queue := (queue example_server)\<lparr>inMemoryQueue := [example_job]\<rparr>\<rparr>"
    by (simp add: step_def with_srv_def example_system_def example_first_request)
  have p: "''E1'' \<in> pendingEvents (srv ?y)" by (simp add: srv)
  have len: "queue_length (queue (srv ?y)) = Inr 1"
    by (simp add: srv queue_length_def example_server_def new_Queue_def)
  from pending_request_returns_generating[OF r p] len show ?thesis
    using r p by simp
qed



section \<open>The budget gate\<close>

text \<open>
  C3, as stated, fails: with a ceiling of 1, the first request for \<^verbatim>\<open>E1\<close> uses the whole
  security budget and leaves \<^verbatim>\<open>E1\<close> pending; the next request for \<^verbatim>\<open>E1\<close> is made while
  the counter equals the ceiling and is answered "generating", not budget-exhausted,
  because the check of \<^verbatim>\<open>pendingEvents\<close> comes before the budget check.
\<close>

theorem budget_exhausted_counterexample:
  "MAX_SUMMARIES_PER_CATEGORY (example_env 1) = Some 1
   \<and> request_category example_row = security
   \<and> int (API_BUDGET (srv (step (example_env 1) (GetEventSummary ''E1'') example_system))
            security) = 1
   \<and> \<not> canGenerateSummary (example_env 1)
          (srv (step (example_env 1) (GetEventSummary ''E1'') example_system)) security
   \<and> fst (get_event_summary (example_env 1)
        (srv (step (example_env 1) (GetEventSummary ''E1'') example_system)) ''E1'')
       = Generating ''E1''"
proof -
  have first: "get_event_summary (example_env 1) example_server ''E1'' =
     (Generating ''E1'',
      example_server\<lparr>pendingEvents := {''E1''},
         API_BUDGET := (\<lambda>_. 0)(security := 1),
         queue := (queue example_server)\<lparr>inMemoryQueue := [example_job]\<rparr>\<rparr>)"
    by (simp add: example_defs handler_defs)
  have srv: "srv (step (example_env 1) (GetEventSummary ''E1'') example_system) =
      example_server\<lparr>pendingEvents := {''E1''},
         API_BUDGET := (\<lambda>_. 0)(security := 1),
         queue := (queue example_server)\<lparr>inMemoryQueue := [example_job]\<rparr>\<rparr>"
    by (simp add: step_def with_srv_def example_system_def first)
  show ?thesis
    unfolding srv
    by (simp add: example_defs handler_defs)
qed

text \<open>
  C3, amended. \<^verbatim>\<open>canGenerateSummary\<close> is true exactly when the category's counter is
  strictly below the ceiling. A summary request that gets as far as the budget check (the
  database answers, the event has no stored summary, is not pending and is stored) while
  its category's counter has reached the ceiling is answered budget-exhausted, and the
  whole state of the server, \<^verbatim>\<open>pendingEvents\<close>, the counters and the queue included, is
  left as it was. The checks that come first do not look at the counter: whatever its
  value, a request for an event with a stored summary is answered with that summary (and
  the event leaves \<^verbatim>\<open>pendingEvents\<close>, nothing else changes), a request for a pending event
  is answered "generating" and a request for an unknown event not-found, both with the
  state left as it was.
\<close>

theorem budget_gate:
  "(canGenerateSummary env s c
      \<longleftrightarrow> (\<exists>m. MAX_SUMMARIES_PER_CATEGORY env = Some m \<and> int (API_BUDGET s c) < m))
   \<and> (getSummaryByEventId (db s) e = Inr None \<longrightarrow> e \<notin> pendingEvents s \<longrightarrow>
        getEvent (db s) e = Inr (Some ev) \<longrightarrow>
        MAX_SUMMARIES_PER_CATEGORY env = Some m \<longrightarrow>
        m \<le> int (API_BUDGET s (request_category ev)) \<longrightarrow>
        get_event_summary env s e
          = (BudgetExhausted (request_category ev) (API_BUDGET s (request_category ev)) (Some m), s))
   \<and> (getSummaryByEventId (db s) e = Inr (Some r) \<longrightarrow>
        get_event_summary env s e
          = (SummaryJson r, s\<lparr>pendingEvents := pendingEvents s - {e}\<rparr>))
   \<and> (getSummaryByEventId (db s) e = Inr None \<longrightarrow> e \<in> pendingEvents s \<longrightarrow>
        get_event_summary env s e = (Generating e, s))
   \<and> (getSummaryByEventId (db s) e = Inr None \<longrightarrow> e \<notin> pendingEvents s \<longrightarrow>
        getEvent (db s) e = Inr None \<longrightarrow>
        get_event_summary env s e = (NotFound, s))"
proof (intro conjI impI)
  show "canGenerateSummary env s c
      \<longleftrightarrow> (\<exists>m. MAX_SUMMARIES_PER_CATEGORY env = Some m \<and> int (API_BUDGET s c) < m)"
    by (auto simp: canGenerateSummary_def split: option.splits)
next
  assume "getSummaryByEventId (db s) e = Inr None" "e \<notin> pendingEvents s"
    "getEvent (db s) e = Inr (Some ev)" "MAX_SUMMARIES_PER_CATEGORY env = Some m"
    "m \<le> int (API_BUDGET s (request_category ev))"
  then show "get_event_summary env s e
          = (BudgetExhausted (request_category ev) (API_BUDGET s (request_category ev)) (Some m), s)"
    by (simp add: canGenerateSummary_def get_event_summary_def Let_def)
next
  assume "getSummaryByEventId (db s) e = Inr (Some r)"
  then show "get_event_summary env s e
          = (SummaryJson r, s\<lparr>pendingEvents := pendingEvents s - {e}\<rparr>)"
    by (simp add: get_event_summary_def)
next
  assume "getSummaryByEventId (db s) e = Inr None" "e \<in> pendingEvents s"
  then show "get_event_summary env s e = (Generating e, s)"
    by (simp add: get_event_summary_def)
next
  assume "getSummaryByEventId (db s) e = Inr None" "e \<notin> pendingEvents s"
    "getEvent (db s) e = Inr None"
  then show "get_event_summary env s e = (NotFound, s)"
    by (simp add: get_event_summary_def)
qed

text \<open>
  One summary is allowed and one was used. A request for \<^verbatim>\<open>E1\<close>, stored and not pending,
  is refused; a request for \<^verbatim>\<open>E1\<close> while it is pending is answered "generating"; a
  request for the unknown \<^verbatim>\<open>E2\<close> is answered not-found; and a request for \<^verbatim>\<open>E1\<close> when
  its summary is stored is answered with the summary.
\<close>

theorem budget_gate_witness:
  "MAX_SUMMARIES_PER_CATEGORY (example_env 1) = Some 1
   \<and> (1::int) \<le> int (API_BUDGET spent_server (request_category example_row))
   \<and> request_category example_row = security
   \<and> getSummaryByEventId (db spent_server) ''E1'' = Inr None
   \<and> ''E1'' \<notin> pendingEvents spent_server
   \<and> getEvent (db spent_server) ''E1'' = Inr (Some example_row)
   \<and> canGenerateSummary (example_env 1) spent_server security = False
   \<and> get_event_summary (example_env 1) spent_server ''E1''
       = (BudgetExhausted security 1 (Some 1), spent_server)
   \<and> ''E1'' \<in> pendingEvents (spent_server\<lparr>pendingEvents := {''E1''}\<rparr>)
   \<and> get_event_summary (example_env 1) (spent_server\<lparr>pendingEvents := {''E1''}\<rparr>) ''E1''
       = (Generating ''E1'', spent_server\<lparr>pendingEvents := {''E1''}\<rparr>)
   \<and> getSummaryByEventId (db spent_server) ''E2'' = Inr None
   \<and> ''E2'' \<notin> pendingEvents spent_server
   \<and> getEvent (db spent_server) ''E2'' = Inr None
   \<and> get_event_summary (example_env 1) spent_server ''E2'' = (NotFound, spent_server)
   \<and> getSummaryByEventId (db summarized_server) ''E1'' = Inr (Some stored_summary)
   \<and> API_BUDGET summarized_server security = 1
   \<and> get_event_summary (example_env 1) summarized_server ''E1''
       = (SummaryJson stored_summary, summarized_server\<lparr>pendingEvents := {}\<rparr>)"
proof -
  let ?env = "example_env 1"
  let ?p = "spent_server\<lparr>pendingEvents := {''E1''}\<rparr>"
  have d: "MAX_SUMMARIES_PER_CATEGORY ?env = Some 1" by (simp add: example_defs)
  have cat: "request_category example_row = security"
    by (simp add: request_category_def example_row_def)
  have f: "(1::int) \<le> int (API_BUDGET spent_server (request_category example_row))"
    by (simp add: spent_server_def)
  have a1: "getSummaryByEventId (db spent_server) ''E1'' = Inr None"
    by (simp add: spent_server_def example_defs)
  have b1: "''E1'' \<notin> pendingEvents spent_server" by (simp add: spent_server_def example_defs)
  have c1: "getEvent (db spent_server) ''E1'' = Inr (Some example_row)"
    by (simp add: spent_server_def example_defs getEvent_def)
  have a2: "getSummaryByEventId (db ?p) ''E1'' = Inr None"
    by (simp add: spent_server_def example_defs)
  have b2: "''E1'' \<in> pendingEvents ?p" by simp
  have a3: "getSummaryByEventId (db spent_server) ''E2'' = Inr None"
    by (simp add: spent_server_def example_defs)
  have b3: "''E2'' \<notin> pendingEvents spent_server" by (simp add: spent_server_def example_defs)
  have c3: "getEvent (db spent_server) ''E2'' = Inr None"
    by (simp add: spent_server_def example_defs getEvent_def)
  have a4: "getSummaryByEventId (db summarized_server) ''E1'' = Inr (Some stored_summary)"
    by (simp add: summarized_server_def stored_summary_def getSummaryByEventId_def
          empty_tables_def)
  have b4: "API_BUDGET summarized_server security = 1"
    by (simp add: summarized_server_def spent_server_def)
  have p4: "summarized_server\<lparr>pendingEvents := pendingEvents summarized_server - {''E1''}\<rparr>
              = summarized_server\<lparr>pendingEvents := {}\<rparr>"
    by (simp add: summarized_server_def)
  note g1 = budget_gate[where env = ?env and s = spent_server and c = security
      and e = "''E1''" and ev = example_row and m = 1]
  note g2 = budget_gate[where env = ?env and s = ?p and e = "''E1''"]
  note g3 = budget_gate[where env = ?env and s = spent_server and e = "''E2''"]
  note g4 = budget_gate[where env = ?env and s = summarized_server and e = "''E1''"
      and r = stored_summary]
  from g1 d f have no: "canGenerateSummary ?env spent_server security = False"
    by (simp add: cat)
  from g1 a1 b1 c1 d f have r1:
    "get_event_summary ?env spent_server ''E1''
       = (BudgetExhausted (request_category example_row)
            (API_BUDGET spent_server (request_category example_row)) (Some 1), spent_server)"
    by blast
  have r1': "get_event_summary ?env spent_server ''E1''
       = (BudgetExhausted security 1 (Some 1), spent_server)"
    unfolding r1 by (simp add: cat spent_server_def)
  from g2 a2 b2 have r2: "get_event_summary ?env ?p ''E1'' = (Generating ''E1'', ?p)"
    by blast
  from g3 a3 b3 c3 have r3: "get_event_summary ?env spent_server ''E2'' = (NotFound, spent_server)"
    by blast
  from g4 a4 have r4: "get_event_summary ?env summarized_server ''E1''
       = (SummaryJson stored_summary, summarized_server\<lparr>pendingEvents := {}\<rparr>)"
    unfolding p4 by blast
  show ?thesis
    by (intro conjI d f cat a1 b1 c1 no r1' b2 r2 a3 b3 c3 r3 a4 b4 r4)
qed

section \<open>Which budget and which prompt a request uses\<close>

lemma get_event_summary_other_counter:
  assumes "getEvent (db s) e = Inr (Some ev)" "c \<noteq> request_category ev"
  shows "API_BUDGET (snd (get_event_summary env s e)) c = API_BUDGET s c"
  using assms
  by (auto simp: get_event_summary_def Let_def incrementSummaryCount_def
           split: sum.splits option.splits)

lemma queue_contents_push:
  "push job q = Inr q' \<Longrightarrow> queue_contents q' = queue_contents q @ [job]"
  by (auto simp: push_def queue_contents_def split: if_splits option.splits)

lemma get_event_summary_enqueues:
  assumes "getEvent (db s) e = Inr (Some ev)" "e \<notin> pendingEvents s"
    and "get_event_summary env s e = (Generating e, s')"
  shows "API_BUDGET s' (request_category ev) = API_BUDGET s (request_category ev) + 1
     \<and> e \<in> pendingEvents s'
     \<and> (\<exists>job. queue_contents (queue s') = queue_contents (queue s) @ [job]
           \<and> job_eventId job = e \<and> job_category job = request_category ev)"
  using assms
  by (auto simp: get_event_summary_def Let_def incrementSummaryCount_def
           split: sum.splits option.splits if_splits dest!: queue_contents_push)

lemma processJob_start_prompt:
  "processJob_start env w job = Inr (Some prompt, w') \<Longrightarrow> prompt = buildPrompt env job"
  by (auto simp: processJob_start_def split: if_splits sum.splits option.splits)

lemma security_prompt:
  "job_category job = security \<Longrightarrow>
   buildPrompt env job =
       ''You are a Senior Security Analyst at GitHub. You are analyzing a potential security incident detected by an ML model.\<newline>'' @
       ''\<newline>'' @
       ''YOUR GOAL:\<newline>'' @
       ''1. Analyze the raw event and the ML signals.\<newline>'' @
       ''2. Determine if this is a real malicious attack, a bad practice (policy violation), or just noise.\<newline>'' @
       ''3. Provide a structured summary for the security dashboard.'' @
       event_details (job_event job) @
       payload_section env (job_event job) @
       score_section env (job_score job) @
       context_section env (job_repoContext job) @
       ''\<newline>'' @
       ''\<newline>'' @
       ''RESPONSE FORMAT:\<newline>'' @
       ''Provide your analysis in this exact JSON format:\<newline>'' @
       ''{\<newline>'' @
       ''  \"classification\": \"ACTIVE_ATTACK\" | \"POLICY_VIOLATION\" | \"BENIGN_ANOMALY\",\<newline>'' @
       ''  \"confidence\": \"HIGH\" | \"MEDIUM\" | \"LOW\",\<newline>'' @
       ''  \"one_line_summary\": \"A concise 10-15 word description of what happened\",\<newline>'' @
       ''  \"root_cause\": [\"bullet 1\", \"bullet 2\", \"bullet 3\"],\<newline>'' @
       ''  \"impact\": [\"bullet 1\", \"bullet 2\", \"bullet 3\"],\<newline>'' @
       ''  \"next_steps\": [\"bullet 1\", \"bullet 2\", \"bullet 3\"]\<newline>'' @
       ''}\<newline>'' @
       ''\<newline>'' @
       ''CLASSIFICATION GUIDELINES:\<newline>'' @
       ''1. ACTIVE_ATTACK (Red):\<newline>'' @
       ''   - Intentional malice. Exfiltration of secrets, installing backdoors, nuking history, or mass destruction.\<newline>'' @
       ''   - Example: Modifying .github/workflows to curl env vars to an external IP.\<newline>'' @
       ''\<newline>'' @
       ''2. POLICY_VIOLATION (Amber):\<newline>'' @
       ''   - Dangerous behavior but likely not malicious intent.\<newline>'' @
       ''   - Examples: 'AutoGreen' vanity bots, developers force-pushing to their own PRs, commiting directly to main because protection is disabled, student projects with sloppy git hygiene.\<newline>'' @
       ''   - NOTE: If the repo is 'AutoGreen' or has 0 stars/1 contributor, it is likely a Policy Violation, not an Advanced Persistent Threat.\<newline>'' @
       ''\<newline>'' @
       ''3. BENIGN_ANOMALY (Blue):\<newline>'' @
       ''   - Weird timing or volume, but harmless content.\<newline>'' @
       ''   - Example: A legitimate bot closing 50 stale issues at once.\<newline>'' @
       ''\<newline>'' @
       ''IMPORTANT: The ML model scored this as '' @
       score_text env (job_score job) @
       ''. Use the Repository Context to contextualize this score. High score on a 0-star repo is usually a Policy Violation. High score on a 10k-star repo is a Critical Incident.''"
  by (simp add: buildPrompt_def Let_def security_role_def security_format_def)

lemma code_quality_prompt:
  "job_category job = code_quality \<Longrightarrow>
   buildPrompt env job =
       ''You are a Senior Code Quality Engineer at GitHub. You are reviewing code quality issues detected by an ML model.\<newline>'' @
       ''\<newline>'' @
       ''YOUR GOAL:\<newline>'' @
       ''1. Analyze the code changes, commit patterns, and development practices.\<newline>'' @
       ''2. Identify code quality issues, technical debt, or poor development practices.\<newline>'' @
       ''3. Provide actionable feedback for the development team.'' @
       event_details (job_event job) @
       payload_section env (job_event job) @
       score_section env (job_score job) @
       context_section env (job_repoContext job) @
       ''\<newline>'' @
       ''\<newline>'' @
       ''RESPONSE FORMAT:\<newline>'' @
       ''Provide your analysis in this exact JSON format:\<newline>'' @
       ''{\<newline>'' @
       ''  \"classification\": \"CRITICAL_ISSUE\" | \"POOR_PRACTICE\" | \"MINOR_CONCERN\",\<newline>'' @
       ''  \"confidence\": \"HIGH\" | \"MEDIUM\" | \"LOW\",\<newline>'' @
       ''  \"one_line_summary\": \"A concise 10-15 word description of the code quality issue\",\<newline>'' @
       ''  \"root_cause\": [\"bullet 1\", \"bullet 2\", \"bullet 3\"],\<newline>'' @
       ''  \"impact\": [\"bullet 1\", \"bullet 2\", \"bullet 3\"],\<newline>'' @
       ''  \"next_steps\": [\"bullet 1\", \"bullet 2\", \"bullet 3\"]\<newline>'' @
       ''}\<newline>'' @
       ''\<newline>'' @
       ''CLASSIFICATION GUIDELINES:\<newline>'' @
       ''1. CRITICAL_ISSUE (Red):\<newline>'' @
       ''   - Severe code quality problems that could lead to bugs, security vulnerabilities, or maintenance nightmares.\<newline>'' @
       ''   - Examples: Committing secrets, no tests, breaking changes without documentation, massive code duplication.\<newline>'' @
       ''\<newline>'' @
       ''2. POOR_PRACTICE (Amber):\<newline>'' @
       ''   - Suboptimal development practices that should be improved.\<newline>'' @
       ''   - Examples: Inconsistent formatting, missing error handling, poor commit messages, direct commits to main, skipping code review.\<newline>'' @
       ''\<newline>'' @
       ''3. MINOR_CONCERN (Blue):\<newline>'' @
       ''   - Small issues or style inconsistencies that don't significantly impact quality.\<newline>'' @
       ''   - Example: Minor formatting issues, missing comments on simple code.\<newline>'' @
       ''\<newline>'' @
       ''IMPORTANT: The ML model scored this as '' @
       score_text env (job_score job) @
       '' (lower = worse quality). Use the Repository Context to contextualize this score.''"
  by (simp add: buildPrompt_def Let_def code_quality_role_def code_quality_format_def)

text \<open>
  C10. The handler derives the category from the stored one: \<^verbatim>\<open>code_quality\<close> exactly
  when the stored category is the string 'code_quality', \<^verbatim>\<open>security\<close> for every other
  value and for null. A request for a stored event never changes the counter of the other
  category; when it enqueues (it answers "generating" for an event that was not pending)
  it adds one to the counter of the derived category and appends one job carrying that
  category. The prompt the worker sends for a job is \<^verbatim>\<open>buildPrompt\<close> of that job. For a
  job of category \<^verbatim>\<open>security\<close> it is the security analyst's text: the role and goal of
  the Senior Security Analyst, the sections on the event, its payload, the score and the
  repository, and the response format with the classifications \<^verbatim>\<open>ACTIVE_ATTACK\<close>,
  \<^verbatim>\<open>POLICY_VIOLATION\<close> and \<^verbatim>\<open>BENIGN_ANOMALY\<close> and their guidelines. For a job of category
  \<^verbatim>\<open>code_quality\<close> it is the text of the Senior Code Quality Engineer, with the same
  sections and the response format of \<^verbatim>\<open>CRITICAL_ISSUE\<close>, \<^verbatim>\<open>POOR_PRACTICE\<close> and
  \<^verbatim>\<open>MINOR_CONCERN\<close>.
\<close>

theorem security_is_the_default_category:
  assumes "getEvent (db s) e = Inr (Some ev)"
  shows "(request_category ev = code_quality \<longleftrightarrow> ev_category ev = Some ''code_quality'')
     \<and> (request_category ev = security \<longleftrightarrow> ev_category ev \<noteq> Some ''code_quality'')
     \<and> (\<forall>c. c \<noteq> request_category ev \<longrightarrow>
           API_BUDGET (snd (get_event_summary env s e)) c = API_BUDGET s c)
     \<and> (e \<notin> pendingEvents s \<longrightarrow> fst (get_event_summary env s e) = Generating e \<longrightarrow>
          API_BUDGET (snd (get_event_summary env s e)) (request_category ev)
            = API_BUDGET s (request_category ev) + 1
          \<and> (\<exists>job. queue_contents (queue (snd (get_event_summary env s e)))
                     = queue_contents (queue s) @ [job]
                \<and> job_eventId job = e \<and> job_category job = request_category ev))
     \<and> (\<forall>w job prompt w'.
           processJob_start env w job = Inr (Some prompt, w') \<longrightarrow> prompt = buildPrompt env job)
     \<and> (\<forall>job. job_category job = security \<longrightarrow>
            buildPrompt env job =
              ''You are a Senior Security Analyst at GitHub. You are analyzing a potential security incident detected by an ML model.\<newline>'' @
              ''\<newline>'' @
              ''YOUR GOAL:\<newline>'' @
              ''1. Analyze the raw event and the ML signals.\<newline>'' @
              ''2. Determine if this is a real malicious attack, a bad practice (policy violation), or just noise.\<newline>'' @
              ''3. Provide a structured summary for the security dashboard.'' @
              event_details (job_event job) @
              payload_section env (job_event job) @
              score_section env (job_score job) @
              context_section env (job_repoContext job) @
              ''\<newline>'' @
              ''\<newline>'' @
              ''RESPONSE FORMAT:\<newline>'' @
              ''Provide your analysis in this exact JSON format:\<newline>'' @
              ''{\<newline>'' @
              ''  \"classification\": \"ACTIVE_ATTACK\" | \"POLICY_VIOLATION\" | \"BENIGN_ANOMALY\",\<newline>'' @
              ''  \"confidence\": \"HIGH\" | \"MEDIUM\" | \"LOW\",\<newline>'' @
              ''  \"one_line_summary\": \"A concise 10-15 word description of what happened\",\<newline>'' @
              ''  \"root_cause\": [\"bullet 1\", \"bullet 2\", \"bullet 3\"],\<newline>'' @
              ''  \"impact\": [\"bullet 1\", \"bullet 2\", \"bullet 3\"],\<newline>'' @
              ''  \"next_steps\": [\"bullet 1\", \"bullet 2\", \"bullet 3\"]\<newline>'' @
              ''}\<newline>'' @
              ''\<newline>'' @
              ''CLASSIFICATION GUIDELINES:\<newline>'' @
              ''1. ACTIVE_ATTACK (Red):\<newline>'' @
              ''   - Intentional malice. Exfiltration of secrets, installing backdoors, nuking history, or mass destruction.\<newline>'' @
              ''   - Example: Modifying .github/workflows to curl env vars to an external IP.\<newline>'' @
              ''\<newline>'' @
              ''2. POLICY_VIOLATION (Amber):\<newline>'' @
              ''   - Dangerous behavior but likely not malicious intent.\<newline>'' @
              ''   - Examples: 'AutoGreen' vanity bots, developers force-pushing to their own PRs, commiting directly to main because protection is disabled, student projects with sloppy git hygiene.\<newline>'' @
              ''   - NOTE: If the repo is 'AutoGreen' or has 0 stars/1 contributor, it is likely a Policy Violation, not an Advanced Persistent Threat.\<newline>'' @
              ''\<newline>'' @
              ''3. BENIGN_ANOMALY (Blue):\<newline>'' @
              ''   - Weird timing or volume, but harmless content.\<newline>'' @
              ''   - Example: A legitimate bot closing 50 stale issues at once.\<newline>'' @
              ''\<newline>'' @
              ''IMPORTANT: The ML model scored this as '' @
              score_text env (job_score job) @
              ''. Use the Repository Context to contextualize this score. High score on a 0-star repo is usually a Policy Violation. High score on a 10k-star repo is a Critical Incident.'')
     \<and> (\<forall>job. job_category job = code_quality \<longrightarrow>
            buildPrompt env job =
              ''You are a Senior Code Quality Engineer at GitHub. You are reviewing code quality issues detected by an ML model.\<newline>'' @
              ''\<newline>'' @
              ''YOUR GOAL:\<newline>'' @
              ''1. Analyze the code changes, commit patterns, and development practices.\<newline>'' @
              ''2. Identify code quality issues, technical debt, or poor development practices.\<newline>'' @
              ''3. Provide actionable feedback for the development team.'' @
              event_details (job_event job) @
              payload_section env (job_event job) @
              score_section env (job_score job) @
              context_section env (job_repoContext job) @
              ''\<newline>'' @
              ''\<newline>'' @
              ''RESPONSE FORMAT:\<newline>'' @
              ''Provide your analysis in this exact JSON format:\<newline>'' @
              ''{\<newline>'' @
              ''  \"classification\": \"CRITICAL_ISSUE\" | \"POOR_PRACTICE\" | \"MINOR_CONCERN\",\<newline>'' @
              ''  \"confidence\": \"HIGH\" | \"MEDIUM\" | \"LOW\",\<newline>'' @
              ''  \"one_line_summary\": \"A concise 10-15 word description of the code quality issue\",\<newline>'' @
              ''  \"root_cause\": [\"bullet 1\", \"bullet 2\", \"bullet 3\"],\<newline>'' @
              ''  \"impact\": [\"bullet 1\", \"bullet 2\", \"bullet 3\"],\<newline>'' @
              ''  \"next_steps\": [\"bullet 1\", \"bullet 2\", \"bullet 3\"]\<newline>'' @
              ''}\<newline>'' @
              ''\<newline>'' @
              ''CLASSIFICATION GUIDELINES:\<newline>'' @
              ''1. CRITICAL_ISSUE (Red):\<newline>'' @
              ''   - Severe code quality problems that could lead to bugs, security vulnerabilities, or maintenance nightmares.\<newline>'' @
              ''   - Examples: Committing secrets, no tests, breaking changes without documentation, massive code duplication.\<newline>'' @
              ''\<newline>'' @
              ''2. POOR_PRACTICE (Amber):\<newline>'' @
              ''   - Suboptimal development practices that should be improved.\<newline>'' @
              ''   - Examples: Inconsistent formatting, missing error handling, poor commit messages, direct commits to main, skipping code review.\<newline>'' @
              ''\<newline>'' @
              ''3. MINOR_CONCERN (Blue):\<newline>'' @
              ''   - Small issues or style inconsistencies that don't significantly impact quality.\<newline>'' @
              ''   - Example: Minor formatting issues, missing comments on simple code.\<newline>'' @
              ''\<newline>'' @
              ''IMPORTANT: The ML model scored this as '' @
              score_text env (job_score job) @
              '' (lower = worse quality). Use the Repository Context to contextualize this score.'')"
proof -
  have cat: "(request_category ev = code_quality \<longleftrightarrow> ev_category ev = Some ''code_quality'')"
    "(request_category ev = security \<longleftrightarrow> ev_category ev \<noteq> Some ''code_quality'')"
    by (simp_all add: request_category_def)
  have other: "\<forall>c. c \<noteq> request_category ev \<longrightarrow>
           API_BUDGET (snd (get_event_summary env s e)) c = API_BUDGET s c"
    using get_event_summary_other_counter[OF assms] by blast
  have enq: "e \<notin> pendingEvents s \<longrightarrow> fst (get_event_summary env s e) = Generating e \<longrightarrow>
          API_BUDGET (snd (get_event_summary env s e)) (request_category ev)
            = API_BUDGET s (request_category ev) + 1
          \<and> (\<exists>job. queue_contents (queue (snd (get_event_summary env s e)))
                     = queue_contents (queue s) @ [job]
                \<and> job_eventId job = e \<and> job_category job = request_category ev)"
  proof (intro impI)
    assume np: "e \<notin> pendingEvents s" and g: "fst (get_event_summary env s e) = Generating e"
    then have "get_event_summary env s e = (Generating e, snd (get_event_summary env s e))"
      by (metis prod.collapse)
    from get_event_summary_enqueues[OF assms np this]
    show "API_BUDGET (snd (get_event_summary env s e)) (request_category ev)
            = API_BUDGET s (request_category ev) + 1
          \<and> (\<exists>job. queue_contents (queue (snd (get_event_summary env s e)))
                     = queue_contents (queue s) @ [job]
                \<and> job_eventId job = e \<and> job_category job = request_category ev)"
      by blast
  qed
  have start: "\<forall>w job prompt w'.
      processJob_start env w job = Inr (Some prompt, w') \<longrightarrow> prompt = buildPrompt env job"
    by (intro allI impI) (rule processJob_start_prompt)
  show ?thesis
    by (intro conjI allI impI cat other enq start security_prompt code_quality_prompt)
qed

text \<open>
  The stored event \<^verbatim>\<open>E1\<close> has category 'both'. Its request is charged to the security
  budget and enqueues a security job, and the worker sends for it the security analyst's
  prompt; the same job under the category \<^verbatim>\<open>code_quality\<close> would get the other prompt.
\<close>

theorem security_is_the_default_category_witness:
  "getEvent (db example_server) ''E1'' = Inr (Some example_row)
   \<and> ev_category example_row = Some ''both''
   \<and> request_category example_row = security
   \<and> API_BUDGET (snd (get_event_summary (example_env 10) example_server ''E1'')) code_quality = 0
   \<and> API_BUDGET (snd (get_event_summary (example_env 10) example_server ''E1'')) security = 1
   \<and> queue_contents (queue (snd (get_event_summary (example_env 10) example_server ''E1'')))
       = [example_job]
   \<and> job_category example_job = security
   \<and> map_sum id fst (processJob_start (example_env 10)
        (snd (get_event_summary (example_env 10) example_server ''E1'')) example_job)
       = Inr (Some (buildPrompt (example_env 10) example_job))
   \<and> buildPrompt (example_env 10) example_job =
       ''You are a Senior Security Analyst at GitHub. You are analyzing a potential security incident detected by an ML model.\<newline>'' @
       ''\<newline>'' @
       ''YOUR GOAL:\<newline>'' @
       ''1. Analyze the raw event and the ML signals.\<newline>'' @
       ''2. Determine if this is a real malicious attack, a bad practice (policy violation), or just noise.\<newline>'' @
       ''3. Provide a structured summary for the security dashboard.\<newline>'' @
       ''\<newline>'' @
       ''EVENT DETAILS:\<newline>'' @
       ''- Type: PushEvent\<newline>'' @
       ''- Repository: octo/repo\<newline>'' @
       ''- Actor: octocat\<newline>'' @
       ''- Timestamp: 2025-01-01T00:00:00Z\<newline>'' @
       ''\<newline>'' @
       ''\<newline>'' @
       ''BEHAVIORAL ANALYSIS (ML MODEL):\<newline>'' @
       ''- Anomaly Score: 0.900 / 1.000\<newline>'' @
       ''- Verdict: Normal\<newline>'' @
       ''\<newline>'' @
       ''\<newline>'' @
       ''RESPONSE FORMAT:\<newline>'' @
       ''Provide your analysis in this exact JSON format:\<newline>'' @
       ''{\<newline>'' @
       ''  \"classification\": \"ACTIVE_ATTACK\" | \"POLICY_VIOLATION\" | \"BENIGN_ANOMALY\",\<newline>'' @
       ''  \"confidence\": \"HIGH\" | \"MEDIUM\" | \"LOW\",\<newline>'' @
       ''  \"one_line_summary\": \"A concise 10-15 word description of what happened\",\<newline>'' @
       ''  \"root_cause\": [\"bullet 1\", \"bullet 2\", \"bullet 3\"],\<newline>'' @
       ''  \"impact\": [\"bullet 1\", \"bullet 2\", \"bullet 3\"],\<newline>'' @
       ''  \"next_steps\": [\"bullet 1\", \"bullet 2\", \"bullet 3\"]\<newline>'' @
       ''}\<newline>'' @
       ''\<newline>'' @
       ''CLASSIFICATION GUIDELINES:\<newline>'' @
       ''1. ACTIVE_ATTACK (Red):\<newline>'' @
       ''   - Intentional malice. Exfiltration of secrets, installing backdoors, nuking history, or mass destruction.\<newline>'' @
       ''   - Example: Modifying .github/workflows to curl env vars to an external IP.\<newline>'' @
       ''\<newline>'' @
       ''2. POLICY_VIOLATION (Amber):\<newline>'' @
       ''   - Dangerous behavior but likely not malicious intent.\<newline>'' @
       ''   - Examples: 'AutoGreen' vanity bots, developers force-pushing to their own PRs, commiting directly to main because protection is disabled, student projects with sloppy git hygiene.\<newline>'' @
       ''   - NOTE: If the repo is 'AutoGreen' or has 0 stars/1 contributor, it is likely a Policy Violation, not an Advanced Persistent Threat.\<newline>'' @
       ''\<newline>'' @
       ''3. BENIGN_ANOMALY (Blue):\<newline>'' @
       ''   - Weird timing or volume, but harmless content.\<newline>'' @
       ''   - Example: A legitimate bot closing 50 stale issues at once.\<newline>'' @
       ''\<newline>'' @
       ''IMPORTANT: The ML model scored this as 0.900. Use the Repository Context to contextualize this score. High score on a 0-star repo is usually a Policy Violation. High score on a 10k-star repo is a Critical Incident.''
   \<and> buildPrompt (example_env 10) (example_job\<lparr>job_category := code_quality\<rparr>) =
       ''You are a Senior Code Quality Engineer at GitHub. You are reviewing code quality issues detected by an ML model.\<newline>'' @
       ''\<newline>'' @
       ''YOUR GOAL:\<newline>'' @
       ''1. Analyze the code changes, commit patterns, and development practices.\<newline>'' @
       ''2. Identify code quality issues, technical debt, or poor development practices.\<newline>'' @
       ''3. Provide actionable feedback for the development team.\<newline>'' @
       ''\<newline>'' @
       ''EVENT DETAILS:\<newline>'' @
       ''- Type: PushEvent\<newline>'' @
       ''- Repository: octo/repo\<newline>'' @
       ''- Actor: octocat\<newline>'' @
       ''- Timestamp: 2025-01-01T00:00:00Z\<newline>'' @
       ''\<newline>'' @
       ''\<newline>'' @
       ''BEHAVIORAL ANALYSIS (ML MODEL):\<newline>'' @
       ''- Anomaly Score: 0.900 / 1.000\<newline>'' @
       ''- Verdict: Normal\<newline>'' @
       ''\<newline>'' @
       ''\<newline>'' @
       ''RESPONSE FORMAT:\<newline>'' @
       ''Provide your analysis in this exact JSON format:\<newline>'' @
       ''{\<newline>'' @
       ''  \"classification\": \"CRITICAL_ISSUE\" | \"POOR_PRACTICE\" | \"MINOR_CONCERN\",\<newline>'' @
       ''  \"confidence\": \"HIGH\" | \"MEDIUM\" | \"LOW\",\<newline>'' @
       ''  \"one_line_summary\": \"A concise 10-15 word description of the code quality issue\",\<newline>'' @
       ''  \"root_cause\": [\"bullet 1\", \"bullet 2\", \"bullet 3\"],\<newline>'' @
       ''  \"impact\": [\"bullet 1\", \"bullet 2\", \"bullet 3\"],\<newline>'' @
       ''  \"next_steps\": [\"bullet 1\", \"bullet 2\", \"bullet 3\"]\<newline>'' @
       ''}\<newline>'' @
       ''\<newline>'' @
       ''CLASSIFICATION GUIDELINES:\<newline>'' @
       ''1. CRITICAL_ISSUE (Red):\<newline>'' @
       ''   - Severe code quality problems that could lead to bugs, security vulnerabilities, or maintenance nightmares.\<newline>'' @
       ''   - Examples: Committing secrets, no tests, breaking changes without documentation, massive code duplication.\<newline>'' @
       ''\<newline>'' @
       ''2. POOR_PRACTICE (Amber):\<newline>'' @
       ''   - Suboptimal development practices that should be improved.\<newline>'' @
       ''   - Examples: Inconsistent formatting, missing error handling, poor commit messages, direct commits to main, skipping code review.\<newline>'' @
       ''\<newline>'' @
       ''3. MINOR_CONCERN (Blue):\<newline>'' @
       ''   - Small issues or style inconsistencies that don't significantly impact quality.\<newline>'' @
       ''   - Example: Minor formatting issues, missing comments on simple code.\<newline>'' @
       ''\<newline>'' @
       ''IMPORTANT: The ML model scored this as 0.900 (lower = worse quality). Use the Repository Context to contextualize this score.''"
proof -
  have ev: "getEvent (db example_server) ''E1'' = Inr (Some example_row)"
    by (simp add: example_defs getEvent_def)
  note t = security_is_the_default_category[OF ev, of "example_env 10"]
  note t2 = t[THEN conjunct2, THEN conjunct1]
  note t3 = t[THEN conjunct2, THEN conjunct2, THEN conjunct1]
  note t4 = t[THEN conjunct2, THEN conjunct2, THEN conjunct2, THEN conjunct1]
  note t6 = t[THEN conjunct2, THEN conjunct2, THEN conjunct2, THEN conjunct2, THEN conjunct2,
              THEN conjunct1]
  note t7 = t[THEN conjunct2, THEN conjunct2, THEN conjunct2, THEN conjunct2, THEN conjunct2,
              THEN conjunct2]
  have both: "ev_category example_row = Some ''both''" by (simp add: example_row_def)
  from t2 both have cat: "request_category example_row = security" by simp
  have "code_quality \<noteq> request_category example_row" by (simp add: cat)
  with t3 have cq:
    "API_BUDGET (snd (get_event_summary (example_env 10) example_server ''E1'')) code_quality
       = API_BUDGET example_server code_quality"
    by blast
  have np: "''E1'' \<notin> pendingEvents example_server" by (simp add: example_server_def)
  have g: "fst (get_event_summary (example_env 10) example_server ''E1'') = Generating ''E1''"
    by (simp add: example_first_request)
  from t4 np g have
    "API_BUDGET (snd (get_event_summary (example_env 10) example_server ''E1''))
        (request_category example_row)
       = API_BUDGET example_server (request_category example_row) + 1"
    by blast
  then have sec:
    "API_BUDGET (snd (get_event_summary (example_env 10) example_server ''E1'')) security
       = API_BUDGET example_server security + 1"
    by (simp add: cat)
  have b0: "API_BUDGET example_server = (\<lambda>_. 0)" by (simp add: example_server_def)
  have c0: "API_BUDGET (snd (get_event_summary (example_env 10) example_server ''E1''))
              code_quality = 0"
    using cq by (simp add: b0)
  have c1: "API_BUDGET (snd (get_event_summary (example_env 10) example_server ''E1''))
              security = 1"
    using sec by (simp add: b0)
  have q: "queue_contents (queue (snd (get_event_summary (example_env 10) example_server ''E1'')))
       = [example_job]"
    unfolding example_first_request
    by (simp add: queue_contents_def example_server_def new_Queue_def)
  have jc: "job_category example_job = security" by (simp add: example_job_def)
  have jc': "job_category (example_job\<lparr>job_category := code_quality\<rparr>) = code_quality"
    by simp
  have st: "map_sum id fst (processJob_start (example_env 10)
        (snd (get_event_summary (example_env 10) example_server ''E1'')) example_job)
       = Inr (Some (buildPrompt (example_env 10) example_job))"
    unfolding example_first_request
    by (simp add: processJob_start_def example_server_def
          start_worker_def new_SummarizationWorker_def empty_tables_def example_job_def)
  have pr: "buildPrompt (example_env 10) example_job =
       ''You are a Senior Security Analyst at GitHub. You are analyzing a potential security incident detected by an ML model.\<newline>'' @
       ''\<newline>'' @
       ''YOUR GOAL:\<newline>'' @
       ''1. Analyze the raw event and the ML signals.\<newline>'' @
       ''2. Determine if this is a real malicious attack, a bad practice (policy violation), or just noise.\<newline>'' @
       ''3. Provide a structured summary for the security dashboard.\<newline>'' @
       ''\<newline>'' @
       ''EVENT DETAILS:\<newline>'' @
       ''- Type: PushEvent\<newline>'' @
       ''- Repository: octo/repo\<newline>'' @
       ''- Actor: octocat\<newline>'' @
       ''- Timestamp: 2025-01-01T00:00:00Z\<newline>'' @
       ''\<newline>'' @
       ''\<newline>'' @
       ''BEHAVIORAL ANALYSIS (ML MODEL):\<newline>'' @
       ''- Anomaly Score: 0.900 / 1.000\<newline>'' @
       ''- Verdict: Normal\<newline>'' @
       ''\<newline>'' @
       ''\<newline>'' @
       ''RESPONSE FORMAT:\<newline>'' @
       ''Provide your analysis in this exact JSON format:\<newline>'' @
       ''{\<newline>'' @
       ''  \"classification\": \"ACTIVE_ATTACK\" | \"POLICY_VIOLATION\" | \"BENIGN_ANOMALY\",\<newline>'' @
       ''  \"confidence\": \"HIGH\" | \"MEDIUM\" | \"LOW\",\<newline>'' @
       ''  \"one_line_summary\": \"A concise 10-15 word description of what happened\",\<newline>'' @
       ''  \"root_cause\": [\"bullet 1\", \"bullet 2\", \"bullet 3\"],\<newline>'' @
       ''  \"impact\": [\"bullet 1\", \"bullet 2\", \"bullet 3\"],\<newline>'' @
       ''  \"next_steps\": [\"bullet 1\", \"bullet 2\", \"bullet 3\"]\<newline>'' @
       ''}\<newline>'' @
       ''\<newline>'' @
       ''CLASSIFICATION GUIDELINES:\<newline>'' @
       ''1. ACTIVE_ATTACK (Red):\<newline>'' @
       ''   - Intentional malice. Exfiltration of secrets, installing backdoors, nuking history, or mass destruction.\<newline>'' @
       ''   - Example: Modifying .github/workflows to curl env vars to an external IP.\<newline>'' @
       ''\<newline>'' @
       ''2. POLICY_VIOLATION (Amber):\<newline>'' @
       ''   - Dangerous behavior but likely not malicious intent.\<newline>'' @
       ''   - Examples: 'AutoGreen' vanity bots, developers force-pushing to their own PRs, commiting directly to main because protection is disabled, student projects with sloppy git hygiene.\<newline>'' @
       ''   - NOTE: If the repo is 'AutoGreen' or has 0 stars/1 contributor, it is likely a Policy Violation, not an Advanced Persistent Threat.\<newline>'' @
       ''\<newline>'' @
       ''3. BENIGN_ANOMALY (Blue):\<newline>'' @
       ''   - Weird timing or volume, but harmless content.\<newline>'' @
       ''   - Example: A legitimate bot closing 50 stale issues at once.\<newline>'' @
       ''\<newline>'' @
       ''IMPORTANT: The ML model scored this as 0.900. Use the Repository Context to contextualize this score. High score on a 0-star repo is usually a Policy Violation. High score on a 10k-star repo is a Critical Incident.''"
    unfolding t6[rule_format, OF jc]
    by (simp add: event_details_def payload_section_def score_section_def
          context_section_def score_text_def or_string_def example_job_def
          example_event_def example_env_def)
  have pr': "buildPrompt (example_env 10) (example_job\<lparr>job_category := code_quality\<rparr>) =
       ''You are a Senior Code Quality Engineer at GitHub. You are reviewing code quality issues detected by an ML model.\<newline>'' @
       ''\<newline>'' @
       ''YOUR GOAL:\<newline>'' @
       ''1. Analyze the code changes, commit patterns, and development practices.\<newline>'' @
       ''2. Identify code quality issues, technical debt, or poor development practices.\<newline>'' @
       ''3. Provide actionable feedback for the development team.\<newline>'' @
       ''\<newline>'' @
       ''EVENT DETAILS:\<newline>'' @
       ''- Type: PushEvent\<newline>'' @
       ''- Repository: octo/repo\<newline>'' @
       ''- Actor: octocat\<newline>'' @
       ''- Timestamp: 2025-01-01T00:00:00Z\<newline>'' @
       ''\<newline>'' @
       ''\<newline>'' @
       ''BEHAVIORAL ANALYSIS (ML MODEL):\<newline>'' @
       ''- Anomaly Score: 0.900 / 1.000\<newline>'' @
       ''- Verdict: Normal\<newline>'' @
       ''\<newline>'' @
       ''\<newline>'' @
       ''RESPONSE FORMAT:\<newline>'' @
       ''Provide your analysis in this exact JSON format:\<newline>'' @
       ''{\<newline>'' @
       ''  \"classification\": \"CRITICAL_ISSUE\" | \"POOR_PRACTICE\" | \"MINOR_CONCERN\",\<newline>'' @
       ''  \"confidence\": \"HIGH\" | \"MEDIUM\" | \"LOW\",\<newline>'' @
       ''  \"one_line_summary\": \"A concise 10-15 word description of the code quality issue\",\<newline>'' @
       ''  \"root_cause\": [\"bullet 1\", \"bullet 2\", \"bullet 3\"],\<newline>'' @
       ''  \"impact\": [\"bullet 1\", \"bullet 2\", \"bullet 3\"],\<newline>'' @
       ''  \"next_steps\": [\"bullet 1\", \"bullet 2\", \"bullet 3\"]\<newline>'' @
       ''}\<newline>'' @
       ''\<newline>'' @
       ''CLASSIFICATION GUIDELINES:\<newline>'' @
       ''1. CRITICAL_ISSUE (Red):\<newline>'' @
       ''   - Severe code quality problems that could lead to bugs, security vulnerabilities, or maintenance nightmares.\<newline>'' @
       ''   - Examples: Committing secrets, no tests, breaking changes without documentation, massive code duplication.\<newline>'' @
       ''\<newline>'' @
       ''2. POOR_PRACTICE (Amber):\<newline>'' @
       ''   - Suboptimal development practices that should be improved.\<newline>'' @
       ''   - Examples: Inconsistent formatting, missing error handling, poor commit messages, direct commits to main, skipping code review.\<newline>'' @
       ''\<newline>'' @
       ''3. MINOR_CONCERN (Blue):\<newline>'' @
       ''   - Small issues or style inconsistencies that don't significantly impact quality.\<newline>'' @
       ''   - Example: Minor formatting issues, missing comments on simple code.\<newline>'' @
       ''\<newline>'' @
       ''IMPORTANT: The ML model scored this as 0.900 (lower = worse quality). Use the Repository Context to contextualize this score.''"
    unfolding t7[rule_format, OF jc']
    by (simp add: event_details_def payload_section_def score_section_def
          context_section_def score_text_def or_string_def example_job_def
          example_event_def example_env_def)
  show ?thesis
    by (intro conjI ev both cat c0 c1 q jc st pr pr')
qed



section \<open>Reset\<close>

lemma clear_empties:
  "clear q = Inr (n, q') \<Longrightarrow> queue_length q' = Inr 0 \<and> queue_contents q' = []"
  by (auto simp: clear_def queue_length_def queue_contents_def split: if_splits option.splits)

lemma clear_ready:
  "queue_ready q \<Longrightarrow> \<exists>n q'. clear q = Inr (n, q')"
  by (auto simp: clear_def queue_ready_def split: option.splits)

lemma broadcast_delivers:
  "c \<in> set clients \<Longrightarrow> \<not> write_throws c \<Longrightarrow>
   c\<lparr>written := written c @ [(ty, payload)]\<rparr> \<in> set (broadcast ty payload clients)"
  by (auto simp: broadcast_def)

lemma broadcast_last:
  "c' \<in> set (broadcast ty payload clients) \<Longrightarrow>
   written c' \<noteq> [] \<and> last (written c') = (ty, payload)"
  by (auto simp: broadcast_def)

lemma post_reset_done:
  assumes "post_reset now s = (ResetDone a b c, s')"
  shows "\<exists>t' q' n. db s' = Some t' \<and> events t' = [] \<and> summaries t' = []
           \<and> clear (queue s) = Inr (n, q') \<and> queue s' = q'
           \<and> API_BUDGET s' = (\<lambda>_. 0) \<and> pendingEvents s' = {}
           \<and> sseClients s' = broadcast ''reset'' (ResetPayload now) (sseClients s)"
proof (cases "clearAll (db s)")
  case (Inl e)
  then show ?thesis using assms by (simp add: post_reset_def)
next
  case (Inr p)
  obtain r d' where p: "p = (r, d')" by (cases p)
  from clearAll_summaries[OF Inr[unfolded p]] obtain t' where
    t': "d' = Some t'" "events t' = []" "summaries t' = []" by blast
  show ?thesis
  proof (cases "clear (queue s)")
    case (Inl e)
    then show ?thesis using assms Inr p by (simp add: post_reset_def Let_def)
  next
    case (Inr pq)
    obtain n q' where pq: "pq = (n, q')" by (cases pq)
    show ?thesis
      using assms \<open>clearAll (db s) = Inr p\<close> p t' Inr pq
      by (auto simp: post_reset_def Let_def broadcastReset_def)
  qed
qed

lemma post_reset_completes:
  assumes "db s \<noteq> None" "queue_ready (queue s)"
  shows "\<exists>a b c. fst (post_reset now s) = ResetDone a b c"
proof -
  from assms(1) obtain t where t: "db s = Some t" by auto
  from clear_ready[OF assms(2)] obtain n q' where q: "clear (queue s) = Inr (n, q')" by blast
  show ?thesis
    by (simp add: post_reset_def clearAll_def t q Let_def)
qed

text \<open>
  C7. The reset operation completes whenever the database is open and the queue's backend
  can take a command. When it has completed, both tables of the record store are empty,
  the queue holds no job and reports length 0, both budget counters are 0,
  \<^verbatim>\<open>pendingEvents\<close> is empty, and the subscribers are those whose write did not throw, each
  with the reset notification as the last message written to it.
\<close>

theorem reset_clears_everything:
  "(db s \<noteq> None \<longrightarrow> queue_ready (queue s) \<longrightarrow>
      (\<exists>a b c. fst (post_reset now s) = ResetDone a b c))
   \<and> (post_reset now s = (ResetDone a b c, s') \<longrightarrow>
        (\<exists>t'. db s' = Some t' \<and> length (events t') = 0 \<and> length (summaries t') = 0)
        \<and> queue_length (queue s') = Inr 0
        \<and> queue_contents (queue s') = []
        \<and> API_BUDGET s' security = 0 \<and> API_BUDGET s' code_quality = 0
        \<and> pendingEvents s' = {}
        \<and> sseClients s' = broadcast ''reset'' (ResetPayload now) (sseClients s)
        \<and> (\<forall>cl \<in> set (sseClients s). \<not> write_throws cl \<longrightarrow>
              cl\<lparr>written := written cl @ [(''reset'', ResetPayload now)]\<rparr> \<in> set (sseClients s'))
        \<and> (\<forall>cl \<in> set (sseClients s').
              written cl \<noteq> [] \<and> last (written cl) = (''reset'', ResetPayload now)))"
proof (intro conjI impI)
  assume "db s \<noteq> None" "queue_ready (queue s)"
  then show "\<exists>a b c. fst (post_reset now s) = ResetDone a b c"
    by (rule post_reset_completes)
next
  assume fin: "post_reset now s = (ResetDone a b c, s')"
  from post_reset_done[OF fin] obtain t' q' n where
    *: "db s' = Some t'" "events t' = []" "summaries t' = []"
       "clear (queue s) = Inr (n, q')" "queue s' = q'"
       "API_BUDGET s' = (\<lambda>_. 0)" "pendingEvents s' = {}"
       "sseClients s' = broadcast ''reset'' (ResetPayload now) (sseClients s)"
    by blast
  show "\<exists>t'. db s' = Some t' \<and> length (events t') = 0 \<and> length (summaries t') = 0"
    using *(1,2,3) by simp
  show "queue_length (queue s') = Inr 0" using clear_empties[OF *(4)] *(5) by simp
  show "queue_contents (queue s') = []" using clear_empties[OF *(4)] *(5) by simp
  show "API_BUDGET s' security = 0" "API_BUDGET s' code_quality = 0" using *(6) by simp_all
  show "pendingEvents s' = {}" by (rule *(7))
  show "sseClients s' = broadcast ''reset'' (ResetPayload now) (sseClients s)" by (rule *(8))
  show "\<forall>cl \<in> set (sseClients s). \<not> write_throws cl \<longrightarrow>
          cl\<lparr>written := written cl @ [(''reset'', ResetPayload now)]\<rparr> \<in> set (sseClients s')"
    unfolding *(8) by (auto intro: broadcast_delivers)
  show "\<forall>cl \<in> set (sseClients s').
          written cl \<noteq> [] \<and> last (written cl) = (''reset'', ResetPayload now)"
    unfolding *(8) using broadcast_last by blast
qed

text \<open>
  A reset of the example server after a subscriber has connected and \<^verbatim>\<open>E1\<close> has been
  requested: one event, one queued job, one unit of budget and one pending id go away.
\<close>

theorem reset_clears_everything_witness:
  "db (srv (run (example_env 10) [StreamOpen 7, GetEventSummary ''E1''] example_system)) \<noteq> None
   \<and> queue_ready (queue (srv (run (example_env 10)
        [StreamOpen 7, GetEventSummary ''E1''] example_system)))
   \<and> fst (post_reset ''2025-01-02T00:00:00Z''
        (srv (run (example_env 10) [StreamOpen 7, GetEventSummary ''E1''] example_system)))
       = ResetDone 1 0 1
   \<and> pendingEvents (snd (post_reset ''2025-01-02T00:00:00Z''
        (srv (run (example_env 10) [StreamOpen 7, GetEventSummary ''E1''] example_system))))
       = {}
   \<and> queue_length (queue (snd (post_reset ''2025-01-02T00:00:00Z''
        (srv (run (example_env 10) [StreamOpen 7, GetEventSummary ''E1''] example_system)))))
       = Inr 0
   \<and> map written (sseClients (snd (post_reset ''2025-01-02T00:00:00Z''
        (srv (run (example_env 10) [StreamOpen 7, GetEventSummary ''E1''] example_system)))))
       = [[(''connected'', Connected), (''reset'', ResetPayload ''2025-01-02T00:00:00Z'')]]"
proof -
  define s where
    "s = srv (run (example_env 10) [StreamOpen 7, GetEventSummary ''E1''] example_system)"
  define now where "now = ''2025-01-02T00:00:00Z''"
  have s: "s = example_server\<lparr>
         sseClients := [\<lparr>client_id = 7, write_throws = False,
                         written = [(''connected'', Connected)]\<rparr>],
         pendingEvents := {''E1''},
         API_BUDGET := (\<lambda>_. 0)(security := 1),
         queue := (queue example_server)\<lparr>inMemoryQueue := [example_job]\<rparr>\<rparr>"
    unfolding s_def
    by (simp add: step_def with_srv_def stream_open_def example_defs handler_defs)
  have d: "db s \<noteq> None" by (simp add: s example_server_def)
  have r: "queue_ready (queue s)"
    by (simp add: s queue_ready_def example_server_def new_Queue_def)
  have f: "fst (post_reset now s) = ResetDone 1 0 1"
    by (simp add: s post_reset_def clearAll_def clear_def example_defs Let_def)
  then have p: "post_reset now s = (ResetDone 1 0 1, snd (post_reset now s))"
    by (metis prod.collapse)
  note t = reset_clears_everything[of s now 1 0 1 "snd (post_reset now s)"]
  from t p have
    pe: "pendingEvents (snd (post_reset now s)) = {}"
    and ql: "queue_length (queue (snd (post_reset now s))) = Inr 0"
    and cl: "sseClients (snd (post_reset now s))
               = broadcast ''reset'' (ResetPayload now) (sseClients s)"
    by blast+
  have w: "map written (sseClients (snd (post_reset now s)))
             = [[(''connected'', Connected), (''reset'', ResetPayload now)]]"
    unfolding cl by (simp add: s broadcast_def)
  show ?thesis
    unfolding s_def[symmetric] now_def[symmetric] by (intro conjI d r f pe ql w)
qed

section \<open>The worker's failure branches\<close>

lemma starts_with_append: "starts_with (needle @ rest) needle"
  by (induction needle) auto

lemma includes_str_append: "includes_str (before @ needle @ rest) needle"
proof (induction before)
  case Nil
  show ?case
  proof (cases "needle @ rest")
    case Nil
    then show ?thesis by simp
  next
    case (Cons x xs)
    have "starts_with (needle @ rest) needle" by (rule starts_with_append)
    then show ?thesis using Cons by simp
  qed
next
  case (Cons a before)
  then show ?case by simp
qed

lemma string_of_nat_429: "string_of_nat 429 = ''429''"
  by (simp add: string_of_nat.simps[of 429] string_of_nat.simps[of 42]
        string_of_nat.simps[of 4] char_of_def bit_Suc_0_iff)

lemma http_429_is_rate_limit:
  "\<exists>e. generateSummary (HttpResponse False 429 statusText content) = Inl e \<and> is429 e"
proof -
  have "includes_str (''OpenAI API error: '' @ ''429'' @ ('' '' @ statusText)) ''429''"
    by (rule includes_str_append)
  then show ?thesis
    by (simp add: generateSummary_def is429_def errorMessage_def string_of_nat_429)
qed

lemma push_ready:
  assumes "queue_ready q"
  shows "\<exists>q'. push job q = Inr q' \<and> queue_contents q' = queue_contents q @ [job]"
proof (cases "useInMemory q")
  case True
  then show ?thesis by (simp add: push_def queue_contents_def)
next
  case False
  with assms obtain c where "redis q = Some c" "connected c"
    by (auto simp: queue_ready_def split: option.splits)
  with False show ?thesis by (simp add: push_def queue_contents_def)
qed

lemma processJob_finally_keeps [simp]:
  "queue (processJob_finally job s) = queue s"
  "API_BUDGET (processJob_finally job s) = API_BUDGET s"
  "pendingEvents (processJob_finally job s) = pendingEvents s"
  "db (processJob_finally job s) = db s"
  "sseClients (processJob_finally job s) = sseClients s"
  by (simp_all add: processJob_finally_def)

text \<open>
  When the backend in use takes the push, a completion call that fails with a rate-limit
  indication (an error whose message contains 429 or "Too Many Requests", or whose status
  is 429; an HTTP 429 answer of the completion service is one) makes the worker push the
  same job once onto the tail of the queue and then sleep 60000 ms. The budget counters,
  \<^verbatim>\<open>pendingEvents\<close>, the database and the subscribers are untouched, and the job's mark
  in \<^verbatim>\<open>processingEvents\<close> is removed.
\<close>

lemma requeue_when_push_succeeds:
  assumes "is429 e" and "queue_ready (queue s)"
  shows "(\<exists>s'. processJob_complete env now_db now s job (Inl e) = (None, [Sleep 60000], s')
            \<and> queue_contents (queue s') = queue_contents (queue s) @ [job]
            \<and> API_BUDGET s' = API_BUDGET s
            \<and> pendingEvents s' = pendingEvents s
            \<and> db s' = db s
            \<and> sseClients s' = sseClients s
            \<and> job_eventId job \<notin> processingEvents (worker s'))
         \<and> (\<forall>statusText content.
               \<exists>e'. generateSummary (HttpResponse False 429 statusText content) = Inl e'
                    \<and> is429 e')"
proof -
  from push_ready[OF assms(2), of job] obtain q' where
    q: "push job (queue s) = Inr q'" "queue_contents q' = queue_contents (queue s) @ [job]"
    by blast
  have "processJob_complete env now_db now s job (Inl e)
          = (None, [Sleep 60000], processJob_finally job (s\<lparr>queue := q'\<rparr>))"
    using assms(1) q(1)
    by (simp add: processJob_complete_def processJob_try_def processJob_catch_def)
  moreover have "job_eventId job \<notin> processingEvents (worker (processJob_finally job (s\<lparr>queue := q'\<rparr>)))"
    by (simp add: processJob_finally_def)
  ultimately show ?thesis
    using q(2) http_429_is_rate_limit by auto
qed

text \<open>
  The job of \<^verbatim>\<open>E1\<close> is taken by the worker, the completion service answers 429, and the
  job is back in the queue, alone, with the budget still at one.
\<close>

lemma requeue_when_push_succeeds_example:
  "(\<exists>e. generateSummary (HttpResponse False 429 ''Too Many Requests'' None) = Inl e
        \<and> is429 e
        \<and> queue_ready (queue (srv (run (example_env 10)
             [GetEventSummary ''E1'', WorkerTake] example_system)))
        \<and> queue_contents (queue (srv (run (example_env 10)
             [GetEventSummary ''E1'', WorkerTake] example_system))) = []
        \<and> (\<exists>s'. processJob_complete (example_env 10) ''t1'' ''t2''
                   (srv (run (example_env 10) [GetEventSummary ''E1'', WorkerTake] example_system))
                   example_job (Inl e) = (None, [Sleep 60000], s')
              \<and> queue_contents (queue s') = [example_job]
              \<and> API_BUDGET s' security = 1))"
proof -
  define s where
    "s = srv (run (example_env 10) [GetEventSummary ''E1'', WorkerTake] example_system)"
  define e where "e = Error ''OpenAI API error: 429 Too Many Requests'' None"
  have g: "generateSummary (HttpResponse False 429 ''Too Many Requests'' None) = Inl e"
    by (simp add: e_def generateSummary_def string_of_nat_429)
  have "includes_str (''OpenAI API error: '' @ ''429'' @ '' Too Many Requests'') ''429''"
    by (rule includes_str_append)
  then have i: "is429 e" by (simp add: e_def is429_def errorMessage_def)
  have first: "step (example_env 10) (GetEventSummary ''E1'') example_system =
     \<lparr>srv = example_server\<lparr>pendingEvents := {''E1''},
         API_BUDGET := (\<lambda>_. 0)(security := 1),
         queue := (queue example_server)\<lparr>inMemoryQueue := [example_job]\<rparr>\<rparr>,
      in_flight = None\<rparr>"
    by (simp add: step_def with_srv_def example_system_def example_first_request)
  have s: "s = example_server\<lparr>pendingEvents := {''E1''},
         API_BUDGET := (\<lambda>_. 0)(security := 1),
         worker := (worker example_server)\<lparr>processingEvents := {''E1''}\<rparr>\<rparr>"
    unfolding s_def run.simps first
    by (simp add: step_def worker_take_def with_srv_def pop_def processJob_start_def
          example_server_def new_Queue_def start_worker_def new_SummarizationWorker_def
          empty_tables_def example_job_def)
  have r: "queue_ready (queue s)"
    by (simp add: s queue_ready_def example_server_def new_Queue_def)
  have c0: "queue_contents (queue s) = []"
    by (simp add: s queue_contents_def example_server_def new_Queue_def)
  have b: "API_BUDGET s security = 1" by (simp add: s)
  from requeue_when_push_succeeds[OF i r, of "example_env 10" "''t1''" "''t2''" example_job]
  obtain s' where
    s': "processJob_complete (example_env 10) ''t1'' ''t2'' s example_job (Inl e)
       = (None, [Sleep 60000], s')"
    "queue_contents (queue s') = queue_contents (queue s) @ [example_job]"
    "API_BUDGET s' = API_BUDGET s"
    by blast
  have "\<exists>s'. processJob_complete (example_env 10) ''t1'' ''t2'' s example_job (Inl e)
                   = (None, [Sleep 60000], s')
              \<and> queue_contents (queue s') = [example_job]
              \<and> API_BUDGET s' security = 1"
    using s' c0 b by auto
  then show ?thesis
    unfolding s_def[symmetric] using g i r c0 by blast
qed

text \<open>
  C4 on the code. \<^verbatim>\<open>REDIS_URL\<close> is set and the first connection attempt was refused, so
  the queue runs in process and \<^verbatim>\<open>this.redis\<close> is null. \<^verbatim>\<open>E1\<close> is requested, the worker
  takes the job, and one of the client's reconnection attempts succeeds: the \<^verbatim>\<open>'connect'\<close>
  listener sets \<^verbatim>\<open>useInMemory = false\<close>. Then the completion service answers 429. In the
  \<^verbatim>\<open>catch\<close> branch \<^verbatim>\<open>queue.push\<close> throws 'Queue not initialized', and the throw leaves
  \<^verbatim>\<open>processJob\<close> before the pause of 60 seconds: the job is pushed onto no queue, no
  pause is made, \<^verbatim>\<open>E1\<close> stays in \<^verbatim>\<open>pendingEvents\<close> with its unit of budget spent, and the
  next request for \<^verbatim>\<open>E1\<close> is answered "generating".
\<close>

theorem rate_limited_job_lost_when_push_throws:
  "generateSummary (HttpResponse False 429 ''Too Many Requests'' None) = Inl too_many_requests
   \<and> is429 too_many_requests
   \<and> in_flight (run (example_env 10)
        [GetEventSummary ''E1'', WorkerTake, RedisConnect] refused_system) = Some example_job
   \<and> fst (processJob_complete (example_env 10) ''t1'' ''t2''
        (srv (run (example_env 10)
           [GetEventSummary ''E1'', WorkerTake, RedisConnect] refused_system))
        example_job (Inl too_many_requests)) = Some queue_not_initialized
   \<and> fst (snd (processJob_complete (example_env 10) ''t1'' ''t2''
        (srv (run (example_env 10)
           [GetEventSummary ''E1'', WorkerTake, RedisConnect] refused_system))
        example_job (Inl too_many_requests))) = []
   \<and> in_flight (run (example_env 10)
        [GetEventSummary ''E1'', WorkerTake, RedisConnect,
         WorkerComplete ''t1'' ''t2'' (Inl too_many_requests)] refused_system) = None
   \<and> inMemoryQueue (queue (srv (run (example_env 10)
        [GetEventSummary ''E1'', WorkerTake, RedisConnect,
         WorkerComplete ''t1'' ''t2'' (Inl too_many_requests)] refused_system))) = []
   \<and> redis (queue (srv (run (example_env 10)
        [GetEventSummary ''E1'', WorkerTake, RedisConnect,
         WorkerComplete ''t1'' ''t2'' (Inl too_many_requests)] refused_system))) = None
   \<and> queue_length (queue (srv (run (example_env 10)
        [GetEventSummary ''E1'', WorkerTake, RedisConnect,
         WorkerComplete ''t1'' ''t2'' (Inl too_many_requests)] refused_system)))
       = Inl queue_not_initialized
   \<and> API_BUDGET (srv (run (example_env 10)
        [GetEventSummary ''E1'', WorkerTake, RedisConnect,
         WorkerComplete ''t1'' ''t2'' (Inl too_many_requests)] refused_system)) security = 1
   \<and> ''E1'' \<in> pendingEvents (srv (run (example_env 10)
        [GetEventSummary ''E1'', WorkerTake, RedisConnect,
         WorkerComplete ''t1'' ''t2'' (Inl too_many_requests)] refused_system))
   \<and> fst (get_event_summary (example_env 10) (srv (run (example_env 10)
        [GetEventSummary ''E1'', WorkerTake, RedisConnect,
         WorkerComplete ''t1'' ''t2'' (Inl too_many_requests)] refused_system)) ''E1'')
       = Generating ''E1''"
proof -
  define env where "env = example_env 10"
  define y3 where
    "y3 = run env [GetEventSummary ''E1'', WorkerTake, RedisConnect] refused_system"
  define y4 where
    "y4 = run env [GetEventSummary ''E1'', WorkerTake, RedisConnect,
                   WorkerComplete ''t1'' ''t2'' (Inl too_many_requests)] refused_system"
  define q0 where "q0 = new_Queue\<lparr>redis := None, useInMemory := True, client_alive := True\<rparr>"
  define s1 where "s1 = example_server\<lparr>pendingEvents := {''E1''},
         API_BUDGET := (\<lambda>_. 0)(security := 1),
         queue := q0\<lparr>inMemoryQueue := [example_job]\<rparr>\<rparr>"
  define s2 where "s2 = example_server\<lparr>pendingEvents := {''E1''},
         API_BUDGET := (\<lambda>_. 0)(security := 1),
         queue := q0,
         worker := (worker example_server)\<lparr>processingEvents := {''E1''}\<rparr>\<rparr>"
  define s3 where "s3 = s2\<lparr>queue := q0\<lparr>useInMemory := False\<rparr>\<rparr>"
  define s4 where "s4 = example_server\<lparr>pendingEvents := {''E1''},
         API_BUDGET := (\<lambda>_. 0)(security := 1),
         queue := q0\<lparr>useInMemory := False\<rparr>\<rparr>"
  have q0: "refused_queue = q0"
    by (simp add: q0_def refused_queue_def init_queue_def init_connect_rejected_def
          new_Queue_def)
  have g: "generateSummary (HttpResponse False 429 ''Too Many Requests'' None)
             = Inl too_many_requests"
    by (simp add: too_many_requests_def generateSummary_def string_of_nat_429)
  have "includes_str (''OpenAI API error: '' @ ''429'' @ '' Too Many Requests'') ''429''"
    by (rule includes_str_append)
  then have i: "is429 too_many_requests"
    by (simp add: too_many_requests_def is429_def errorMessage_def)
  have y1: "step env (GetEventSummary ''E1'') refused_system = \<lparr>srv = s1, in_flight = None\<rparr>"
    unfolding env_def s1_def refused_system_def q0
    by (simp add: step_def with_srv_def q0_def example_defs handler_defs)
  have y2: "step env WorkerTake \<lparr>srv = s1, in_flight = None\<rparr>
              = \<lparr>srv = s2, in_flight = Some example_job\<rparr>"
    unfolding env_def s1_def s2_def
    by (simp add: step_def worker_take_def with_srv_def pop_def processJob_start_def
          q0_def example_server_def new_Queue_def start_worker_def
          new_SummarizationWorker_def empty_tables_def example_job_def)
  have y3': "step env RedisConnect \<lparr>srv = s2, in_flight = Some example_job\<rparr>
              = \<lparr>srv = s3, in_flight = Some example_job\<rparr>"
    unfolding s2_def s3_def
    by (simp add: step_def with_srv_def on_connect_def q0_def new_Queue_def)
  have y3: "y3 = \<lparr>srv = s3, in_flight = Some example_job\<rparr>"
    unfolding y3_def using y1 y2 y3' by simp
  have pu: "push example_job (queue s3) = Inl queue_not_initialized"
    unfolding s3_def s2_def by (simp add: push_def q0_def new_Queue_def)
  have catch: "processJob_catch ''t2'' s3 example_job too_many_requests
                 = (Some queue_not_initialized, [], s3)"
    by (simp add: processJob_catch_def i pu)
  have fin: "processJob_finally example_job s3 = s4"
    unfolding s3_def s2_def s4_def
    by (simp add: processJob_finally_def example_server_def start_worker_def
          new_SummarizationWorker_def example_job_def)
  have pj: "processJob_complete env ''t1'' ''t2'' s3 example_job (Inl too_many_requests)
              = (Some queue_not_initialized, [], s4)"
    by (simp add: processJob_complete_def processJob_try_def catch fin)
  have y4': "step env (WorkerComplete ''t1'' ''t2'' (Inl too_many_requests))
               \<lparr>srv = s3, in_flight = Some example_job\<rparr> = \<lparr>srv = s4, in_flight = None\<rparr>"
    by (simp add: step_def worker_complete_def with_srv_def pj)
  have y4: "y4 = \<lparr>srv = s4, in_flight = None\<rparr>"
    unfolding y4_def using y1 y2 y3' y4' by simp
  have m4: "inMemoryQueue (queue s4) = []" "redis (queue s4) = None"
    unfolding s4_def by (simp_all add: q0_def new_Queue_def)
  have l4: "queue_length (queue s4) = Inl queue_not_initialized"
    unfolding s4_def by (simp add: queue_length_def q0_def new_Queue_def)
  have b4: "API_BUDGET s4 security = 1" unfolding s4_def by simp
  have p4: "''E1'' \<in> pendingEvents s4" unfolding s4_def by simp
  have again: "get_event_summary env s4 ''E1'' = (Generating ''E1'', s4)"
    unfolding s4_def by (simp add: get_event_summary_def example_server_def empty_tables_def)
  have "in_flight y3 = Some example_job
   \<and> fst (processJob_complete env ''t1'' ''t2'' (srv y3) example_job (Inl too_many_requests))
       = Some queue_not_initialized
   \<and> fst (snd (processJob_complete env ''t1'' ''t2'' (srv y3) example_job
        (Inl too_many_requests))) = []
   \<and> in_flight y4 = None
   \<and> inMemoryQueue (queue (srv y4)) = []
   \<and> redis (queue (srv y4)) = None
   \<and> queue_length (queue (srv y4)) = Inl queue_not_initialized
   \<and> API_BUDGET (srv y4) security = 1
   \<and> ''E1'' \<in> pendingEvents (srv y4)
   \<and> fst (get_event_summary env (srv y4) ''E1'') = Generating ''E1''"
    by (simp add: y3 y4 pj m4 l4 b4 p4 again)
  then show ?thesis
    unfolding y3_def y4_def env_def using g i by blast
qed

text \<open>
  C5 on the code. A subscriber connects, \<^verbatim>\<open>E1\<close> is requested, the worker takes the job,
  and the completion service answers \<^verbatim>\<open>{not json}\<close>. The job is dropped and the error
  event is written to the subscriber, but \<^verbatim>\<open>E1\<close> stays in \<^verbatim>\<open>pendingEvents\<close>
  (\<^verbatim>\<open>broadcastError\<close>, unlike \<^verbatim>\<open>broadcastSummary\<close>, does not delete it), so the next request
  for \<^verbatim>\<open>E1\<close> is answered "generating" and the queue stays empty.
\<close>

theorem malformed_json_leaves_event_pending:
  "in_flight (run (example_env 10)
      [StreamOpen 7, GetEventSummary ''E1'', WorkerTake,
       WorkerComplete ''t1'' ''t2'' (Inr ''{not json}'')] example_system) = None
   \<and> queue_contents (queue (srv (run (example_env 10)
      [StreamOpen 7, GetEventSummary ''E1'', WorkerTake,
       WorkerComplete ''t1'' ''t2'' (Inr ''{not json}'')] example_system))) = []
   \<and> map written (sseClients (srv (run (example_env 10)
      [StreamOpen 7, GetEventSummary ''E1'', WorkerTake,
       WorkerComplete ''t1'' ''t2'' (Inr ''{not json}'')] example_system)))
      = [[(''connected'', Connected),
          (''error'', ErrorPayload \<lparr>we_event_id = ''E1'',
            we_error = ''Failed to parse AI JSON: SyntaxError: Expected property name or '}' in JSON at position 1'',
            we_repo = ''octo/repo'', we_timestamp = ''t2''\<rparr>)]]
   \<and> ''E1'' \<in> pendingEvents (srv (run (example_env 10)
      [StreamOpen 7, GetEventSummary ''E1'', WorkerTake,
       WorkerComplete ''t1'' ''t2'' (Inr ''{not json}'')] example_system))
   \<and> fst (get_event_summary (example_env 10) (srv (run (example_env 10)
      [StreamOpen 7, GetEventSummary ''E1'', WorkerTake,
       WorkerComplete ''t1'' ''t2'' (Inr ''{not json}'')] example_system)) ''E1'')
      = Generating ''E1''
   \<and> queue_contents (queue (snd (get_event_summary (example_env 10) (srv (run (example_env 10)
      [StreamOpen 7, GetEventSummary ''E1'', WorkerTake,
       WorkerComplete ''t1'' ''t2'' (Inr ''{not json}'')] example_system)) ''E1''))) = []"
proof -
  define env where "env = example_env 10"
  define y where "y = run env
      [StreamOpen 7, GetEventSummary ''E1'', WorkerTake,
       WorkerComplete ''t1'' ''t2'' (Inr ''{not json}'')] example_system"
  define client where
    "client = \<lparr>client_id = 7, write_throws = False, written = [(''connected'', Connected)]\<rparr>"
  define msg where
    "msg = ''Failed to parse AI JSON: SyntaxError: Expected property name or '}' in JSON at position 1''"
  define err where
    "err = \<lparr>we_event_id = ''E1'', we_error = msg, we_repo = ''octo/repo'',
             we_timestamp = ''t2''\<rparr>"
  define s2 where "s2 = example_server\<lparr>sseClients := [client],
         pendingEvents := {''E1''},
         API_BUDGET := (\<lambda>_. 0)(security := 1),
         queue := (queue example_server)\<lparr>inMemoryQueue := [example_job]\<rparr>\<rparr>"
  define s3 where "s3 = example_server\<lparr>sseClients := [client],
         pendingEvents := {''E1''},
         API_BUDGET := (\<lambda>_. 0)(security := 1),
         worker := (worker example_server)\<lparr>processingEvents := {''E1''}\<rparr>\<rparr>"
  define s4 where "s4 = example_server\<lparr>
         sseClients := [client\<lparr>written := [(''connected'', Connected),
                                              (''error'', ErrorPayload err)]\<rparr>],
         pendingEvents := {''E1''},
         API_BUDGET := (\<lambda>_. 0)(security := 1)\<rparr>"
  have y2: "run env [StreamOpen 7, GetEventSummary ''E1''] example_system
              = \<lparr>srv = s2, in_flight = None\<rparr>"
    unfolding env_def s2_def client_def
    by (simp add: step_def with_srv_def stream_open_def example_defs handler_defs)
  have y3: "step env WorkerTake \<lparr>srv = s2, in_flight = None\<rparr>
              = \<lparr>srv = s3, in_flight = Some example_job\<rparr>"
    unfolding env_def s2_def s3_def
    by (simp add: step_def worker_take_def with_srv_def pop_def processJob_start_def
          example_server_def new_Queue_def start_worker_def new_SummarizationWorker_def
          empty_tables_def example_job_def)
  have m: "json_match ''{not json}'' = Some ''{not json}''"
    by (simp add: json_match_def fence_match_def brace_match_def Let_def)
  have parse: "parseSummaryResponse env ''{not json}'' = Inl (Error msg None)"
    unfolding env_def msg_def
    by (simp add: parseSummaryResponse_def m example_env_def critical_issue_text_def
          shadowed_toString_text_def plain_object_text_def not_json_error_def)
  have not429: "\<not> is429 (Error msg None)"
    unfolding msg_def by (simp add: is429_def errorMessage_def)
  have catch: "processJob_catch ''t2'' s3 example_job (Error msg None)
                 = (None, [], s4\<lparr>worker := worker s3\<rparr>)"
    unfolding s3_def s4_def err_def
    by (simp add: processJob_catch_def not429 broadcastError_def broadcast_def
          errorMessage_def nullish_or_def example_server_def start_worker_def
          new_SummarizationWorker_def example_job_def example_event_def client_def)
  have fin: "processJob_finally example_job (s4\<lparr>worker := worker s3\<rparr>) = s4"
    unfolding s3_def s4_def
    by (simp add: processJob_finally_def example_server_def start_worker_def
          new_SummarizationWorker_def example_job_def)
  have y4: "step env (WorkerComplete ''t1'' ''t2'' (Inr ''{not json}''))
              \<lparr>srv = s3, in_flight = Some example_job\<rparr>
              = \<lparr>srv = s4, in_flight = None\<rparr>"
    by (simp add: step_def worker_complete_def with_srv_def processJob_complete_def
          processJob_try_def parse catch fin)
  have y: "y = \<lparr>srv = s4, in_flight = None\<rparr>"
    unfolding y_def using y2 y3 y4 by simp
  have again: "get_event_summary env s4 ''E1'' = (Generating ''E1'', s4)"
    unfolding s4_def by (simp add: get_event_summary_def example_server_def empty_tables_def)
  have q4: "queue_contents (queue s4) = []"
    unfolding s4_def by (simp add: queue_contents_def example_server_def new_Queue_def)
  have w4: "map written (sseClients s4)
              = [[(''connected'', Connected), (''error'', ErrorPayload err)]]"
    unfolding s4_def client_def by simp
  have p4: "''E1'' \<in> pendingEvents s4" unfolding s4_def by simp
  have "in_flight y = None
     \<and> queue_contents (queue (srv y)) = []
     \<and> map written (sseClients (srv y))
         = [[(''connected'', Connected), (''error'', ErrorPayload err)]]
     \<and> ''E1'' \<in> pendingEvents (srv y)
     \<and> fst (get_event_summary env (srv y) ''E1'') = Generating ''E1''
     \<and> queue_contents (queue (snd (get_event_summary env (srv y) ''E1''))) = []"
    by (simp add: y again q4 w4 p4)
  then show ?thesis
    unfolding y_def env_def err_def msg_def .
qed



section \<open>Falling back to the in-process queue\<close>

text \<open>
  C8 on the code. With \<^verbatim>\<open>REDIS_URL\<close> set and the first connection attempt refused,
  \<^verbatim>\<open>init\<close> falls back in its \<^verbatim>\<open>catch\<close> block, which announces the in-memory queue and
  sets \<^verbatim>\<open>this.redis = null\<close>, while the client object goes on retrying. When one of its
  attempts succeeds, the \<^verbatim>\<open>'connect'\<close> listener that \<^verbatim>\<open>init\<close> registered sets
  \<^verbatim>\<open>useInMemory = false\<close>: the queue has left the in-process backend, and \<^verbatim>\<open>push\<close>,
  \<^verbatim>\<open>pop\<close>, \<^verbatim>\<open>length\<close> and \<^verbatim>\<open>clear\<close> all throw 'Queue not initialized'.
\<close>

theorem fallback_undone_by_connect:
  "useInMemory refused_queue
   \<and> client_alive refused_queue
   \<and> queue (srv (step (example_env 10) RedisConnect
         \<lparr>srv = example_server\<lparr>queue := refused_queue\<rparr>, in_flight = None\<rparr>))
       = on_connect refused_queue
   \<and> \<not> useInMemory (on_connect refused_queue)
   \<and> push example_job (on_connect refused_queue) = Inl queue_not_initialized
   \<and> pop (on_connect refused_queue) = Inl queue_not_initialized
   \<and> queue_length (on_connect refused_queue) = Inl queue_not_initialized
   \<and> clear (on_connect refused_queue) = Inl queue_not_initialized"
  by (simp add: refused_queue_def init_queue_def init_connect_rejected_def new_Queue_def
        on_connect_def step_def with_srv_def push_def pop_def queue_length_def clear_def)

lemma in_process_kept_refl: "useInMemory q \<Longrightarrow> in_process_kept q q"
  by (simp add: in_process_kept_def)

lemma in_process_kept_trans:
  "in_process_kept q q' \<Longrightarrow> in_process_kept q' q'' \<Longrightarrow> in_process_kept q q''"
  by (simp add: in_process_kept_def)

lemma push_in_process:
  "useInMemory q \<Longrightarrow> push job q = Inr (q\<lparr>inMemoryQueue := inMemoryQueue q @ [job]\<rparr>)"
  by (simp add: push_def)

lemma pop_in_process:
  "useInMemory q \<Longrightarrow>
   pop q = (case inMemoryQueue q of
              [] \<Rightarrow> Inr (None, q)
            | job # rest \<Rightarrow> Inr (Some job, q\<lparr>inMemoryQueue := rest\<rparr>))"
  by (simp add: pop_def)

lemma length_in_process:
  "useInMemory q \<Longrightarrow> queue_length q = Inr (length (inMemoryQueue q))"
  by (simp add: queue_length_def)

lemma clear_in_process:
  "useInMemory q \<Longrightarrow> clear q = Inr (length (inMemoryQueue q), q\<lparr>inMemoryQueue := []\<rparr>)"
  by (simp add: clear_def)

lemma kept_get:
  assumes "useInMemory (queue s)"
  shows "in_process_kept (queue s) (queue (snd (get_event_summary env s e)))"
  using assms
  by (auto simp: get_event_summary_def Let_def incrementSummaryCount_def push_in_process
        in_process_kept_def split: sum.splits option.splits)

lemma kept_reset:
  assumes "useInMemory (queue s)"
  shows "in_process_kept (queue s) (queue (snd (post_reset now s)))"
  using assms
  by (auto simp: post_reset_def Let_def clear_in_process broadcastReset_def
        in_process_kept_def split: sum.splits prod.splits)

lemma queue_broadcastEvent [simp]: "queue (broadcastEvent ev s) = queue s"
  by (simp add: broadcastEvent_def)

lemma queue_broadcastError [simp]: "queue (broadcastError er s) = queue s"
  by (simp add: broadcastError_def)

lemma queue_broadcastSummary [simp]: "queue (broadcastSummary sm s) = queue s"
  by (simp add: broadcastSummary_def Let_def)

lemma kept_internal:
  assumes "useInMemory (queue s)"
  shows "in_process_kept (queue s) (queue (snd (post_internal_event now s body)))"
  using assms
  by (auto simp: post_internal_event_def in_process_kept_def split: sum.splits option.splits)

lemma queue_processJob_start:
  "processJob_start env s job = Inr (r, s') \<Longrightarrow> queue s' = queue s"
  by (auto simp: processJob_start_def split: if_splits sum.splits option.splits)

lemma queue_processJob_try:
  "processJob_try env now_db now s job completion = Inr s' \<Longrightarrow> queue s' = queue s"
  by (auto simp: processJob_try_def split: sum.splits)

lemma kept_catch:
  "useInMemory (queue s) \<Longrightarrow> processJob_catch now s job e = (x, fx, s') \<Longrightarrow>
   in_process_kept (queue s) (queue s')"
  by (auto simp: processJob_catch_def push_in_process in_process_kept_def split: if_splits)

lemma kept_complete:
  assumes "useInMemory (queue s)"
    and "processJob_complete env now_db now s job completion = (x, fx, s')"
  shows "in_process_kept (queue s) (queue s')"
proof (cases "processJob_try env now_db now s job completion")
  case (Inr s1)
  then have "queue s1 = queue s" by (rule queue_processJob_try)
  then show ?thesis
    using assms Inr by (auto simp: processJob_complete_def in_process_kept_def)
next
  case (Inl e)
  obtain x1 fx1 s1 where c: "processJob_catch now s job e = (x1, fx1, s1)"
    by (cases "processJob_catch now s job e")
  from kept_catch[OF assms(1) c] show ?thesis
    using assms(2) Inl c by (auto simp: processJob_complete_def in_process_kept_def)
qed

lemma kept_take:
  assumes "useInMemory (queue (srv y))"
  shows "in_process_kept (queue (srv y)) (queue (srv (worker_take env y)))"
proof (cases "\<not> running (worker (srv y)) \<or> in_flight y \<noteq> None")
  case True
  then show ?thesis using assms by (auto simp: worker_take_def in_process_kept_def)
next
  case False
  show ?thesis
  proof (cases "inMemoryQueue (queue (srv y))")
    case Nil
    then show ?thesis
      using assms False
      by (simp add: worker_take_def pop_in_process with_srv_def in_process_kept_def)
  next
    case (Cons job rest)
    let ?s1 = "(srv y)\<lparr>queue := (queue (srv y))\<lparr>inMemoryQueue := rest\<rparr>\<rparr>"
    have k1: "in_process_kept (queue (srv y)) (queue ?s1)"
      using assms by (simp add: in_process_kept_def)
    show ?thesis
    proof (cases "processJob_start env ?s1 job")
      case (Inl e)
      then show ?thesis
        using assms False Cons k1
        by (simp add: worker_take_def pop_in_process with_srv_def)
    next
      case (Inr p)
      obtain r s' where p: "p = (r, s')" by (cases p)
      from queue_processJob_start[OF Inr[unfolded p]] have "queue s' = queue ?s1" .
      then show ?thesis
        using assms False Cons k1 Inr p
        by (cases r) (simp_all add: worker_take_def pop_in_process with_srv_def)
    qed
  qed
qed

lemma kept_step:
  assumes "useInMemory (queue (srv y))"
    and "a \<noteq> RedisConnect \<or> \<not> client_alive (queue (srv y))"
  shows "in_process_kept (queue (srv y)) (queue (srv (step env a y)))"
proof (cases a)
  case (GetEventSummary e)
  then show ?thesis
    using assms(1) kept_get[OF assms(1)]
    by (simp add: step_def with_srv_def in_process_kept_refl)
next
  case (PostReset now)
  then show ?thesis using kept_reset[OF assms(1)] by (simp add: step_def with_srv_def)
next
  case (PostInternalEvent now body)
  then show ?thesis using kept_internal[OF assms(1)] by (simp add: step_def with_srv_def)
next
  case RedisConnect
  then show ?thesis using assms by (simp add: step_def in_process_kept_refl)
next
  case (RedisRetry n)
  then show ?thesis
    using assms(1)
    by (simp add: step_def with_srv_def retryStrategy_def in_process_kept_def)
next
  case RedisError
  then show ?thesis
    using assms(1) by (simp add: step_def with_srv_def on_error_def in_process_kept_def)
next
  case RedisConnectionLost
  then show ?thesis
    using assms(1)
    by (cases "redis (queue (srv y))")
       (simp_all add: step_def with_srv_def connection_lost_def in_process_kept_def)
next
  case WorkerTake
  then show ?thesis using kept_take[OF assms(1)] by (simp add: step_def)
next
  case (WorkerComplete now_db now completion)
  show ?thesis
  proof (cases "in_flight y")
    case None
    then show ?thesis
      using assms(1) WorkerComplete
      by (simp add: step_def worker_complete_def in_process_kept_refl)
  next
    case (Some job)
    obtain x fx s' where
      c: "processJob_complete env now_db now (srv y) job completion = (x, fx, s')"
      by (cases "processJob_complete env now_db now (srv y) job completion")
    from kept_complete[OF assms(1) c] show ?thesis
      using WorkerComplete Some c by (simp add: step_def worker_complete_def with_srv_def)
  qed
qed (use assms(1) in
      \<open>simp_all add: step_def with_srv_def stream_open_def stream_close_def in_process_kept_def\<close>)

lemma kept_run:
  assumes "useInMemory (queue (srv y))"
    and "RedisConnect \<notin> set acts \<or> \<not> client_alive (queue (srv y))"
  shows "in_process_kept (queue (srv y)) (queue (srv (run env acts y)))"
  using assms
proof (induction acts arbitrary: y)
  case Nil
  then show ?case by (simp add: in_process_kept_refl)
next
  case (Cons a acts)
  have a: "a \<noteq> RedisConnect \<or> \<not> client_alive (queue (srv y))"
    using Cons.prems(2) by auto
  from kept_step[OF Cons.prems(1) a]
  have k: "in_process_kept (queue (srv y)) (queue (srv (step env a y)))" .
  then have u: "useInMemory (queue (srv (step env a y)))"
    and ca: "client_alive (queue (srv (step env a y))) \<longrightarrow> client_alive (queue (srv y))"
    by (simp_all add: in_process_kept_def)
  have "RedisConnect \<notin> set acts \<or> \<not> client_alive (queue (srv (step env a y)))"
    using Cons.prems(2) ca by auto
  from Cons.IH[OF u this] k show ?case
    by (simp add: in_process_kept_trans)
qed

text \<open>
  The other two fallbacks are for good. Once the queue runs on the in-process backend, it
  stays there through everything the server does (requests, resets, worker activity,
  retries, errors and losses of the Redis connection) for as long as the Redis client
  emits no \<^verbatim>\<open>'connect'\<close> event. Without \<^verbatim>\<open>REDIS_URL\<close> no client exists, and after
  \<^verbatim>\<open>retryStrategy\<close> has given up the client has ended, so in both cases no such event
  can come. While the queue is there, \<^verbatim>\<open>push\<close>, \<^verbatim>\<open>pop\<close>, \<^verbatim>\<open>length\<close> and \<^verbatim>\<open>clear\<close> work on the
  in-process list alone and the list on the Redis server is not touched.
\<close>

lemma fallback_kept_without_connect:
  assumes "useInMemory (queue (srv y))"
    and "RedisConnect \<notin> set acts \<or> \<not> client_alive (queue (srv y))"
  shows "useInMemory (queue (srv (run env acts y)))
     \<and> map_option rlist (redis (queue (srv (run env acts y))))
         = map_option rlist (redis (queue (srv y)))
     \<and> (\<forall>q job. useInMemory q \<longrightarrow>
           push job q = Inr (q\<lparr>inMemoryQueue := inMemoryQueue q @ [job]\<rparr>)
           \<and> pop q = (case inMemoryQueue q of
                        [] \<Rightarrow> Inr (None, q)
                      | j # rest \<Rightarrow> Inr (Some j, q\<lparr>inMemoryQueue := rest\<rparr>))
           \<and> queue_length q = Inr (length (inMemoryQueue q))
           \<and> clear q = Inr (length (inMemoryQueue q), q\<lparr>inMemoryQueue := []\<rparr>))
     \<and> (\<forall>l. useInMemory (init_queue None l new_Queue)
            \<and> \<not> client_alive (init_queue None l new_Queue))
     \<and> (\<forall>q. useInMemory (init_connect_rejected q))
     \<and> (\<forall>q n. n > 5 \<longrightarrow> useInMemory (snd (retryStrategy n q))
                       \<and> \<not> client_alive (snd (retryStrategy n q)))"
proof -
  from kept_run[OF assms] have
    "in_process_kept (queue (srv y)) (queue (srv (run env acts y)))" .
  then have a: "useInMemory (queue (srv (run env acts y)))"
    and b: "map_option rlist (redis (queue (srv (run env acts y))))
         = map_option rlist (redis (queue (srv y)))"
    by (simp_all add: in_process_kept_def)
  have c: "\<forall>l. useInMemory (init_queue None l new_Queue)
            \<and> \<not> client_alive (init_queue None l new_Queue)"
    by (simp add: init_queue_def new_Queue_def)
  have d: "\<forall>q. useInMemory (init_connect_rejected q)"
    by (simp add: init_connect_rejected_def)
  have e: "\<forall>q n. n > 5 \<longrightarrow> useInMemory (snd (retryStrategy n q))
                       \<and> \<not> client_alive (snd (retryStrategy n q))"
    by (simp add: retryStrategy_def)
  show ?thesis
    using a b c d e push_in_process pop_in_process length_in_process clear_in_process
    by blast
qed

text \<open>
  A queue whose client has exhausted its retries, then a request, an event of the dead
  client, a lost connection and the worker taking the job: the flag is still set.
\<close>

lemma fallback_kept_without_connect_example:
  "useInMemory (queue (srv (run (example_env 10)
        [RedisRetry 6, GetEventSummary ''E1'', RedisConnect, RedisConnectionLost, WorkerTake]
        \<lparr>srv = example_server\<lparr>queue := init_queue (Some ''redis://cache:6379'') [] new_Queue\<rparr>,
         in_flight = None\<rparr>)))"
proof -
  define y where "y = step (example_env 10) (RedisRetry 6)
        \<lparr>srv = example_server\<lparr>queue := init_queue (Some ''redis://cache:6379'') [] new_Queue\<rparr>,
         in_flight = None\<rparr>"
  define acts where
    "acts = [GetEventSummary ''E1'', RedisConnect, RedisConnectionLost, WorkerTake]"
  have u: "useInMemory (queue (srv y))"
    by (simp add: y_def step_def with_srv_def retryStrategy_def init_queue_def new_Queue_def)
  have n: "\<not> client_alive (queue (srv y))"
    by (simp add: y_def step_def with_srv_def retryStrategy_def init_queue_def new_Queue_def)
  then have n': "RedisConnect \<notin> set acts \<or> \<not> client_alive (queue (srv y))" by simp
  from fallback_kept_without_connect[OF u n', of "example_env 10"]
  have "useInMemory (queue (srv (run (example_env 10) acts y)))" by blast
  then show ?thesis
    unfolding y_def acts_def by simp
qed


section \<open>Normalising the classification\<close>

text \<open>
  C9 on the code. The answer \<^verbatim>\<open>{"classification": {"toString": 1}}\<close> is a JSON object
  that is extracted and parsed. Its classification is not one of the three canonical
  values, but it cannot be converted to a property key either, so
  \<^verbatim>\<open>classificationMap[classification]\<close> throws before the check against
  \<^verbatim>\<open>validClasses\<close> is reached; the parser rethrows it as a parse failure and the job
  fails. The answer \<^verbatim>\<open>{"classification": {"a": 1}}\<close>, whose classification is an object
  as well, gets the default.
\<close>

theorem unconvertible_classification_fails:
  "json_match shadowed_toString_text = Some shadowed_toString_text
   \<and> JSON_parse (example_env 10) shadowed_toString_text
       = Inr (JObject [(''classification'', JObject [(''toString'', JNumber 1)])])
   \<and> parseSummaryResponse (example_env 10) shadowed_toString_text
       = Inl (Error ''Failed to parse AI JSON: TypeError: Cannot convert object to primitive value''
                None)
   \<and> json_match plain_object_text = Some plain_object_text
   \<and> JSON_parse (example_env 10) plain_object_text
       = Inr (JObject [(''classification'', JObject [(''a'', JNumber 1)])])
   \<and> parseSummaryResponse (example_env 10) plain_object_text
       = Inr \<lparr>ps_classification = ''POLICY_VIOLATION'', ps_confidence = JString ''MEDIUM'',
              ps_one_line_summary = JString ''Analysis not available'',
              ps_root_cause = [], ps_impact = [], ps_next_steps = []\<rparr>"
proof -
  have m: "json_match shadowed_toString_text = Some shadowed_toString_text"
    by (simp add: shadowed_toString_text_def json_match_def fence_match_def brace_match_def
          Let_def)
  have p: "JSON_parse (example_env 10) shadowed_toString_text
       = Inr (JObject [(''classification'', JObject [(''toString'', JNumber 1)])])"
    by (simp add: example_env_def shadowed_toString_text_def critical_issue_text_def)
  have t: "parseSummaryResponse (example_env 10) shadowed_toString_text
       = Inl (Error ''Failed to parse AI JSON: TypeError: Cannot convert object to primitive value''
                None)"
    by (simp add: m p parseSummaryResponse_def normalize_parsed_def member_or_def
          cannot_convert_def cannot_convert_message_def)
  have m': "json_match plain_object_text = Some plain_object_text"
    by (simp add: plain_object_text_def json_match_def fence_match_def brace_match_def
          Let_def)
  have p': "JSON_parse (example_env 10) plain_object_text
       = Inr (JObject [(''classification'', JObject [(''a'', JNumber 1)])])"
    by (simp add: example_env_def shadowed_toString_text_def critical_issue_text_def
          plain_object_text_def)
  have k: "classificationMap_get ''[object Object]'' = None"
    by (simp add: classificationMap_get_def classificationMap_def object_prototype_names_def)
  have t': "parseSummaryResponse (example_env 10) plain_object_text
       = Inr \<lparr>ps_classification = ''POLICY_VIOLATION'', ps_confidence = JString ''MEDIUM'',
              ps_one_line_summary = JString ''Analysis not available'',
              ps_root_cause = [], ps_impact = [], ps_next_steps = []\<rparr>"
    by (simp add: m' p' k parseSummaryResponse_def normalize_parsed_def member_or_def
          member_array_def)
  show ?thesis
    by (intro conjI m p t m' p' t')
qed

lemma classificationMap_get_cases:
  "classificationMap_get key =
     (if key = ''CRITICAL_ISSUE'' then Some (Parsed (JString ''ACTIVE_ATTACK''))
      else if key = ''POOR_PRACTICE'' then Some (Parsed (JString ''POLICY_VIOLATION''))
      else if key = ''MINOR_CONCERN'' then Some (Parsed (JString ''BENIGN_ANOMALY''))
      else if key \<in> set object_prototype_names then Some (Inherited key)
      else None)"
  by (simp add: classificationMap_get_def classificationMap_def)

lemma valid_not_inherited:
  "c \<in> set validClasses \<Longrightarrow> c \<notin> set object_prototype_names"
  by (auto simp: validClasses_def object_prototype_names_def)

lemma valid_not_key:
  "c \<in> set validClasses \<Longrightarrow>
   c \<noteq> ''CRITICAL_ISSUE'' \<and> c \<noteq> ''POOR_PRACTICE'' \<and> c \<noteq> ''MINOR_CONCERN''"
  by (auto simp: validClasses_def)

lemma canonical_members:
  "''ACTIVE_ATTACK'' \<in> set validClasses" "''POLICY_VIOLATION'' \<in> set validClasses"
  "''BENIGN_ANOMALY'' \<in> set validClasses"
  by (simp_all add: validClasses_def)

lemma checked_in:
  "d \<in> V \<Longrightarrow>
   (case x of Parsed (JString c) \<Rightarrow> if c \<in> V then c else d | _ \<Rightarrow> d) \<in> V"
  by (cases x) (simp_all split: json.splits)

lemma checked_other:
  "\<forall>c \<in> V. x \<noteq> Parsed (JString c) \<Longrightarrow>
   (case x of Parsed (JString c) \<Rightarrow> if c \<in> V then c else d | _ \<Rightarrow> d) = d"
  by (cases x) (auto split: json.splits)

lemma normalize_parsed_object:
  assumes "js_toString env (member_or (JObject ps) ''classification'' (JString ''POLICY_VIOLATION''))
             = Some key"
  shows "\<exists>r. normalize_parsed env (JObject ps) = Inr r
     \<and> ps_classification r \<in> set validClasses
     \<and> (key = ''CRITICAL_ISSUE'' \<longrightarrow> ps_classification r = ''ACTIVE_ATTACK'')
     \<and> (key = ''POOR_PRACTICE'' \<longrightarrow> ps_classification r = ''POLICY_VIOLATION'')
     \<and> (key = ''MINOR_CONCERN'' \<longrightarrow> ps_classification r = ''BENIGN_ANOMALY'')
     \<and> (key \<in> set validClasses \<longrightarrow>
          member_or (JObject ps) ''classification'' (JString ''POLICY_VIOLATION'') = JString key \<longrightarrow>
          ps_classification r = key)
     \<and> (key \<notin> {''CRITICAL_ISSUE'', ''POOR_PRACTICE'', ''MINOR_CONCERN''} \<longrightarrow>
          (\<forall>c \<in> set validClasses.
              member_or (JObject ps) ''classification'' (JString ''POLICY_VIOLATION'') \<noteq> JString c) \<longrightarrow>
          ps_classification r = ''POLICY_VIOLATION'')"
proof -
  define c0 where
    "c0 = member_or (JObject ps) ''classification'' (JString ''POLICY_VIOLATION'')"
  define V where "V = set validClasses"
  define x where
    "x = (case classificationMap_get key of Some mapped \<Rightarrow> mapped | None \<Rightarrow> Parsed c0)"
  define checked where
    "checked = (case x of
                  Parsed (JString c) \<Rightarrow> if c \<in> V then c else ''POLICY_VIOLATION''
                | _ \<Rightarrow> ''POLICY_VIOLATION'')"
  have k: "js_toString env c0 = Some key" using assms by (simp add: c0_def)
  have r: "normalize_parsed env (JObject ps)
             = Inr \<lparr>ps_classification = checked,
                    ps_confidence = member_or (JObject ps) ''confidence'' (JString ''MEDIUM''),
                    ps_one_line_summary =
                      member_or (JObject ps) ''one_line_summary''
                        (JString ''Analysis not available''),
                    ps_root_cause = member_array (JObject ps) ''root_cause'',
                    ps_impact = member_array (JObject ps) ''impact'',
                    ps_next_steps = member_array (JObject ps) ''next_steps''\<rparr>"
    unfolding checked_def x_def V_def c0_def
    using assms by (simp add: normalize_parsed_def Let_def)
  have pv: "''POLICY_VIOLATION'' \<in> V" unfolding V_def by (rule canonical_members)
  have v: "checked \<in> V" unfolding checked_def using pv by (rule checked_in)
  have t1: "key = ''CRITICAL_ISSUE'' \<longrightarrow> checked = ''ACTIVE_ATTACK''"
    unfolding checked_def x_def V_def
    by (simp add: classificationMap_get_cases canonical_members)
  have t2: "key = ''POOR_PRACTICE'' \<longrightarrow> checked = ''POLICY_VIOLATION''"
    unfolding checked_def x_def V_def
    by (simp add: classificationMap_get_cases canonical_members)
  have t3: "key = ''MINOR_CONCERN'' \<longrightarrow> checked = ''BENIGN_ANOMALY''"
    unfolding checked_def x_def V_def
    by (simp add: classificationMap_get_cases canonical_members)
  have keep: "key \<in> V \<longrightarrow> c0 = JString key \<longrightarrow> checked = key"
  proof (intro impI)
    assume kv: "key \<in> V" and c: "c0 = JString key"
    have "classificationMap_get key = None"
      using valid_not_inherited[OF kv[unfolded V_def]] valid_not_key[OF kv[unfolded V_def]]
      by (simp add: classificationMap_get_cases)
    then have "x = Parsed (JString key)" by (simp add: x_def c)
    then show "checked = key" using kv by (simp add: checked_def)
  qed
  have dflt: "key \<notin> {''CRITICAL_ISSUE'', ''POOR_PRACTICE'', ''MINOR_CONCERN''} \<longrightarrow>
                (\<forall>c \<in> V. c0 \<noteq> JString c) \<longrightarrow> checked = ''POLICY_VIOLATION''"
  proof (intro impI)
    assume nk: "key \<notin> {''CRITICAL_ISSUE'', ''POOR_PRACTICE'', ''MINOR_CONCERN''}"
      and nc: "\<forall>c \<in> V. c0 \<noteq> JString c"
    have "x = Inherited key \<or> x = Parsed c0"
      using nk by (simp add: x_def classificationMap_get_cases)
    then have "\<forall>c \<in> V. x \<noteq> Parsed (JString c)" using nc by auto
    then show "checked = ''POLICY_VIOLATION''" unfolding checked_def by (rule checked_other)
  qed
  have "normalize_parsed env (JObject ps)
             = Inr \<lparr>ps_classification = checked,
                    ps_confidence = member_or (JObject ps) ''confidence'' (JString ''MEDIUM''),
                    ps_one_line_summary =
                      member_or (JObject ps) ''one_line_summary''
                        (JString ''Analysis not available''),
                    ps_root_cause = member_array (JObject ps) ''root_cause'',
                    ps_impact = member_array (JObject ps) ''impact'',
                    ps_next_steps = member_array (JObject ps) ''next_steps''\<rparr>
     \<and> checked \<in> V
     \<and> (key = ''CRITICAL_ISSUE'' \<longrightarrow> checked = ''ACTIVE_ATTACK'')
     \<and> (key = ''POOR_PRACTICE'' \<longrightarrow> checked = ''POLICY_VIOLATION'')
     \<and> (key = ''MINOR_CONCERN'' \<longrightarrow> checked = ''BENIGN_ANOMALY'')
     \<and> (key \<in> V \<longrightarrow> c0 = JString key \<longrightarrow> checked = key)
     \<and> (key \<notin> {''CRITICAL_ISSUE'', ''POOR_PRACTICE'', ''MINOR_CONCERN''} \<longrightarrow>
          (\<forall>c \<in> V. c0 \<noteq> JString c) \<longrightarrow> checked = ''POLICY_VIOLATION'')"
    by (intro conjI r v t1 t2 t3 keep dflt)
  then show ?thesis
    unfolding V_def c0_def
    by (intro exI[of _ "\<lparr>ps_classification = checked,
                    ps_confidence = member_or (JObject ps) ''confidence'' (JString ''MEDIUM''),
                    ps_one_line_summary =
                      member_or (JObject ps) ''one_line_summary''
                        (JString ''Analysis not available''),
                    ps_root_cause = member_array (JObject ps) ''root_cause'',
                    ps_impact = member_array (JObject ps) ''impact'',
                    ps_next_steps = member_array (JObject ps) ''next_steps''\<rparr>"])
       simp
qed

lemma primitive_converts:
  "(\<forall>xs. v \<noteq> JArray xs) \<Longrightarrow> (\<forall>qs. v \<noteq> JObject qs) \<Longrightarrow> js_toString env v \<noteq> None"
  by (cases v) simp_all

text \<open>
  Every other answer is treated as intended. Take an answer from which a JSON object is
  extracted and parsed, and let
  the classification be its \<^verbatim>\<open>classification\<close> member, or \<^verbatim>\<open>POLICY_VIOLATION\<close> when that
  member is missing or falsy. When the classification converts to a property key (every
  string, number and boolean does) the parser returns a result whose classification is
  one of the three canonical values: \<^verbatim>\<open>CRITICAL_ISSUE\<close>, \<^verbatim>\<open>POOR_PRACTICE\<close> and
  \<^verbatim>\<open>MINOR_CONCERN\<close> are mapped to \<^verbatim>\<open>ACTIVE_ATTACK\<close>, \<^verbatim>\<open>POLICY_VIOLATION\<close> and
  \<^verbatim>\<open>BENIGN_ANOMALY\<close>, a canonical string is kept, and everything else becomes
  \<^verbatim>\<open>POLICY_VIOLATION\<close>. When the conversion throws, the parser throws 'Failed to parse AI
  JSON'.
\<close>

lemma normalized_when_key_converts:
  assumes "json_match answer = Some jsonStr"
    and "JSON_parse env jsonStr = Inr (JObject ps)"
  shows "case js_toString env
                (member_or (JObject ps) ''classification'' (JString ''POLICY_VIOLATION'')) of
           None \<Rightarrow>
             parseSummaryResponse env answer
               = Inl (Error (''Failed to parse AI JSON: '' @ cannot_convert) None)
             \<and> (\<exists>v. map_of ps ''classification'' = Some v
                    \<and> ((\<exists>xs. v = JArray xs) \<or> (\<exists>qs. v = JObject qs)))
         | Some key \<Rightarrow>
             (\<exists>r. parseSummaryResponse env answer = Inr r
                \<and> ps_classification r
                    \<in> {''ACTIVE_ATTACK'', ''POLICY_VIOLATION'', ''BENIGN_ANOMALY''}
                \<and> (key = ''CRITICAL_ISSUE'' \<longrightarrow> ps_classification r = ''ACTIVE_ATTACK'')
                \<and> (key = ''POOR_PRACTICE'' \<longrightarrow> ps_classification r = ''POLICY_VIOLATION'')
                \<and> (key = ''MINOR_CONCERN'' \<longrightarrow> ps_classification r = ''BENIGN_ANOMALY'')
                \<and> (key \<in> {''ACTIVE_ATTACK'', ''POLICY_VIOLATION'', ''BENIGN_ANOMALY''} \<longrightarrow>
                     map_of ps ''classification'' = Some (JString key) \<longrightarrow>
                     ps_classification r = key)
                \<and> (key \<notin> {''CRITICAL_ISSUE'', ''POOR_PRACTICE'', ''MINOR_CONCERN''} \<longrightarrow>
                     (\<forall>c \<in> {''ACTIVE_ATTACK'', ''BENIGN_ANOMALY''}.
                         map_of ps ''classification'' \<noteq> Some (JString c)) \<longrightarrow>
                     ps_classification r = ''POLICY_VIOLATION''))"
proof (cases "js_toString env
                (member_or (JObject ps) ''classification'' (JString ''POLICY_VIOLATION''))")
  case None
  have thrown: "parseSummaryResponse env answer
               = Inl (Error (''Failed to parse AI JSON: '' @ cannot_convert) None)"
    using assms None by (simp add: parseSummaryResponse_def normalize_parsed_def Let_def)
  have "\<exists>v. map_of ps ''classification'' = Some v
           \<and> ((\<exists>xs. v = JArray xs) \<or> (\<exists>qs. v = JObject qs))"
  proof (cases "map_of ps ''classification''")
    case None
    with \<open>js_toString env _ = None\<close> show ?thesis by (simp add: member_or_def)
  next
    case (Some v)
    show ?thesis
    proof (cases "truthy v")
      case False
      with Some \<open>js_toString env _ = None\<close> show ?thesis by (simp add: member_or_def)
    next
      case True
      with Some \<open>js_toString env _ = None\<close> have "js_toString env v = None"
        by (simp add: member_or_def)
      with primitive_converts[of v env] Some show ?thesis by blast
    qed
  qed
  with thrown None show ?thesis by simp
next
  case (Some key)
  let ?c0 = "member_or (JObject ps) ''classification'' (JString ''POLICY_VIOLATION'')"
  from normalize_parsed_object[OF Some] obtain r where
    rr: "normalize_parsed env (JObject ps) = Inr r
     \<and> ps_classification r \<in> set validClasses
     \<and> (key = ''CRITICAL_ISSUE'' \<longrightarrow> ps_classification r = ''ACTIVE_ATTACK'')
     \<and> (key = ''POOR_PRACTICE'' \<longrightarrow> ps_classification r = ''POLICY_VIOLATION'')
     \<and> (key = ''MINOR_CONCERN'' \<longrightarrow> ps_classification r = ''BENIGN_ANOMALY'')
     \<and> (key \<in> set validClasses \<longrightarrow> ?c0 = JString key \<longrightarrow> ps_classification r = key)
     \<and> (key \<notin> {''CRITICAL_ISSUE'', ''POOR_PRACTICE'', ''MINOR_CONCERN''} \<longrightarrow>
          (\<forall>c \<in> set validClasses. ?c0 \<noteq> JString c) \<longrightarrow>
          ps_classification r = ''POLICY_VIOLATION'')" ..
  note r1 = rr[THEN conjunct1]
  note r2 = rr[THEN conjunct2, THEN conjunct1]
  note r3 = rr[THEN conjunct2, THEN conjunct2, THEN conjunct1]
  note r4 = rr[THEN conjunct2, THEN conjunct2, THEN conjunct2, THEN conjunct1]
  note r5 = rr[THEN conjunct2, THEN conjunct2, THEN conjunct2, THEN conjunct2, THEN conjunct1]
  note r6 = rr[THEN conjunct2, THEN conjunct2, THEN conjunct2, THEN conjunct2, THEN conjunct2,
               THEN conjunct1]
  note r7 = rr[THEN conjunct2, THEN conjunct2, THEN conjunct2, THEN conjunct2, THEN conjunct2,
               THEN conjunct2]
  have p: "parseSummaryResponse env answer = Inr r"
    using assms r1 by (simp add: parseSummaryResponse_def)
  have vs: "set validClasses = {''ACTIVE_ATTACK'', ''POLICY_VIOLATION'', ''BENIGN_ANOMALY''}"
    by (simp add: validClasses_def)
  have v: "ps_classification r \<in> {''ACTIVE_ATTACK'', ''POLICY_VIOLATION'', ''BENIGN_ANOMALY''}"
    using r2 unfolding vs .
  have keep: "key \<in> {''ACTIVE_ATTACK'', ''POLICY_VIOLATION'', ''BENIGN_ANOMALY''} \<longrightarrow>
                map_of ps ''classification'' = Some (JString key) \<longrightarrow>
                ps_classification r = key"
  proof (intro impI)
    assume k: "key \<in> {''ACTIVE_ATTACK'', ''POLICY_VIOLATION'', ''BENIGN_ANOMALY''}"
      and m: "map_of ps ''classification'' = Some (JString key)"
    have "key \<noteq> []" using k by auto
    then have "?c0 = JString key" using m by (simp add: member_or_def)
    moreover have "key \<in> set validClasses" using k unfolding vs .
    ultimately show "ps_classification r = key" using r6 by simp
  qed
  have dflt: "key \<notin> {''CRITICAL_ISSUE'', ''POOR_PRACTICE'', ''MINOR_CONCERN''} \<longrightarrow>
                (\<forall>c \<in> {''ACTIVE_ATTACK'', ''BENIGN_ANOMALY''}.
                    map_of ps ''classification'' \<noteq> Some (JString c)) \<longrightarrow>
                ps_classification r = ''POLICY_VIOLATION''"
  proof (intro impI)
    assume k: "key \<notin> {''CRITICAL_ISSUE'', ''POOR_PRACTICE'', ''MINOR_CONCERN''}"
      and n: "\<forall>c \<in> {''ACTIVE_ATTACK'', ''BENIGN_ANOMALY''}.
                 map_of ps ''classification'' \<noteq> Some (JString c)"
    show "ps_classification r = ''POLICY_VIOLATION''"
    proof (cases "\<forall>c \<in> set validClasses. ?c0 \<noteq> JString c")
      case True
      then show ?thesis using r7 k by simp
    next
      case False
      then obtain c where c: "c \<in> set validClasses" "?c0 = JString c" by blast
      have cp: "c = ''POLICY_VIOLATION''"
      proof (rule ccontr)
        assume ne: "c \<noteq> ''POLICY_VIOLATION''"
        then have "map_of ps ''classification'' = Some (JString c)"
          using c(2) by (auto simp: member_or_def split: option.splits if_splits)
        moreover have "c \<in> {''ACTIVE_ATTACK'', ''BENIGN_ANOMALY''}"
          using c(1) ne unfolding vs by simp
        ultimately show False using n by simp
      qed
      have "key = c" using Some c(2) by simp
      then show ?thesis using r6 c cp by simp
    qed
  qed
  have "\<exists>r. parseSummaryResponse env answer = Inr r
                \<and> ps_classification r
                    \<in> {''ACTIVE_ATTACK'', ''POLICY_VIOLATION'', ''BENIGN_ANOMALY''}
                \<and> (key = ''CRITICAL_ISSUE'' \<longrightarrow> ps_classification r = ''ACTIVE_ATTACK'')
                \<and> (key = ''POOR_PRACTICE'' \<longrightarrow> ps_classification r = ''POLICY_VIOLATION'')
                \<and> (key = ''MINOR_CONCERN'' \<longrightarrow> ps_classification r = ''BENIGN_ANOMALY'')
                \<and> (key \<in> {''ACTIVE_ATTACK'', ''POLICY_VIOLATION'', ''BENIGN_ANOMALY''} \<longrightarrow>
                     map_of ps ''classification'' = Some (JString key) \<longrightarrow>
                     ps_classification r = key)
                \<and> (key \<notin> {''CRITICAL_ISSUE'', ''POOR_PRACTICE'', ''MINOR_CONCERN''} \<longrightarrow>
                     (\<forall>c \<in> {''ACTIVE_ATTACK'', ''BENIGN_ANOMALY''}.
                         map_of ps ''classification'' \<noteq> Some (JString c)) \<longrightarrow>
                     ps_classification r = ''POLICY_VIOLATION'')"
    by (rule exI[of _ r]) (intro conjI p v r3 r4 r5 keep dflt)
  then show ?thesis unfolding Some by (simp only: option.case)
qed

text \<open>A code-quality answer: \<^verbatim>\<open>CRITICAL_ISSUE\<close> comes out as \<^verbatim>\<open>ACTIVE_ATTACK\<close>.\<close>

lemma normalized_when_key_converts_example:
  "json_match critical_issue_text = Some critical_issue_text
   \<and> JSON_parse (example_env 10) critical_issue_text
       = Inr (JObject [(''classification'', JString ''CRITICAL_ISSUE'')])
   \<and> js_toString (example_env 10)
        (member_or (JObject [(''classification'', JString ''CRITICAL_ISSUE'')])
           ''classification'' (JString ''POLICY_VIOLATION'')) = Some ''CRITICAL_ISSUE''
   \<and> (\<exists>r. parseSummaryResponse (example_env 10) critical_issue_text = Inr r
          \<and> ps_classification r = ''ACTIVE_ATTACK'')"
proof -
  have m: "json_match critical_issue_text = Some critical_issue_text"
    by (simp add: critical_issue_text_def json_match_def fence_match_def brace_match_def
          Let_def)
  have p: "JSON_parse (example_env 10) critical_issue_text
       = Inr (JObject [(''classification'', JString ''CRITICAL_ISSUE'')])"
    by (simp add: example_env_def)
  have k: "js_toString (example_env 10)
        (member_or (JObject [(''classification'', JString ''CRITICAL_ISSUE'')])
           ''classification'' (JString ''POLICY_VIOLATION'')) = Some ''CRITICAL_ISSUE''"
    by (simp add: member_or_def)
  from normalized_when_key_converts[OF m p] k
  have "\<exists>r. parseSummaryResponse (example_env 10) critical_issue_text = Inr r
          \<and> ps_classification r = ''ACTIVE_ATTACK''"
    by auto
  then show ?thesis using m p k by blast
qed


section \<open>The poller's backoff\<close>

lemma increaseBackoff_config [simp]: "config (increaseBackoff rnd p) = config p"
  by (simp add: increaseBackoff_def Let_def)

lemma resetBackoff_config [simp]: "config (resetBackoff p) = config p"
  by (simp add: resetBackoff_def)

lemma poll_cycle_config [simp]: "config (snd (poll_cycle c rnd p)) = config p"
  by (cases c) (simp_all add: poll_cycle_def Let_def split: option.splits)

lemma poll_run_config [simp]: "config (poll_run cycles p) = config p"
proof (induction cycles arbitrary: p)
  case Nil
  then show ?case by simp
next
  case (Cons a cycles)
  obtain c rnd where a: "a = (c, rnd)" by (cases a)
  show ?case by (simp add: a Cons.IH)
qed

text \<open>
  For any configuration whose multiplier is at least 5/4 and whose floor is non-negative
  and not above its ceiling, \<^verbatim>\<open>increaseBackoff\<close> never lowers a backoff that lies within the
  bounds, and keeps it within them.
\<close>

lemma increaseBackoff_grows:
  assumes m: "5 / 4 \<le> backoffMultiplier (config p)"
    and f: "0 \<le> initialBackoff (config p)"
    and b: "backoff_in_bounds p"
    and r: "0 \<le> rnd"
  shows "currentBackoff p \<le> currentBackoff (increaseBackoff rnd p)
     \<and> backoff_in_bounds (increaseBackoff rnd p)"
proof -
  let ?c = "currentBackoff p"
  let ?k = "backoffMultiplier (config p) * (0.8 + rnd * 0.4)"
  have c0: "0 \<le> ?c" and cmax: "?c \<le> maxBackoff (config p)"
    and cmin: "initialBackoff (config p) \<le> ?c"
    using b f by (simp_all add: backoff_in_bounds_def)
  have j: "(4 / 5 :: real) \<le> 0.8 + rnd * 0.4" using r by simp
  have "1 = (5 / 4 :: real) * (4 / 5)" by simp
  also have "\<dots> \<le> backoffMultiplier (config p) * (0.8 + rnd * 0.4)"
    using m j by (intro mult_mono) simp_all
  finally have k1: "1 \<le> ?k" .
  have "?c * 1 \<le> ?c * ?k" using c0 k1 by (rule mult_left_mono[rotated])
  then have up: "?c \<le> ?c * backoffMultiplier (config p) * (0.8 + rnd * 0.4)"
    by (simp add: mult.assoc)
  have cur: "currentBackoff (increaseBackoff rnd p)
      = min (?c * backoffMultiplier (config p) * (0.8 + rnd * 0.4)) (maxBackoff (config p))"
    by (simp add: increaseBackoff_def Let_def)
  have ge: "?c \<le> currentBackoff (increaseBackoff rnd p)"
    unfolding cur using up cmax by simp
  moreover have "currentBackoff (increaseBackoff rnd p) \<le> maxBackoff (config p)"
    unfolding cur by simp
  ultimately show ?thesis
    using cmin by (simp add: backoff_in_bounds_def)
qed

lemma resetBackoff_floor:
  "initialBackoff (config p) \<le> maxBackoff (config p) \<Longrightarrow>
   currentBackoff (resetBackoff p) = initialBackoff (config p)
   \<and> backoff_in_bounds (resetBackoff p)"
  by (simp add: resetBackoff_def backoff_in_bounds_def)

lemma bounds_ignore [simp]:
  "backoff_in_bounds (p\<lparr>pollCount := n\<rparr>) = backoff_in_bounds p"
  "backoff_in_bounds (p\<lparr>lastEtag := t\<rparr>) = backoff_in_bounds p"
  "backoff_in_bounds (p\<lparr>seenEventIds := ids\<rparr>) = backoff_in_bounds p"
  by (simp_all add: backoff_in_bounds_def)

lemma increaseBackoff_ignore [simp]:
  "currentBackoff (increaseBackoff rnd (p\<lparr>pollCount := n\<rparr>))
     = currentBackoff (increaseBackoff rnd p)"
  "currentBackoff (increaseBackoff rnd (p\<lparr>lastEtag := t\<rparr>))
     = currentBackoff (increaseBackoff rnd p)"
  "currentBackoff (increaseBackoff rnd (p\<lparr>seenEventIds := ids\<rparr>))
     = currentBackoff (increaseBackoff rnd p)"
  by (simp_all add: increaseBackoff_def Let_def)

lemma poll_cycle_backoff:
  "currentBackoff (snd (poll_cycle c rnd p)) =
     (if succeeded c then initialBackoff (config p)
      else if c = RateLimited (Some None) \<or> (\<exists>n. c = RateLimited (Some (Some n)))
           then currentBackoff p
      else currentBackoff (increaseBackoff rnd p))"
  by (cases c)
     (auto simp: poll_cycle_def succeeded_def resetBackoff_def Let_def split: option.splits)

lemma poll_cycle_step:
  assumes m: "5 / 4 \<le> backoffMultiplier (config p)"
    and f: "0 \<le> initialBackoff (config p)"
    and fm: "initialBackoff (config p) \<le> maxBackoff (config p)"
    and b: "backoff_in_bounds p"
    and r: "0 \<le> rnd"
  shows "backoff_in_bounds (snd (poll_cycle c rnd p))
     \<and> (succeeded c \<longrightarrow> currentBackoff (snd (poll_cycle c rnd p)) = initialBackoff (config p))
     \<and> (\<not> succeeded c \<longrightarrow> currentBackoff p \<le> currentBackoff (snd (poll_cycle c rnd p)))"
proof -
  from increaseBackoff_grows[OF m f b r] have
    g: "currentBackoff p \<le> currentBackoff (increaseBackoff rnd p)"
    and gb: "backoff_in_bounds (increaseBackoff rnd p)" by simp_all
  have inb: "backoff_in_bounds (snd (poll_cycle c rnd p))"
    unfolding backoff_in_bounds_def poll_cycle_config poll_cycle_backoff
    using fm b gb by (auto simp: backoff_in_bounds_def)
  moreover have "succeeded c \<longrightarrow>
      currentBackoff (snd (poll_cycle c rnd p)) = initialBackoff (config p)"
    by (simp add: poll_cycle_backoff)
  moreover have "\<not> succeeded c \<longrightarrow>
      currentBackoff p \<le> currentBackoff (snd (poll_cycle c rnd p))"
    using g by (simp add: poll_cycle_backoff)
  ultimately show ?thesis by blast
qed

lemma poll_run_bounds:
  assumes "5 / 4 \<le> backoffMultiplier (config p)"
    and "0 \<le> initialBackoff (config p)"
    and "initialBackoff (config p) \<le> maxBackoff (config p)"
    and "backoff_in_bounds p"
    and "\<forall>(c, rnd) \<in> set cycles. 0 \<le> rnd \<and> rnd < 1"
  shows "backoff_in_bounds (poll_run cycles p)"
  using assms
proof (induction cycles arbitrary: p)
  case Nil
  then show ?case by simp
next
  case (Cons a cycles)
  obtain c rnd where a: "a = (c, rnd)" by (cases a)
  have r: "0 \<le> rnd" using Cons.prems(5) by (simp add: a)
  from poll_cycle_step[OF Cons.prems(1,2,3,4) r, of c]
  have b: "backoff_in_bounds (snd (poll_cycle c rnd p))" by simp
  have rest: "\<forall>(c, rnd) \<in> set cycles. 0 \<le> rnd \<and> rnd < 1"
    using Cons.prems(5) by simp
  show ?case
    using Cons.IH[of "snd (poll_cycle c rnd p)"] Cons.prems(1,2,3) b rest
    by (simp add: a)
qed

lemma poller_config:
  "initialBackoff (config (poller token ml backend)) = 5000"
  "maxBackoff (config (poller token ml backend)) = 300000"
  "backoffMultiplier (config (poller token ml backend)) = 2"
  "pollInterval (config (poller token ml backend)) = 10000"
  "currentBackoff (poller token ml backend) = 5000"
  by (simp_all add: poller_def new_GitHubEventsPoller_def no_overrides_def override_def Let_def)

text \<open>
  C6. Start from the poller the program constructs and run it through any sequence of
  poll cycles (with \<^verbatim>\<open>Math.random()\<close> giving values from 0 to below 1). Its floor is
  5000 ms and its ceiling 300000 ms, and its backoff lies between them. Whatever the next
  cycle is: the backoff still lies between them afterwards; a successful cycle (304, or 200
  handled without a throw) sets it to the floor; any other cycle leaves it at least as
  large as it was. Every value \<^verbatim>\<open>increaseBackoff\<close> computes lies between floor and
  ceiling.
\<close>

theorem backoff_nondecreasing_within_bounds:
  assumes "\<forall>(c, r) \<in> set cycles. 0 \<le> r \<and> r < 1" and "0 \<le> rnd" and "rnd < 1"
  shows "initialBackoff (config (poll_run cycles (poller token ml backend))) = 5000
     \<and> maxBackoff (config (poll_run cycles (poller token ml backend))) = 300000
     \<and> backoff_in_bounds (poll_run cycles (poller token ml backend))
     \<and> backoff_in_bounds (snd (poll_cycle c rnd (poll_run cycles (poller token ml backend))))
     \<and> (succeeded c \<longrightarrow>
          currentBackoff (snd (poll_cycle c rnd (poll_run cycles (poller token ml backend))))
            = initialBackoff (config (poll_run cycles (poller token ml backend))))
     \<and> (\<not> succeeded c \<longrightarrow>
          currentBackoff (poll_run cycles (poller token ml backend))
            \<le> currentBackoff (snd (poll_cycle c rnd
                  (poll_run cycles (poller token ml backend)))))
     \<and> backoff_in_bounds (increaseBackoff rnd (poll_run cycles (poller token ml backend)))
     \<and> currentBackoff (poll_run cycles (poller token ml backend))
          \<le> currentBackoff (increaseBackoff rnd (poll_run cycles (poller token ml backend)))"
proof -
  define p0 where "p0 = poller token ml backend"
  define p where "p = poll_run cycles p0"
  have cfg: "config p = config p0" by (simp add: p_def)
  have c0: "initialBackoff (config p0) = 5000" "maxBackoff (config p0) = 300000"
    "backoffMultiplier (config p0) = 2" "currentBackoff p0 = 5000"
    unfolding p0_def by (rule poller_config)+
  have m0: "5 / 4 \<le> backoffMultiplier (config p0)" by (simp add: c0)
  have f0: "0 \<le> initialBackoff (config p0)" by (simp add: c0)
  have fm0: "initialBackoff (config p0) \<le> maxBackoff (config p0)" by (simp add: c0)
  have b0: "backoff_in_bounds p0" by (simp add: backoff_in_bounds_def c0)
  have b: "backoff_in_bounds p"
    unfolding p_def using m0 f0 fm0 b0 assms(1) by (rule poll_run_bounds)
  have m: "5 / 4 \<le> backoffMultiplier (config p)" by (simp add: cfg c0)
  have f: "0 \<le> initialBackoff (config p)" by (simp add: cfg c0)
  have fm: "initialBackoff (config p) \<le> maxBackoff (config p)" by (simp add: cfg c0)
  note s = poll_cycle_step[OF m f fm b assms(2), of c]
  note g = increaseBackoff_grows[OF m f b assms(2)]
  have "initialBackoff (config p) = 5000 \<and> maxBackoff (config p) = 300000"
    by (simp add: cfg c0)
  with b s g show ?thesis
    unfolding p_def p0_def by blast
qed

text \<open>
  An unexpected status, then a network error, then a rate limit without a retry hint,
  with the jitter at its lowest, its middle and its lowest: 5000, 8000, 16000, 25600.
\<close>

theorem backoff_nondecreasing_within_bounds_witness:
  "(0 :: real) \<le> 0 \<and> (0 :: real) < 1 \<and> (0 :: real) \<le> 1 / 2 \<and> (1 / 2 :: real) < 1
   \<and> \<not> succeeded (RateLimited None)
   \<and> currentBackoff (poll_run [(Unexpected 500, 0), (Threw, 1 / 2)] (poller None ''ml'' ''api''))
       = 16000
   \<and> currentBackoff (snd (poll_cycle (RateLimited None) 0
        (poll_run [(Unexpected 500, 0), (Threw, 1 / 2)] (poller None ''ml'' ''api''))))
       = 25600
   \<and> backoff_in_bounds (snd (poll_cycle (RateLimited None) 0
        (poll_run [(Unexpected 500, 0), (Threw, 1 / 2)] (poller None ''ml'' ''api''))))"
proof -
  define cycles where "cycles = [(Unexpected 500, 0 :: real), (Threw, 1 / 2)]"
  define p where "p = poll_run cycles (poller None ''ml'' ''api'')"
  have h: "\<forall>(c, r) \<in> set cycles. 0 \<le> r \<and> r < 1" by (simp add: cycles_def)
  have ns: "\<not> succeeded (RateLimited None)" by (simp add: succeeded_def)
  have v: "currentBackoff p = 16000"
    by (simp add: p_def cycles_def poller_def new_GitHubEventsPoller_def no_overrides_def
          override_def poll_cycle_def increaseBackoff_def Let_def)
  have v': "currentBackoff (snd (poll_cycle (RateLimited None) 0 p)) = 25600"
    by (simp add: poll_cycle_def increaseBackoff_def Let_def v p_def cycles_def
          poller_def new_GitHubEventsPoller_def no_overrides_def override_def)
  from backoff_nondecreasing_within_bounds[OF h, of 0 None "''ml''" "''api''" "RateLimited None"]
  have "backoff_in_bounds (snd (poll_cycle (RateLimited None) 0 p))"
    unfolding p_def by simp
  then show ?thesis
    using ns v v' unfolding p_def cycles_def by simp
qed


end
